theory Spec2Isabelle
  imports Main "HOL-Library.Word"
begin

section \<open>Go values shared by the two packages\<close>

text \<open>
  A Go \<open>error\<close> value: either created with a message (\<open>errors.Errorf\<close>, or an error
  handed back by a library), or another error wrapped with a message
  (\<open>errors.Wrap\<close>, \<open>errors.Wrapf\<close>), or a \<open>bytebase.Error\<close> with its code.
  \<open>Error\<close> is the method \<open>Error()\<close>: a wrapped error prints as
  \<open>message: cause\<close>.
\<close>

datatype err_code = ENOTFOUND | ECONFLICT

datatype gerror =
    New string
  | Wrap gerror string
  | BBError err_code string

fun Error :: "gerror \<Rightarrow> string" where
  "Error (New m) = m"
| "Error (Wrap e m) = m @ '': '' @ Error e"
| "Error (BBError c m) = m"

text \<open>The verb \<open>%d\<close> of \<open>fmt.Sprintf\<close> on an integer: its decimal digits.\<close>

definition digit_char :: "nat \<Rightarrow> char" where
  "digit_char n = ''0123456789'' ! (n mod 10)"

function digits :: "nat \<Rightarrow> string" where
  "digits n = (if n < 10 then [digit_char n] else digits (n div 10) @ [digit_char n])"
  by pat_completeness auto
termination
  by (relation "measure (\<lambda>n. n)") auto

definition fmt_d :: "int \<Rightarrow> string" where
  "fmt_d i = (if i < 0 then CHR ''-'' # digits (nat (- i)) else digits (nat i))"

section \<open>Package \<open>path/filepath\<close> on a Unix system\<close>

text \<open>
  \<open>filepath.Clean\<close> reads the path element by element: empty elements and \<open>.\<close> are
  dropped, \<open>..\<close> removes the element before it when there is one to remove, is kept
  at the front of a relative path and dropped at the root; the empty result is \<open>.\<close>.
\<close>

fun split_sep :: "string \<Rightarrow> string list" where
  "split_sep [] = [[]]"
| "split_sep (c # cs) =
     (if c = CHR ''/'' then [] # split_sep cs
      else (case split_sep cs of [] \<Rightarrow> [[c]] | e # es \<Rightarrow> (c # e) # es))"

fun join_sep :: "string list \<Rightarrow> string" where
  "join_sep [] = []"
| "join_sep [e] = e"
| "join_sep (e # es) = e @ ''/'' @ join_sep es"

fun clean_elems :: "bool \<Rightarrow> string list \<Rightarrow> string list \<Rightarrow> string list" where
  "clean_elems rooted [] out = out"
| "clean_elems rooted (e # es) out =
     (if e = [] \<or> e = ''.'' then clean_elems rooted es out
      else if e = ''..'' then
        (if out \<noteq> [] \<and> last out \<noteq> ''..'' then clean_elems rooted es (butlast out)
         else if \<not> rooted then clean_elems rooted es (out @ [''..''])
         else clean_elems rooted es out)
      else clean_elems rooted es (out @ [e]))"

definition filepath_Clean :: "string \<Rightarrow> string" where
  "filepath_Clean path =
     (if path = [] then ''.''
      else
        let rooted = (hd path = CHR ''/'');
            out = clean_elems rooted (split_sep path) []
        in if rooted then CHR ''/'' # join_sep out
           else if out = [] then ''.''
           else join_sep out)"

text \<open>
  \<open>filepath.Join\<close> skips the leading empty elements, joins the others with the
  separator and cleans the result; with nothing left it returns the empty string.
\<close>

definition filepath_Join :: "string list \<Rightarrow> string" where
  "filepath_Join elem =
     (case dropWhile (\<lambda>e. e = []) elem of
        [] \<Rightarrow> []
      | e # es \<Rightarrow> filepath_Clean (join_sep (e # es)))"

text \<open>\<open>filepath.Dir\<close>: all but the last element of the path, cleaned.\<close>

definition filepath_Dir :: "string \<Rightarrow> string" where
  "filepath_Dir path = filepath_Clean (rev (dropWhile (\<lambda>c. c \<noteq> CHR ''/'') (rev path)))"

section \<open>The database backup executor (\<open>server/task_executor_database_backup.go\<close>)\<close>

subsection \<open>Data\<close>

text \<open>
  The structs of package \<open>api\<close> that the executor reads, with the fields it uses.
  \<open>api.BackupStorageBackend\<close> and the backup status are string types.
\<close>

type_synonym BackupStorageBackend = string

text \<open>Modelled from the spec: the values of the constants of \<open>api.BackupStorageBackend\<close>
  and of the backup status, which package \<open>api\<close> declares (storage backend \<open>LOCAL\<close> or
  \<open>S3\<close>, status \<open>DONE\<close> or \<open>FAILED\<close>).\<close>

definition BackupStorageBackendLocal :: BackupStorageBackend where
  "BackupStorageBackendLocal = ''LOCAL''"

definition BackupStorageBackendS3 :: BackupStorageBackend where
  "BackupStorageBackendS3 = ''S3''"

definition BackupStatusDone :: string where
  "BackupStatusDone = ''DONE''"

definition BackupStatusFailed :: string where
  "BackupStatusFailed = ''FAILED''"

record Backup =
  backup_ID :: int
  backup_DatabaseID :: int
  backup_Name :: string
  backup_StorageBackend :: BackupStorageBackend
  backup_Path :: string

record BackupPatch =
  patch_ID :: int
  patch_Status :: "string option"
  patch_UpdaterID :: int
  patch_Comment :: "string option"
  patch_Payload :: "string option"

record Instance =
  instance_Name :: string

record Database =
  database_Name :: string

record Task =
  task_Payload :: string
  task_Instance :: Instance
  task_Database :: Database

record TaskDatabaseBackupPayload =
  BackupID :: int

record TaskRunResultPayload =
  Detail :: string

record Profile =
  DataDir :: string

subsection \<open>The world outside the executor\<close>

text \<open>
  Every call that leaves the executor is answered by the environment: the JSON decoder,
  the backup store, the \<open>statfs\<close> system call (free blocks and block size), the driver
  factory, the driver's \<open>Dump\<close> (the bytes it wrote to the file and what it returned),
  the object storage client, and the failures of \<open>os.Create\<close>, \<open>os.Open\<close> and
  \<open>os.Remove\<close>. \<open>quote\<close> is the verb \<open>%q\<close> of package \<open>fmt\<close>, and \<open>SystemBotID\<close>
  the constant of package \<open>api\<close>.
\<close>

record env =
  unmarshal :: "string \<Rightarrow> gerror + TaskDatabaseBackupPayload"
  GetBackupByID :: "int \<Rightarrow> gerror + Backup option"
  Statfs :: "string \<Rightarrow> gerror + (64 word \<times> 64 word)"
  GetAdminDatabaseDriver :: "Instance \<Rightarrow> string \<Rightarrow> gerror option"
  create_err :: "string \<Rightarrow> gerror option"
  Dump :: "string \<Rightarrow> string \<times> (gerror + string)"
  open_err :: "string \<Rightarrow> gerror option"
  UploadObject :: "string \<Rightarrow> string \<Rightarrow> gerror option"
  remove_err :: "string \<Rightarrow> gerror option"
  PatchBackup :: "BackupPatch \<Rightarrow> gerror option"
  quote :: "string \<Rightarrow> string"
  SystemBotID :: int

text \<open>
  What the executor does to the outside is recorded in order: the local files (path to
  content) and the calls made.
\<close>

datatype event =
    EvGetBackupByID int
  | EvStatfs string
  | EvGetAdminDatabaseDriver string string
  | EvDriverClose
  | EvCreate string
  | EvDump string string
  | EvOpen string
  | EvUploadObject string string
  | EvRemove string
  | EvPatchBackup BackupPatch
  | EvLogWarn string

record world =
  files :: "string \<rightharpoonup> string"
  trace :: "event list"

definition emit :: "event \<Rightarrow> world \<Rightarrow> world" where
  "emit e w = w\<lparr>trace := trace w @ [e]\<rparr>"

text \<open>\<open>os.Remove\<close>: fails when the system refuses or when there is no such file.\<close>

definition os_Remove :: "env \<Rightarrow> string \<Rightarrow> world \<Rightarrow> gerror option \<times> world" where
  "os_Remove env p w =
     (let w1 = emit (EvRemove p) w in
      case remove_err env p of
        Some e \<Rightarrow> (Some e, w1)
      | None \<Rightarrow>
          (if files w1 p = None
           then (Some (New (''remove '' @ p @ '': no such file or directory'')), w1)
           else (None, w1\<lparr>files := (files w1)(p := None)\<rparr>)))"

subsection \<open>The functions of the file\<close>

definition minAvailableFSBytes :: "64 word" where
  "minAvailableFSBytes = 500 * 1024 * 1024"

definition getBackupRelativeDir :: "int \<Rightarrow> string" where
  "getBackupRelativeDir databaseID = filepath_Join [''backup'', ''db'', fmt_d databaseID]"

definition getBackupRelativeFilePath :: "int \<Rightarrow> string \<Rightarrow> string" where
  "getBackupRelativeFilePath databaseID name =
     (let dir = getBackupRelativeDir databaseID
      in filepath_Join [dir, name @ ''.sql''])"

definition getBackupAbsFilePath :: "string \<Rightarrow> int \<Rightarrow> string \<Rightarrow> string" where
  "getBackupAbsFilePath dataDir databaseID name =
     (let path = getBackupRelativeFilePath databaseID name
      in filepath_Join [dataDir, path])"

definition getAvailableFSSpace :: "env \<Rightarrow> string \<Rightarrow> world \<Rightarrow> (gerror + 64 word) \<times> world" where
  "getAvailableFSSpace env path w =
     (let w1 = emit (EvStatfs path) w in
      case Statfs env path of
        Inl e \<Rightarrow> (Inl (Wrap e ''failed to call syscall statfs''), w1)
      | Inr (bavail, bsize) \<Rightarrow> (Inr (bavail * bsize), w1))"

definition removeLocalBackupFile :: "env \<Rightarrow> string \<Rightarrow> Backup \<Rightarrow> world \<Rightarrow> gerror option \<times> world" where
  "removeLocalBackupFile env dataDir backup w =
     (if backup_StorageBackend backup \<noteq> BackupStorageBackendLocal then (None, w)
      else
        let backupFilePath = getBackupAbsFilePath dataDir (backup_DatabaseID backup) (backup_Name backup)
        in case os_Remove env backupFilePath w of
             (Some e, w1) \<Rightarrow>
               (Some (Wrap e (''failed to delete the local backup file '' @ backupFilePath)), w1)
           | (None, w1) \<Rightarrow> (None, w1))"

text \<open>
  \<open>dumpBackupFile\<close>: \<open>os.Create\<close> makes the file empty, the driver writes into it, and
  the result is the pair that Go returns (the payload is empty with an error).
\<close>

definition dumpBackupFile :: "env \<Rightarrow> string \<Rightarrow> string \<Rightarrow> world \<Rightarrow> (string \<times> gerror option) \<times> world" where
  "dumpBackupFile env databaseName backupFilePath w =
     (let w1 = emit (EvCreate backupFilePath) w in
      case create_err env backupFilePath of
        Some e \<Rightarrow> (([], Some (New (''failed to open backup path '' @ quote env backupFilePath))), w1)
      | None \<Rightarrow>
          (let w2 = w1\<lparr>files := (files w1)(backupFilePath \<mapsto> [])\<rparr>;
               (written, res) = Dump env databaseName;
               w3 = emit (EvDump databaseName backupFilePath)
                      (w2\<lparr>files := (files w2)(backupFilePath \<mapsto> written)\<rparr>)
           in case res of
                Inl e \<Rightarrow>
                  (([], Some (Wrap e (''failed to dump database '' @ quote env databaseName
                                       @ '' to local backup file '' @ quote env backupFilePath))), w3)
              | Inr payload \<Rightarrow> ((payload, None), w3)))"

text \<open>
  \<open>backupDatabase\<close>: the driver is closed on every way out once it has been acquired
  (the deferred \<open>driver.Close\<close>).
\<close>

definition backupDatabase ::
  "env \<Rightarrow> Profile \<Rightarrow> Instance \<Rightarrow> string \<Rightarrow> Backup \<Rightarrow> world \<Rightarrow> (string \<times> gerror option) \<times> world" where
  "backupDatabase env profile inst databaseName backup w =
     (let w1 = emit (EvGetAdminDatabaseDriver (instance_Name inst) databaseName) w in
      case GetAdminDatabaseDriver env inst databaseName of
        Some e \<Rightarrow> (([], Some e), w1)
      | None \<Rightarrow>
          (let backupFilePathLocal = filepath_Join [DataDir profile, backup_Path backup];
               (r, w') =
                 (case dumpBackupFile env databaseName backupFilePathLocal w1 of
                    ((payload, Some e), w2) \<Rightarrow>
                      (([], Some (Wrap e (''failed to dump backup file '' @ quote env backupFilePathLocal))), w2)
                  | ((payload, None), w2) \<Rightarrow>
                      (if backup_StorageBackend backup = BackupStorageBackendLocal
                       then ((payload, None), w2)
                       else if backup_StorageBackend backup = BackupStorageBackendS3
                       then
                         (let w3 = emit (EvOpen backupFilePathLocal) w2 in
                          case open_err env backupFilePathLocal of
                            Some e \<Rightarrow>
                              (([], Some (Wrap e (''failed to open backup file ''
                                   @ quote env backupFilePathLocal @ '' for uploading to s3 bucket''))), w3)
                          | None \<Rightarrow>
                              (let content = (case files w3 backupFilePathLocal of None \<Rightarrow> [] | Some c \<Rightarrow> c);
                                   w4 = emit (EvUploadObject (backup_Path backup) content) w3
                               in case UploadObject env (backup_Path backup) content of
                                    Some e \<Rightarrow> (([], Some (Wrap e ''failed to upload backup to AWS S3'')), w4)
                                  | None \<Rightarrow>
                                      (case os_Remove env backupFilePathLocal w4 of
                                         (Some e, w5) \<Rightarrow>
                                           ((payload, None),
                                            emit (EvLogWarn ''Failed to remove the local backup file after uploading to s3 bucket.'') w5)
                                       | (None, w5) \<Rightarrow> ((payload, None), w5))))
                       else
                         (([], Some (New (''backup to '' @ backup_StorageBackend backup
                              @ '' not implemented yet''))), w2)))
           in (r, emit EvDriverClose w')))"

text \<open>
  \<open>RunOnce\<close> returns \<open>(terminated, result, err)\<close>; \<open>None\<close> is Go's \<open>nil\<close>.
\<close>

definition RunOnce ::
  "env \<Rightarrow> Profile \<Rightarrow> Task \<Rightarrow> world \<Rightarrow> (bool \<times> TaskRunResultPayload option \<times> gerror option) \<times> world" where
  "RunOnce env profile task w =
     (case unmarshal env (task_Payload task) of
        Inl e \<Rightarrow> ((True, None, Some (Wrap e ''invalid database backup payload'')), w)
      | Inr payload \<Rightarrow>
          (let w1 = emit (EvGetBackupByID (BackupID payload)) w in
           case GetBackupByID env (BackupID payload) of
             Inl e \<Rightarrow>
               ((True, None, Some (Wrap e (''failed to find backup with ID '' @ fmt_d (BackupID payload)))), w1)
           | Inr None \<Rightarrow>
               ((True, None, Some (New (''backup '' @ fmt_d (BackupID payload) @ '' not found''))), w1)
           | Inr (Some backup) \<Rightarrow>
               (let backupFileDir = filepath_Dir (filepath_Join [DataDir profile, backup_Path backup]);
                    (space, w2) =
                      (if backup_StorageBackend backup = BackupStorageBackendLocal
                       then (case getAvailableFSSpace env backupFileDir w1 of
                               (Inl e, w') \<Rightarrow>
                                 (Some (Wrap e (''failed to get available file system space, backup file dir is ''
                                                 @ backupFileDir)), w')
                             | (Inr availableBytes, w') \<Rightarrow>
                                 (if availableBytes < minAvailableFSBytes
                                  then (Some (New (''the available file system space ''
                                          @ fmt_d (uint (availableBytes div 1024 div 1024))
                                          @ ''MB is less than the minimal threshold ''
                                          @ fmt_d (uint (minAvailableFSBytes div 1024 div 1024)) @ ''MB'')), w')
                                  else (None, w')))
                       else (None, w1))
                in case space of
                     Some e \<Rightarrow> ((True, None, Some e), w2)
                   | None \<Rightarrow>
                       (case backupDatabase env profile (task_Instance task)
                               (database_Name (task_Database task)) backup w2 of
                          ((backupPayload, backupErr), w3) \<Rightarrow>
                            (let backupStatus = (case backupErr of None \<Rightarrow> BackupStatusDone
                                                 | Some e \<Rightarrow> BackupStatusFailed);
                                 comment = (case backupErr of None \<Rightarrow> [] | Some e \<Rightarrow> Error e);
                                 w4 = (case backupErr of
                                         None \<Rightarrow> w3
                                       | Some e \<Rightarrow>
                                           (case removeLocalBackupFile env (DataDir profile) backup w3 of
                                              (Some e', w') \<Rightarrow> emit (EvLogWarn (Error e')) w'
                                            | (None, w') \<Rightarrow> w'));
                                 backupPatch = \<lparr>patch_ID = backup_ID backup,
                                                patch_Status = Some backupStatus,
                                                patch_UpdaterID = SystemBotID env,
                                                patch_Comment = Some comment,
                                                patch_Payload = Some backupPayload\<rparr>;
                                 w5 = emit (EvPatchBackup backupPatch) w4
                             in case PatchBackup env backupPatch of
                                  Some e \<Rightarrow> ((True, None, Some (Wrap e ''failed to patch backup'')), w5)
                                | None \<Rightarrow>
                                    (case backupErr of
                                       Some e \<Rightarrow> ((True, None, Some e), w5)
                                     | None \<Rightarrow>
                                         ((True,
                                           Some \<lparr>Detail = ''Backup database ''
                                                   @ quote env (database_Name (task_Database task))\<rparr>,
                                           None), w5)))))))"

section \<open>The pipeline store (\<open>store/pipeline.go\<close>)\<close>

subsection \<open>Data\<close>

record Pipeline =
  pipeline_ID :: int
  pipeline_CreatorId :: int
  pipeline_CreatedTs :: int
  pipeline_UpdaterId :: int
  pipeline_UpdatedTs :: int
  pipeline_Name :: string
  pipeline_Status :: string

record PipelineCreate =
  create_CreatorId :: int
  create_Name :: string

record PipelineFind =
  find_ID :: "int option"
  find_Status :: "string option"

record PipelinePatch =
  ppatch_ID :: int
  ppatch_UpdaterId :: int
  ppatch_Status :: "string option"

datatype CacheNamespace = PipelineCache

text \<open>
  The database answers through the environment: whether \<open>BeginTx\<close>, a statement, the
  scan of a row, the end of the iteration or \<open>Commit\<close> fail, and the timestamp it gives
  a new row. \<open>FormatError\<close> is the helper of package \<open>store\<close> that translates a
  database error, and \<open>fmt_find\<close> the verb \<open>%+v\<close> on the filter.
\<close>

record denv =
  BeginTx_err :: "gerror option"
  Query_err :: "gerror option"
  Scan_err :: "Pipeline \<Rightarrow> gerror option"
  Rows_err :: "gerror option"
  Commit_err :: "gerror option"
  now :: int
  FormatError :: "gerror \<Rightarrow> gerror"
  fmt_find :: "PipelineFind \<Rightarrow> string"

datatype store_event =
    EvBeginTx
  | EvInsert PipelineCreate
  | EvSelect PipelineFind
  | EvUpdate PipelinePatch
  | EvCommit
  | EvRollback
  | EvFindCache CacheNamespace int
  | EvUpsertCache CacheNamespace int Pipeline

text \<open>
  The state of the service: the committed rows of table \<open>pipeline\<close>, the cache, and the
  calls made to the database and to the cache, in order. A transaction works on its own
  copy of the rows.
\<close>

type_synonym Tx = "Pipeline list"

record store =
  pipeline_table :: "Pipeline list"
  cache :: "CacheNamespace \<times> int \<rightharpoonup> Pipeline"
  calls :: "store_event list"

definition log_call :: "store_event \<Rightarrow> store \<Rightarrow> store" where
  "log_call e s = s\<lparr>calls := calls s @ [e]\<rparr>"

definition BeginTx :: "denv \<Rightarrow> store \<Rightarrow> (gerror + Tx) \<times> store" where
  "BeginTx env s =
     (case BeginTx_err env of
        Some e \<Rightarrow> (Inl e, log_call EvBeginTx s)
      | None \<Rightarrow> (Inr (pipeline_table s), log_call EvBeginTx s))"

definition Commit :: "denv \<Rightarrow> Tx \<Rightarrow> store \<Rightarrow> gerror option \<times> store" where
  "Commit env tx s =
     (case Commit_err env of
        Some e \<Rightarrow> (Some e, log_call EvCommit s)
      | None \<Rightarrow> (None, (log_call EvCommit s)\<lparr>pipeline_table := tx\<rparr>))"

definition Rollback :: "store \<Rightarrow> store" where
  "Rollback s = log_call EvRollback s"

text \<open>Modelled from the spec: the Cache Layer, which is not in this file: a write-through
  key/value cache keyed by entity kind and id. \<open>FindCache\<close> returns the entry when the
  key is present, \<open>UpsertCache\<close> stores the entry under the key. The spec names no
  failure of the cache, and both calls succeed here; the service still tests the error
  they return, as the source does.\<close>

definition FindCache :: "CacheNamespace \<Rightarrow> int \<Rightarrow> store \<Rightarrow> (gerror + Pipeline option) \<times> store" where
  "FindCache ns i s = (Inr (cache s (ns, i)), log_call (EvFindCache ns i) s)"

definition UpsertCache :: "CacheNamespace \<Rightarrow> int \<Rightarrow> Pipeline \<Rightarrow> store \<Rightarrow> gerror option \<times> store" where
  "UpsertCache ns i p s = (None, (log_call (EvUpsertCache ns i p) s)\<lparr>cache := (cache s)((ns, i) \<mapsto> p)\<rparr>)"

subsection \<open>The statements\<close>

text \<open>The id the database gives a new row: one that no row has.\<close>

definition fresh_id :: "Tx \<Rightarrow> int" where
  "fresh_id tx = foldr max (map pipeline_ID tx) 0 + 1"

text \<open>The \<open>WHERE\<close> clause that \<open>findPipelineList\<close> builds: \<open>1 = 1\<close>, and the id and the
  status when the filter gives them.\<close>

definition where_clause :: "PipelineFind \<Rightarrow> Pipeline \<Rightarrow> bool" where
  "where_clause fnd p =
     ((case find_ID fnd of None \<Rightarrow> True | Some v \<Rightarrow> pipeline_ID p = v) \<and>
      (case find_Status fnd of None \<Rightarrow> True | Some v \<Rightarrow> pipeline_Status p = v))"

text \<open>The loop \<open>for rows.Next()\<close>: each row is scanned and appended; a failing scan ends
  the function.\<close>

fun scan_rows :: "denv \<Rightarrow> Pipeline list \<Rightarrow> Pipeline list \<Rightarrow> gerror + Pipeline list" where
  "scan_rows env [] list = Inr list"
| "scan_rows env (row # rows) list =
     (case Scan_err env row of
        Some e \<Rightarrow> Inl (FormatError env e)
      | None \<Rightarrow> scan_rows env rows (list @ [row]))"

definition createPipeline ::
  "denv \<Rightarrow> Tx \<Rightarrow> PipelineCreate \<Rightarrow> store \<Rightarrow> ((gerror + Pipeline) \<times> Tx) \<times> store" where
  "createPipeline env tx create s =
     (let s1 = log_call (EvInsert create) s in
      case Query_err env of
        Some e \<Rightarrow> ((Inl (FormatError env e), tx), s1)
      | None \<Rightarrow>
          (let row = \<lparr>pipeline_ID = fresh_id tx,
                      pipeline_CreatorId = create_CreatorId create,
                      pipeline_CreatedTs = now env,
                      pipeline_UpdaterId = create_CreatorId create,
                      pipeline_UpdatedTs = now env,
                      pipeline_Name = create_Name create,
                      pipeline_Status = ''OPEN''\<rparr>;
               tx1 = tx @ [row]
           in case Scan_err env row of
                Some e \<Rightarrow> ((Inl (FormatError env e), tx1), s1)
              | None \<Rightarrow> ((Inr row, tx1), s1)))"

definition findPipelineList ::
  "denv \<Rightarrow> Tx \<Rightarrow> PipelineFind \<Rightarrow> store \<Rightarrow> (gerror + Pipeline list) \<times> store" where
  "findPipelineList env tx fnd s =
     (let s1 = log_call (EvSelect fnd) s in
      case Query_err env of
        Some e \<Rightarrow> (Inl (FormatError env e), s1)
      | None \<Rightarrow>
          (case scan_rows env (filter (where_clause fnd) tx) [] of
             Inl e \<Rightarrow> (Inl e, s1)
           | Inr list \<Rightarrow>
               (case Rows_err env of
                  Some e \<Rightarrow> (Inl (FormatError env e), s1)
                | None \<Rightarrow> (Inr list, s1))))"

definition patchPipeline ::
  "denv \<Rightarrow> Tx \<Rightarrow> PipelinePatch \<Rightarrow> store \<Rightarrow> ((gerror + Pipeline) \<times> Tx) \<times> store" where
  "patchPipeline env tx patch s =
     (let s1 = log_call (EvUpdate patch) s in
      case Query_err env of
        Some e \<Rightarrow> ((Inl (FormatError env e), tx), s1)
      | None \<Rightarrow>
          (let tx1 = map (\<lambda>p. if pipeline_ID p = ppatch_ID patch
                               then p\<lparr>pipeline_UpdaterId := ppatch_UpdaterId patch,
                                      pipeline_Status := (case ppatch_Status patch of
                                                            None \<Rightarrow> pipeline_Status p
                                                          | Some v \<Rightarrow> v)\<rparr>
                               else p) tx
           in case filter (\<lambda>p. pipeline_ID p = ppatch_ID patch) tx1 of
                row # rows \<Rightarrow>
                  (case Scan_err env row of
                     Some e \<Rightarrow> ((Inl (FormatError env e), tx1), s1)
                   | None \<Rightarrow> ((Inr row, tx1), s1))
              | [] \<Rightarrow>
                  ((Inl (BBError ENOTFOUND (''pipeline ID not found: '' @ fmt_d (ppatch_ID patch))), tx1), s1)))"

subsection \<open>The service\<close>

text \<open>The deferred \<open>tx.Rollback()\<close> runs on every way out once the transaction is open;
  after a commit it changes nothing.\<close>

definition CreatePipeline :: "denv \<Rightarrow> PipelineCreate \<Rightarrow> store \<Rightarrow> (gerror + Pipeline) \<times> store" where
  "CreatePipeline env create s =
     (case BeginTx env s of
        (Inl e, s1) \<Rightarrow> (Inl (FormatError env e), s1)
      | (Inr tx, s1) \<Rightarrow>
          (let (r, s') =
                 (case createPipeline env tx create s1 of
                    ((Inl e, tx1), s2) \<Rightarrow> (Inl e, s2)
                  | ((Inr pipeline, tx1), s2) \<Rightarrow>
                      (case Commit env tx1 s2 of
                         (Some e, s3) \<Rightarrow> (Inl (FormatError env e), s3)
                       | (None, s3) \<Rightarrow>
                           (case UpsertCache PipelineCache (pipeline_ID pipeline) pipeline s3 of
                              (Some e, s4) \<Rightarrow> (Inl e, s4)
                            | (None, s4) \<Rightarrow> (Inr pipeline, s4))))
           in (r, Rollback s')))"

definition FindPipeline :: "denv \<Rightarrow> PipelineFind \<Rightarrow> store \<Rightarrow> (gerror + Pipeline) \<times> store" where
  "FindPipeline env fnd s =
     (let (early, s1) =
            (case find_ID fnd of
               None \<Rightarrow> (None, s)
             | Some i \<Rightarrow>
                 (case FindCache PipelineCache i s of
                    (Inl e, s') \<Rightarrow> (Some (Inl e), s')
                  | (Inr (Some pipeline), s') \<Rightarrow> (Some (Inr pipeline), s')
                  | (Inr None, s') \<Rightarrow> (None, s')))
      in case early of
           Some r \<Rightarrow> (r, s1)
         | None \<Rightarrow>
             (case BeginTx env s1 of
                (Inl e, s2) \<Rightarrow> (Inl (FormatError env e), s2)
              | (Inr tx, s2) \<Rightarrow>
                  (let (r, s') =
                         (case findPipelineList env tx fnd s2 of
                            (Inl e, s3) \<Rightarrow> (Inl e, s3)
                          | (Inr list, s3) \<Rightarrow>
                              (if length list = 0
                               then (Inl (BBError ENOTFOUND (''pipeline not found: '' @ fmt_find env fnd)), s3)
                               else if length list > 1
                               then (Inl (BBError ECONFLICT (''found '' @ fmt_d (int (length list))
                                            @ '' pipelines with filter '' @ fmt_find env fnd
                                            @ '', expect 1'')), s3)
                               else
                                 (case UpsertCache PipelineCache (pipeline_ID (list ! 0)) (list ! 0) s3 of
                                    (Some e, s4) \<Rightarrow> (Inl e, s4)
                                  | (None, s4) \<Rightarrow> (Inr (list ! 0), s4))))
                   in (r, Rollback s'))))"

definition PatchPipeline :: "denv \<Rightarrow> PipelinePatch \<Rightarrow> store \<Rightarrow> (gerror + Pipeline) \<times> store" where
  "PatchPipeline env patch s =
     (case BeginTx env s of
        (Inl e, s1) \<Rightarrow> (Inl (FormatError env e), s1)
      | (Inr tx, s1) \<Rightarrow>
          (let (r, s') =
                 (case patchPipeline env tx patch s1 of
                    ((Inl e, tx1), s2) \<Rightarrow> (Inl (FormatError env e), s2)
                  | ((Inr pipeline, tx1), s2) \<Rightarrow>
                      (case Commit env tx1 s2 of
                         (Some e, s3) \<Rightarrow> (Inl (FormatError env e), s3)
                       | (None, s3) \<Rightarrow>
                           (case UpsertCache PipelineCache (pipeline_ID pipeline) pipeline s3 of
                              (Some e, s4) \<Rightarrow> (Inl e, s4)
                            | (None, s4) \<Rightarrow> (Inr pipeline, s4))))
           in (r, Rollback s')))"

section \<open>Observations and concrete inputs\<close>

subsection \<open>Observing a run\<close>

text \<open>The calls that a run has made: the events that the final state has after those of
  the initial state.\<close>

definition events_of :: "world \<Rightarrow> world \<Rightarrow> event list" where
  "events_of w w' = drop (length (trace w)) (trace w')"

subsection \<open>A concrete installation\<close>

text \<open>
  A data directory, a task on database \<open>shop\<close> whose payload decodes to backup 7, and
  that backup with a storage backend and a path. \<open>backup_s3\<close> and \<open>backup_local\<close> have
  the path of the layout of database 1, \<open>backup_other\<close> has another path.
\<close>

definition example_profile :: Profile where
  "example_profile = \<lparr>DataDir = ''/data''\<rparr>"

definition example_task :: Task where
  "example_task = \<lparr>task_Payload = ''7'',
                    task_Instance = \<lparr>instance_Name = ''prod''\<rparr>,
                    task_Database = \<lparr>database_Name = ''shop''\<rparr>\<rparr>"

definition backup_local :: Backup where
  "backup_local = \<lparr>backup_ID = 7, backup_DatabaseID = 1, backup_Name = ''n'',
                    backup_StorageBackend = ''LOCAL'', backup_Path = ''backup/db/1/n.sql''\<rparr>"

definition backup_s3 :: Backup where
  "backup_s3 = \<lparr>backup_ID = 7, backup_DatabaseID = 1, backup_Name = ''n'',
                 backup_StorageBackend = ''S3'', backup_Path = ''backup/db/1/n.sql''\<rparr>"

definition backup_other :: Backup where
  "backup_other = \<lparr>backup_ID = 7, backup_DatabaseID = 1, backup_Name = ''n'',
                    backup_StorageBackend = ''LOCAL'', backup_Path = ''other.sql''\<rparr>"

text \<open>
  An environment in which every call succeeds: the file system has 262144 free blocks
  of 4096 bytes (1 GiB), and the driver writes \<open>-- dump\<close> and returns the payload
  \<open>{}\<close>. The other environments differ from it in one answer: a payload that does not
  decode, 25600 free blocks (100 MiB), a dump that fails after a partial write, an
  upload that fails, and an \<open>os.Remove\<close> that fails.
\<close>

definition env_ok :: "Backup \<Rightarrow> env" where
  "env_ok b =
     \<lparr>unmarshal = (\<lambda>s. Inr \<lparr>BackupID = 7\<rparr>),
      GetBackupByID = (\<lambda>i. if i = 7 then Inr (Some b) else Inr None),
      Statfs = (\<lambda>p. Inr (262144, 4096)),
      GetAdminDatabaseDriver = (\<lambda>i d. None),
      create_err = (\<lambda>p. None),
      Dump = (\<lambda>d. (''-- dump'', Inr ''{}'')),
      open_err = (\<lambda>p. None),
      UploadObject = (\<lambda>k c. None),
      remove_err = (\<lambda>p. None),
      PatchBackup = (\<lambda>p. None),
      quote = (\<lambda>s. CHR 0x22 # s @ [CHR 0x22]),
      SystemBotID = 1\<rparr>"

definition env_bad_payload :: "Backup \<Rightarrow> env" where
  "env_bad_payload b = (env_ok b)\<lparr>unmarshal := (\<lambda>s. Inl (New ''unexpected end of JSON input''))\<rparr>"

definition env_low_space :: "Backup \<Rightarrow> env" where
  "env_low_space b = (env_ok b)\<lparr>Statfs := (\<lambda>p. Inr (25600, 4096))\<rparr>"

definition env_dump_fails :: "Backup \<Rightarrow> env" where
  "env_dump_fails b = (env_ok b)\<lparr>Dump := (\<lambda>d. (''-- part'', Inl (New ''connection lost'')))\<rparr>"

definition env_upload_fails :: "Backup \<Rightarrow> env" where
  "env_upload_fails b = (env_ok b)\<lparr>UploadObject := (\<lambda>k c. Some (New ''connection reset''))\<rparr>"

definition env_remove_fails :: "Backup \<Rightarrow> env" where
  "env_remove_fails b = (env_ok b)\<lparr>remove_err := (\<lambda>p. Some (New ''permission denied''))\<rparr>"

definition world0 :: world where
  "world0 = \<lparr>files = Map.empty, trace = []\<rparr>"

subsection \<open>Observing a call of the pipeline service\<close>

text \<open>The calls to the database and to the cache that a call of the service has made:
  those that the final state has after those of the initial state.\<close>

definition new_calls :: "store \<Rightarrow> store \<Rightarrow> store_event list" where
  "new_calls s s' = drop (length (calls s)) (calls s')"

subsection \<open>A concrete pipeline table\<close>

text \<open>
  Two pipelines, the first \<open>OPEN\<close> and the second \<open>DONE\<close>, in a store whose cache is
  empty; a request to create a third one and a request to set the status of the first
  to \<open>DONE\<close>; a database without faults, and one whose \<open>Commit\<close> fails.
\<close>

definition pipeline1 :: Pipeline where
  "pipeline1 = \<lparr>pipeline_ID = 1, pipeline_CreatorId = 10, pipeline_CreatedTs = 100,
                 pipeline_UpdaterId = 10, pipeline_UpdatedTs = 100,
                 pipeline_Name = ''release'', pipeline_Status = ''OPEN''\<rparr>"

definition pipeline2 :: Pipeline where
  "pipeline2 = \<lparr>pipeline_ID = 2, pipeline_CreatorId = 10, pipeline_CreatedTs = 200,
                 pipeline_UpdaterId = 11, pipeline_UpdatedTs = 250,
                 pipeline_Name = ''hotfix'', pipeline_Status = ''DONE''\<rparr>"

definition store0 :: store where
  "store0 = \<lparr>pipeline_table = [pipeline1, pipeline2], cache = Map.empty, calls = []\<rparr>"

definition example_create :: PipelineCreate where
  "example_create = \<lparr>create_CreatorId = 12, create_Name = ''rollout''\<rparr>"

definition example_patch :: PipelinePatch where
  "example_patch = \<lparr>ppatch_ID = 1, ppatch_UpdaterId = 12, ppatch_Status = Some ''DONE''\<rparr>"

definition denv_ok :: denv where
  "denv_ok = \<lparr>BeginTx_err = None, Query_err = None, Scan_err = (\<lambda>p. None), Rows_err = None,
               Commit_err = None, now = 300, FormatError = (\<lambda>e. e),
               fmt_find = (\<lambda>f. ''filter'')\<rparr>"

definition denv_commit_fails :: denv where
  "denv_commit_fails = denv_ok\<lparr>Commit_err := Some (New ''database is locked'')\<rparr>"

section \<open>Auxiliary facts about the backup executor\<close>

lemma trace_emit [simp]: "trace (emit e w) = trace w @ [e]"
  by (simp add: emit_def)

lemma files_emit [simp]: "files (emit e w) = files w"
  by (simp add: emit_def)

lemma events_of_append [simp]: "trace w' = trace w @ evs \<Longrightarrow> events_of w w' = evs"
  by (simp add: events_of_def)

lemma events_of_self [simp]: "events_of w w = []"
  by (simp add: events_of_def)

lemma backends_differ [simp]:
  "BackupStorageBackendS3 \<noteq> BackupStorageBackendLocal"
  "BackupStorageBackendLocal \<noteq> BackupStorageBackendS3"
  by (simp_all add: BackupStorageBackendS3_def BackupStorageBackendLocal_def)

text \<open>The product of two unsigned 64-bit numbers does not wrap when it is below the
  threshold.\<close>

lemma word_mul_small:
  fixes a b :: "64 word"
  assumes "unat a * unat b < 500 * 1024 * 1024"
  shows "a * b < minAvailableFSBytes"
proof -
  have "unat (a * b) = (unat a * unat b) mod 2 ^ 64"
    by (simp add: unat_word_ariths)
  also have "\<dots> = unat a * unat b"
    using assms by simp
  finally have "unat (a * b) < unat minAvailableFSBytes"
    using assms by (simp add: minAvailableFSBytes_def)
  then show ?thesis
    by (simp add: word_less_nat_alt)
qed

text \<open>What \<open>backupDatabase\<close> returns is decided by the answers of the environment alone.\<close>

lemma backupDatabase_result:
  "fst (backupDatabase env profile inst d backup w) =
     (case GetAdminDatabaseDriver env inst d of
        Some e \<Rightarrow> ([], Some e)
      | None \<Rightarrow>
          (case create_err env (filepath_Join [DataDir profile, backup_Path backup]) of
             Some e \<Rightarrow>
               ([], Some (Wrap (New (''failed to open backup path ''
                                      @ quote env (filepath_Join [DataDir profile, backup_Path backup])))
                               (''failed to dump backup file ''
                                      @ quote env (filepath_Join [DataDir profile, backup_Path backup]))))
           | None \<Rightarrow>
               (case Dump env d of
                  (written, Inl e) \<Rightarrow>
                    ([], Some (Wrap (Wrap e (''failed to dump database '' @ quote env d
                                        @ '' to local backup file ''
                                        @ quote env (filepath_Join [DataDir profile, backup_Path backup])))
                                    (''failed to dump backup file ''
                                        @ quote env (filepath_Join [DataDir profile, backup_Path backup]))))
                | (written, Inr dumped) \<Rightarrow>
                    (if backup_StorageBackend backup = BackupStorageBackendLocal then (dumped, None)
                     else if backup_StorageBackend backup = BackupStorageBackendS3 then
                       (case open_err env (filepath_Join [DataDir profile, backup_Path backup]) of
                          Some e \<Rightarrow>
                            ([], Some (Wrap e (''failed to open backup file ''
                                 @ quote env (filepath_Join [DataDir profile, backup_Path backup])
                                 @ '' for uploading to s3 bucket'')))
                        | None \<Rightarrow>
                            (case UploadObject env (backup_Path backup) written of
                               Some e \<Rightarrow> ([], Some (Wrap e ''failed to upload backup to AWS S3''))
                             | None \<Rightarrow> (dumped, None)))
                     else ([], Some (New (''backup to '' @ backup_StorageBackend backup
                                          @ '' not implemented yet'')))))))"
  by (auto simp add: backupDatabase_def dumpBackupFile_def os_Remove_def Let_def
      split: option.split prod.split sum.split)

text \<open>\<open>RunOnce\<close> once the backup has been found and the space check has passed, in terms
  of what \<open>backupDatabase\<close> returned.\<close>

lemma RunOnce_backup_ok:
  assumes "unmarshal env (task_Payload task) = Inr payload"
    and "GetBackupByID env (BackupID payload) = Inr (Some backup)"
    and "backup_StorageBackend backup \<noteq> BackupStorageBackendLocal \<or>
         (Statfs env (filepath_Dir (filepath_Join [DataDir profile, backup_Path backup])) = Inr (bavail, bsize)
          \<and> minAvailableFSBytes \<le> bavail * bsize)"
    and "backupDatabase env profile (task_Instance task) (database_Name (task_Database task)) backup
           (if backup_StorageBackend backup = BackupStorageBackendLocal
            then emit (EvStatfs (filepath_Dir (filepath_Join [DataDir profile, backup_Path backup])))
                   (emit (EvGetBackupByID (BackupID payload)) w)
            else emit (EvGetBackupByID (BackupID payload)) w) = ((dumped, None), w3)"
  shows "RunOnce env profile task w =
           ((True,
             case PatchBackup env \<lparr>patch_ID = backup_ID backup, patch_Status = Some BackupStatusDone,
                    patch_UpdaterID = SystemBotID env, patch_Comment = Some [],
                    patch_Payload = Some dumped\<rparr> of
               Some e' \<Rightarrow> (None, Some (Wrap e' ''failed to patch backup''))
             | None \<Rightarrow> (Some \<lparr>Detail = ''Backup database '' @ quote env (database_Name (task_Database task))\<rparr>, None)),
            emit (EvPatchBackup \<lparr>patch_ID = backup_ID backup, patch_Status = Some BackupStatusDone,
                    patch_UpdaterID = SystemBotID env, patch_Comment = Some [],
                    patch_Payload = Some dumped\<rparr>) w3)"
  using assms
  by (auto simp add: RunOnce_def getAvailableFSSpace_def Let_def not_less [symmetric]
      split: option.split)

lemma RunOnce_backup_failed:
  assumes "unmarshal env (task_Payload task) = Inr payload"
    and "GetBackupByID env (BackupID payload) = Inr (Some backup)"
    and "backup_StorageBackend backup \<noteq> BackupStorageBackendLocal \<or>
         (Statfs env (filepath_Dir (filepath_Join [DataDir profile, backup_Path backup])) = Inr (bavail, bsize)
          \<and> minAvailableFSBytes \<le> bavail * bsize)"
    and "backupDatabase env profile (task_Instance task) (database_Name (task_Database task)) backup
           (if backup_StorageBackend backup = BackupStorageBackendLocal
            then emit (EvStatfs (filepath_Dir (filepath_Join [DataDir profile, backup_Path backup])))
                   (emit (EvGetBackupByID (BackupID payload)) w)
            else emit (EvGetBackupByID (BackupID payload)) w) = ((dumped, Some e), w3)"
    and "removeLocalBackupFile env (DataDir profile) backup w3 = (rerr, w4)"
  shows "RunOnce env profile task w =
           ((True, None,
             Some (case PatchBackup env \<lparr>patch_ID = backup_ID backup, patch_Status = Some BackupStatusFailed,
                    patch_UpdaterID = SystemBotID env, patch_Comment = Some (Error e),
                    patch_Payload = Some dumped\<rparr> of
                     Some e' \<Rightarrow> Wrap e' ''failed to patch backup''
                   | None \<Rightarrow> e)),
            emit (EvPatchBackup \<lparr>patch_ID = backup_ID backup, patch_Status = Some BackupStatusFailed,
                    patch_UpdaterID = SystemBotID env, patch_Comment = Some (Error e),
                    patch_Payload = Some dumped\<rparr>)
              (case rerr of None \<Rightarrow> w4 | Some e'' \<Rightarrow> emit (EvLogWarn (Error e'')) w4))"
  using assms
  by (auto simp add: RunOnce_def getAvailableFSSpace_def Let_def not_less [symmetric]
      split: option.split)

text \<open>The state that \<open>backupDatabase\<close> leaves, on the ways through it that the properties
  below follow.\<close>

lemma backupDatabase_events:
  assumes "backupDatabase env profile inst d backup w = (r, w')"
  shows "\<exists>evs. trace w' = trace w @ evs
           \<and> (\<forall>q. EvStatfs q \<notin> set evs)
           \<and> (\<forall>p. EvCreate p \<in> set evs \<longrightarrow> p = filepath_Join [DataDir profile, backup_Path backup])
           \<and> (\<forall>d' p. EvDump d' p \<in> set evs \<longrightarrow>
                  d' = d \<and> p = filepath_Join [DataDir profile, backup_Path backup])
           \<and> (GetAdminDatabaseDriver env inst d = None \<longrightarrow>
                  (\<exists>rest. evs = [EvGetAdminDatabaseDriver (instance_Name inst) d,
                                EvCreate (filepath_Join [DataDir profile, backup_Path backup])] @ rest))
           \<and> (GetAdminDatabaseDriver env inst d = None \<longrightarrow>
               create_err env (filepath_Join [DataDir profile, backup_Path backup]) = None \<longrightarrow>
                  (\<exists>rest. evs = [EvGetAdminDatabaseDriver (instance_Name inst) d,
                                EvCreate (filepath_Join [DataDir profile, backup_Path backup]),
                                EvDump d (filepath_Join [DataDir profile, backup_Path backup])] @ rest))
           \<and> (\<forall>written dumped.
                GetAdminDatabaseDriver env inst d = None \<longrightarrow>
                create_err env (filepath_Join [DataDir profile, backup_Path backup]) = None \<longrightarrow>
                Dump env d = (written, Inr dumped) \<longrightarrow>
                backup_StorageBackend backup = BackupStorageBackendS3 \<longrightarrow>
                open_err env (filepath_Join [DataDir profile, backup_Path backup]) = None \<longrightarrow>
                  (\<exists>rest. evs = [EvGetAdminDatabaseDriver (instance_Name inst) d,
                                EvCreate (filepath_Join [DataDir profile, backup_Path backup]),
                                EvDump d (filepath_Join [DataDir profile, backup_Path backup]),
                                EvOpen (filepath_Join [DataDir profile, backup_Path backup]),
                                EvUploadObject (backup_Path backup) written] @ rest))"
  using assms
  by (auto simp add: backupDatabase_def dumpBackupFile_def os_Remove_def Let_def
      split: option.splits prod.splits sum.splits if_splits)


lemma backupDatabase_local_ok:
  assumes "GetAdminDatabaseDriver env inst d = None"
    and "create_err env (filepath_Join [DataDir profile, backup_Path backup]) = None"
    and "Dump env d = (written, Inr dumped)"
    and "backup_StorageBackend backup = BackupStorageBackendLocal"
  shows "files (snd (backupDatabase env profile inst d backup w)) =
           (files w)(filepath_Join [DataDir profile, backup_Path backup] \<mapsto> written)"
    and "trace (snd (backupDatabase env profile inst d backup w)) =
           trace w @ [EvGetAdminDatabaseDriver (instance_Name inst) d,
                      EvCreate (filepath_Join [DataDir profile, backup_Path backup]),
                      EvDump d (filepath_Join [DataDir profile, backup_Path backup]),
                      EvDriverClose]"
  using assms
  by (simp_all add: backupDatabase_def dumpBackupFile_def Let_def)

lemma backupDatabase_upload_fails:
  assumes "GetAdminDatabaseDriver env inst d = None"
    and "create_err env (filepath_Join [DataDir profile, backup_Path backup]) = None"
    and "Dump env d = (written, Inr dumped)"
    and "backup_StorageBackend backup = BackupStorageBackendS3"
    and "open_err env (filepath_Join [DataDir profile, backup_Path backup]) = None"
    and "UploadObject env (backup_Path backup) written = Some e"
  shows "files (snd (backupDatabase env profile inst d backup w)) =
           (files w)(filepath_Join [DataDir profile, backup_Path backup] \<mapsto> written)"
    and "trace (snd (backupDatabase env profile inst d backup w)) =
           trace w @ [EvGetAdminDatabaseDriver (instance_Name inst) d,
                      EvCreate (filepath_Join [DataDir profile, backup_Path backup]),
                      EvDump d (filepath_Join [DataDir profile, backup_Path backup]),
                      EvOpen (filepath_Join [DataDir profile, backup_Path backup]),
                      EvUploadObject (backup_Path backup) written,
                      EvDriverClose]"
  using assms
  by (simp_all add: backupDatabase_def dumpBackupFile_def Let_def)

lemma backupDatabase_upload_ok:
  assumes "GetAdminDatabaseDriver env inst d = None"
    and "create_err env (filepath_Join [DataDir profile, backup_Path backup]) = None"
    and "Dump env d = (written, Inr dumped)"
    and "backup_StorageBackend backup = BackupStorageBackendS3"
    and "open_err env (filepath_Join [DataDir profile, backup_Path backup]) = None"
    and "UploadObject env (backup_Path backup) written = None"
  shows "files (snd (backupDatabase env profile inst d backup w)) =
           (if remove_err env (filepath_Join [DataDir profile, backup_Path backup]) = None
            then (files w)(filepath_Join [DataDir profile, backup_Path backup] := None)
            else (files w)(filepath_Join [DataDir profile, backup_Path backup] \<mapsto> written))"
    and "trace (snd (backupDatabase env profile inst d backup w)) =
           trace w @ [EvGetAdminDatabaseDriver (instance_Name inst) d,
                      EvCreate (filepath_Join [DataDir profile, backup_Path backup]),
                      EvDump d (filepath_Join [DataDir profile, backup_Path backup]),
                      EvOpen (filepath_Join [DataDir profile, backup_Path backup]),
                      EvUploadObject (backup_Path backup) written,
                      EvRemove (filepath_Join [DataDir profile, backup_Path backup])]
                   @ (if remove_err env (filepath_Join [DataDir profile, backup_Path backup]) = None
                      then []
                      else [EvLogWarn ''Failed to remove the local backup file after uploading to s3 bucket.''])
                   @ [EvDriverClose]"
  using assms
  by (auto simp add: backupDatabase_def dumpBackupFile_def os_Remove_def Let_def)

text \<open>\<open>removeLocalBackupFile\<close>: nothing for another backend than \<open>LOCAL\<close>; for \<open>LOCAL\<close> one
  call of \<open>os.Remove\<close> on the path of the layout.\<close>

lemma removeLocalBackupFile_not_local:
  assumes "backup_StorageBackend backup \<noteq> BackupStorageBackendLocal"
  shows "removeLocalBackupFile env dataDir backup w = (None, w)"
  using assms by (simp add: removeLocalBackupFile_def)


lemma removeLocalBackupFile_events:
  assumes "removeLocalBackupFile env dataDir backup w = (rerr, w')"
  shows "\<exists>evs. trace w' = trace w @ evs
           \<and> (\<forall>q. EvStatfs q \<notin> set evs) \<and> (\<forall>p. EvCreate p \<notin> set evs) \<and> (\<forall>d p. EvDump d p \<notin> set evs)"
  using assms
  by (auto simp add: removeLocalBackupFile_def os_Remove_def Let_def
      split: option.splits if_splits)

text \<open>The events of a run that has found its backup and passed the space check: the
  lookup, the space check of a \<open>LOCAL\<close> backup, the events of \<open>backupDatabase\<close>, and a tail
  in which no file is created or dumped into.\<close>

lemma RunOnce_events_after_space_check:
  assumes um: "unmarshal env (task_Payload task) = Inr payload"
    and gb: "GetBackupByID env (BackupID payload) = Inr (Some backup)"
    and sp: "backup_StorageBackend backup \<noteq> BackupStorageBackendLocal \<or>
         (Statfs env (filepath_Dir (filepath_Join [DataDir profile, backup_Path backup])) = Inr (bavail, bsize)
          \<and> minAvailableFSBytes \<le> bavail * bsize)"
  shows "\<exists>evs tl. events_of w (snd (RunOnce env profile task w)) =
            EvGetBackupByID (BackupID payload) # (if backup_StorageBackend backup = BackupStorageBackendLocal then [EvStatfs (filepath_Dir (filepath_Join [DataDir profile, backup_Path backup]))] else []) @ evs @ tl
         \<and> trace (snd (backupDatabase env profile (task_Instance task) (database_Name (task_Database task)) backup (if backup_StorageBackend backup = BackupStorageBackendLocal
            then emit (EvStatfs (filepath_Dir (filepath_Join [DataDir profile, backup_Path backup])))
                   (emit (EvGetBackupByID (BackupID payload)) w)
            else emit (EvGetBackupByID (BackupID payload)) w))) = trace (if backup_StorageBackend backup = BackupStorageBackendLocal
            then emit (EvStatfs (filepath_Dir (filepath_Join [DataDir profile, backup_Path backup])))
                   (emit (EvGetBackupByID (BackupID payload)) w)
            else emit (EvGetBackupByID (BackupID payload)) w) @ evs
         \<and> (\<forall>q. EvStatfs q \<notin> set tl) \<and> (\<forall>p. EvCreate p \<notin> set tl) \<and> (\<forall>d p. EvDump d p \<notin> set tl)"
proof -
  let ?w2 = "(if backup_StorageBackend backup = BackupStorageBackendLocal
            then emit (EvStatfs (filepath_Dir (filepath_Join [DataDir profile, backup_Path backup])))
                   (emit (EvGetBackupByID (BackupID payload)) w)
            else emit (EvGetBackupByID (BackupID payload)) w)"
  obtain dumped berr w3 where
    bd: "backupDatabase env profile (task_Instance task) (database_Name (task_Database task)) backup ?w2 = ((dumped, berr), w3)"
    by (metis prod.exhaust)
  from backupDatabase_events [OF bd] obtain evs where t3: "trace w3 = trace ?w2 @ evs"
    by blast
  have t2: "trace ?w2 = trace w @ EvGetBackupByID (BackupID payload) # (if backup_StorageBackend backup = BackupStorageBackendLocal then [EvStatfs (filepath_Dir (filepath_Join [DataDir profile, backup_Path backup]))] else [])"
    by simp
  show ?thesis
  proof (cases berr)
    case None
    from RunOnce_backup_ok [OF um gb sp bd [unfolded None]]
    have "trace (snd (RunOnce env profile task w)) = trace w @ EvGetBackupByID (BackupID payload)
            # (if backup_StorageBackend backup = BackupStorageBackendLocal then [EvStatfs (filepath_Dir (filepath_Join [DataDir profile, backup_Path backup]))] else []) @ evs
            @ [EvPatchBackup \<lparr>patch_ID = backup_ID backup, patch_Status = Some BackupStatusDone,
                    patch_UpdaterID = SystemBotID env, patch_Comment = Some [],
                    patch_Payload = Some dumped\<rparr>]"
      using t3 t2 by simp
    then have "events_of w (snd (RunOnce env profile task w)) = EvGetBackupByID (BackupID payload)
            # (if backup_StorageBackend backup = BackupStorageBackendLocal then [EvStatfs (filepath_Dir (filepath_Join [DataDir profile, backup_Path backup]))] else []) @ evs
            @ [EvPatchBackup \<lparr>patch_ID = backup_ID backup, patch_Status = Some BackupStatusDone,
                    patch_UpdaterID = SystemBotID env, patch_Comment = Some [],
                    patch_Payload = Some dumped\<rparr>]"
      by (rule events_of_append)
    then show ?thesis
      using t3 bd by fastforce
  next
    case (Some e)
    obtain rerr w4 where rl: "removeLocalBackupFile env (DataDir profile) backup w3 = (rerr, w4)"
      by (metis prod.exhaust)
    from removeLocalBackupFile_events [OF rl] obtain evs2 where
      t4: "trace w4 = trace w3 @ evs2" and
      n4: "\<forall>q. EvStatfs q \<notin> set evs2" "\<forall>p. EvCreate p \<notin> set evs2" "\<forall>d p. EvDump d p \<notin> set evs2"
      by blast
    let ?tl = "evs2 @ (case rerr of None \<Rightarrow> [] | Some e'' \<Rightarrow> [EvLogWarn (Error e'')])
            @ [EvPatchBackup \<lparr>patch_ID = backup_ID backup, patch_Status = Some BackupStatusFailed,
                    patch_UpdaterID = SystemBotID env, patch_Comment = Some (Error e),
                    patch_Payload = Some dumped\<rparr>]"
    from RunOnce_backup_failed [OF um gb sp bd [unfolded Some] rl]
    have "trace (snd (RunOnce env profile task w)) = trace w @ EvGetBackupByID (BackupID payload)
            # (if backup_StorageBackend backup = BackupStorageBackendLocal then [EvStatfs (filepath_Dir (filepath_Join [DataDir profile, backup_Path backup]))] else []) @ evs @ ?tl"
      using t3 t2 t4 by (simp split: option.split)
    then have "events_of w (snd (RunOnce env profile task w)) = EvGetBackupByID (BackupID payload)
            # (if backup_StorageBackend backup = BackupStorageBackendLocal then [EvStatfs (filepath_Dir (filepath_Join [DataDir profile, backup_Path backup]))] else []) @ evs @ ?tl"
      by (rule events_of_append)
    moreover have "(\<forall>q. EvStatfs q \<notin> set ?tl) \<and> (\<forall>p. EvCreate p \<notin> set ?tl) \<and> (\<forall>d p. EvDump d p \<notin> set ?tl)"
      using n4 by (auto split: option.split)
    moreover have "trace (snd (backupDatabase env profile (task_Instance task) (database_Name (task_Database task)) backup ?w2)) = trace ?w2 @ evs"
      using t3 bd by simp
    ultimately show ?thesis
      by blast
  qed
qed

text \<open>A failed space check ends the run after the call of \<open>statfs\<close>.\<close>

lemma RunOnce_space_check_fails:
  assumes "unmarshal env (task_Payload task) = Inr payload"
    and "GetBackupByID env (BackupID payload) = Inr (Some backup)"
    and "backup_StorageBackend backup = BackupStorageBackendLocal"
    and "(\<exists>e. Statfs env (filepath_Dir (filepath_Join [DataDir profile, backup_Path backup])) = Inl e) \<or>
         (\<exists>bavail bsize. Statfs env (filepath_Dir (filepath_Join [DataDir profile, backup_Path backup])) = Inr (bavail, bsize) \<and> bavail * bsize < minAvailableFSBytes)"
  shows "snd (RunOnce env profile task w) = emit (EvStatfs (filepath_Dir (filepath_Join [DataDir profile, backup_Path backup]))) (emit (EvGetBackupByID (BackupID payload)) w)"
  using assms
  by (auto simp add: RunOnce_def getAvailableFSSpace_def Let_def)

text \<open>In a run that has found its backup, files are created and dumped into at one path
  only, and the file system is asked for its free space for a \<open>LOCAL\<close> backup, as the
  second call, and for no other backup.\<close>

lemma RunOnce_events:
  assumes um: "unmarshal env (task_Payload task) = Inr payload"
    and gb: "GetBackupByID env (BackupID payload) = Inr (Some backup)"
  shows "(\<forall>p. EvCreate p \<in> set (events_of w (snd (RunOnce env profile task w))) \<longrightarrow> p = filepath_Join [DataDir profile, backup_Path backup])
       \<and> (\<forall>d p. EvDump d p \<in> set (events_of w (snd (RunOnce env profile task w))) \<longrightarrow> d = database_Name (task_Database task) \<and> p = filepath_Join [DataDir profile, backup_Path backup])
       \<and> (backup_StorageBackend backup \<noteq> BackupStorageBackendLocal \<longrightarrow> (\<forall>q. EvStatfs q \<notin> set (events_of w (snd (RunOnce env profile task w)))))
       \<and> (backup_StorageBackend backup = BackupStorageBackendLocal \<longrightarrow>
             take 2 (events_of w (snd (RunOnce env profile task w))) = [EvGetBackupByID (BackupID payload), EvStatfs (filepath_Dir (filepath_Join [DataDir profile, backup_Path backup]))])"
proof -
  let ?w2 = "(if backup_StorageBackend backup = BackupStorageBackendLocal
            then emit (EvStatfs (filepath_Dir (filepath_Join [DataDir profile, backup_Path backup])))
                   (emit (EvGetBackupByID (BackupID payload)) w)
            else emit (EvGetBackupByID (BackupID payload)) w)"
  let ?bd = "backupDatabase env profile (task_Instance task) (database_Name (task_Database task)) backup ?w2"
  consider (ok) bavail bsize where "backup_StorageBackend backup \<noteq> BackupStorageBackendLocal \<or>
         (Statfs env (filepath_Dir (filepath_Join [DataDir profile, backup_Path backup])) = Inr (bavail, bsize)
          \<and> minAvailableFSBytes \<le> bavail * bsize)"
    | (fail) "backup_StorageBackend backup = BackupStorageBackendLocal"
        "(\<exists>e. Statfs env (filepath_Dir (filepath_Join [DataDir profile, backup_Path backup])) = Inl e) \<or>
         (\<exists>bavail bsize. Statfs env (filepath_Dir (filepath_Join [DataDir profile, backup_Path backup])) = Inr (bavail, bsize) \<and> bavail * bsize < minAvailableFSBytes)"
    by (cases "Statfs env (filepath_Dir (filepath_Join [DataDir profile, backup_Path backup]))") (auto simp add: not_less [symmetric])
  then show ?thesis
  proof cases
    case ok
    from RunOnce_events_after_space_check [OF um gb ok] obtain evs tl where
      ev: "events_of w (snd (RunOnce env profile task w)) = EvGetBackupByID (BackupID payload)
              # (if backup_StorageBackend backup = BackupStorageBackendLocal
                 then [EvStatfs (filepath_Dir (filepath_Join [DataDir profile, backup_Path backup]))] else []) @ evs @ tl"
      and bdt: "trace (snd ?bd) = trace ?w2 @ evs"
      and tl: "\<forall>q. EvStatfs q \<notin> set tl" "\<forall>p. EvCreate p \<notin> set tl" "\<forall>d p. EvDump d p \<notin> set tl"
      by blast
    have "?bd = (fst ?bd, snd ?bd)"
      by simp
    from backupDatabase_events [OF this] bdt
    have props: "\<forall>q. EvStatfs q \<notin> set evs"
      "\<forall>p. EvCreate p \<in> set evs \<longrightarrow> p = filepath_Join [DataDir profile, backup_Path backup]"
      "\<forall>d p. EvDump d p \<in> set evs \<longrightarrow> d = database_Name (task_Database task) \<and> p = filepath_Join [DataDir profile, backup_Path backup]"
      by auto
    show ?thesis
      unfolding ev using props tl by auto
  next
    case fail
    from RunOnce_space_check_fails [OF um gb fail]
    have "trace (snd (RunOnce env profile task w)) = trace w @ [EvGetBackupByID (BackupID payload), EvStatfs (filepath_Dir (filepath_Join [DataDir profile, backup_Path backup]))]"
      by simp
    then have "events_of w (snd (RunOnce env profile task w)) = [EvGetBackupByID (BackupID payload), EvStatfs (filepath_Dir (filepath_Join [DataDir profile, backup_Path backup]))]"
      by (rule events_of_append)
    then show ?thesis
      using fail by simp
  qed
qed

text \<open>Once the driver is there, the run goes on by creating the file; once the file is
  there, by dumping into it.\<close>

lemma RunOnce_events_prefix:
  assumes um: "unmarshal env (task_Payload task) = Inr payload"
    and gb: "GetBackupByID env (BackupID payload) = Inr (Some backup)"
    and sp: "backup_StorageBackend backup \<noteq> BackupStorageBackendLocal \<or>
         (Statfs env (filepath_Dir (filepath_Join [DataDir profile, backup_Path backup])) = Inr (bavail, bsize)
          \<and> minAvailableFSBytes \<le> bavail * bsize)"
    and drv: "GetAdminDatabaseDriver env (task_Instance task) (database_Name (task_Database task)) = None"
  shows "\<exists>rest. events_of w (snd (RunOnce env profile task w)) = EvGetBackupByID (BackupID payload)
              # (if backup_StorageBackend backup = BackupStorageBackendLocal
                 then [EvStatfs (filepath_Dir (filepath_Join [DataDir profile, backup_Path backup]))] else []) @ [EvGetAdminDatabaseDriver (instance_Name (task_Instance task)) (database_Name (task_Database task)), EvCreate (filepath_Join [DataDir profile, backup_Path backup])] @ rest"
    and "create_err env (filepath_Join [DataDir profile, backup_Path backup]) = None \<Longrightarrow> \<exists>rest. events_of w (snd (RunOnce env profile task w)) = EvGetBackupByID (BackupID payload)
              # (if backup_StorageBackend backup = BackupStorageBackendLocal
                 then [EvStatfs (filepath_Dir (filepath_Join [DataDir profile, backup_Path backup]))] else []) @ [EvGetAdminDatabaseDriver (instance_Name (task_Instance task)) (database_Name (task_Database task)), EvCreate (filepath_Join [DataDir profile, backup_Path backup]), EvDump (database_Name (task_Database task)) (filepath_Join [DataDir profile, backup_Path backup])] @ rest"
    and "create_err env (filepath_Join [DataDir profile, backup_Path backup]) = None \<Longrightarrow> Dump env (database_Name (task_Database task)) = (written, Inr dumped) \<Longrightarrow> backup_StorageBackend backup = BackupStorageBackendS3 \<Longrightarrow> open_err env (filepath_Join [DataDir profile, backup_Path backup]) = None \<Longrightarrow>
          \<exists>rest. events_of w (snd (RunOnce env profile task w)) = EvGetBackupByID (BackupID payload)
              # (if backup_StorageBackend backup = BackupStorageBackendLocal
                 then [EvStatfs (filepath_Dir (filepath_Join [DataDir profile, backup_Path backup]))] else []) @ [EvGetAdminDatabaseDriver (instance_Name (task_Instance task)) (database_Name (task_Database task)), EvCreate (filepath_Join [DataDir profile, backup_Path backup]), EvDump (database_Name (task_Database task)) (filepath_Join [DataDir profile, backup_Path backup]), EvOpen (filepath_Join [DataDir profile, backup_Path backup]),
                                    EvUploadObject (backup_Path backup) written] @ rest"
proof -
  let ?w2 = "(if backup_StorageBackend backup = BackupStorageBackendLocal
            then emit (EvStatfs (filepath_Dir (filepath_Join [DataDir profile, backup_Path backup])))
                   (emit (EvGetBackupByID (BackupID payload)) w)
            else emit (EvGetBackupByID (BackupID payload)) w)"
  let ?bd = "backupDatabase env profile (task_Instance task) (database_Name (task_Database task)) backup ?w2"
  from RunOnce_events_after_space_check [OF um gb sp] obtain evs tl where
    ev: "events_of w (snd (RunOnce env profile task w)) = EvGetBackupByID (BackupID payload)
              # (if backup_StorageBackend backup = BackupStorageBackendLocal
                 then [EvStatfs (filepath_Dir (filepath_Join [DataDir profile, backup_Path backup]))] else []) @ evs @ tl"
    and bdt: "trace (snd ?bd) = trace ?w2 @ evs"
    by blast
  have "?bd = (fst ?bd, snd ?bd)"
    by simp
  from backupDatabase_events [OF this] bdt drv
  have a: "\<exists>rest. evs = [EvGetAdminDatabaseDriver (instance_Name (task_Instance task)) (database_Name (task_Database task)), EvCreate (filepath_Join [DataDir profile, backup_Path backup])] @ rest"
    and b: "create_err env (filepath_Join [DataDir profile, backup_Path backup]) = None \<Longrightarrow> \<exists>rest. evs = [EvGetAdminDatabaseDriver (instance_Name (task_Instance task)) (database_Name (task_Database task)), EvCreate (filepath_Join [DataDir profile, backup_Path backup]), EvDump (database_Name (task_Database task)) (filepath_Join [DataDir profile, backup_Path backup])] @ rest"
    and c: "create_err env (filepath_Join [DataDir profile, backup_Path backup]) = None \<Longrightarrow> Dump env (database_Name (task_Database task)) = (written, Inr dumped) \<Longrightarrow> backup_StorageBackend backup = BackupStorageBackendS3 \<Longrightarrow> open_err env (filepath_Join [DataDir profile, backup_Path backup]) = None \<Longrightarrow>
          \<exists>rest. evs = [EvGetAdminDatabaseDriver (instance_Name (task_Instance task)) (database_Name (task_Database task)), EvCreate (filepath_Join [DataDir profile, backup_Path backup]), EvDump (database_Name (task_Database task)) (filepath_Join [DataDir profile, backup_Path backup]), EvOpen (filepath_Join [DataDir profile, backup_Path backup]),
                                    EvUploadObject (backup_Path backup) written] @ rest"
    by auto
  from a show "\<exists>rest. events_of w (snd (RunOnce env profile task w)) = EvGetBackupByID (BackupID payload)
              # (if backup_StorageBackend backup = BackupStorageBackendLocal
                 then [EvStatfs (filepath_Dir (filepath_Join [DataDir profile, backup_Path backup]))] else []) @ [EvGetAdminDatabaseDriver (instance_Name (task_Instance task)) (database_Name (task_Database task)), EvCreate (filepath_Join [DataDir profile, backup_Path backup])] @ rest"
    unfolding ev by auto
  show "\<exists>rest. events_of w (snd (RunOnce env profile task w)) = EvGetBackupByID (BackupID payload)
              # (if backup_StorageBackend backup = BackupStorageBackendLocal
                 then [EvStatfs (filepath_Dir (filepath_Join [DataDir profile, backup_Path backup]))] else []) @ [EvGetAdminDatabaseDriver (instance_Name (task_Instance task)) (database_Name (task_Database task)), EvCreate (filepath_Join [DataDir profile, backup_Path backup]), EvDump (database_Name (task_Database task)) (filepath_Join [DataDir profile, backup_Path backup])] @ rest"
    if "create_err env (filepath_Join [DataDir profile, backup_Path backup]) = None"
    using b [OF that] unfolding ev by auto
  show "\<exists>rest. events_of w (snd (RunOnce env profile task w)) = EvGetBackupByID (BackupID payload)
              # (if backup_StorageBackend backup = BackupStorageBackendLocal
                 then [EvStatfs (filepath_Dir (filepath_Join [DataDir profile, backup_Path backup]))] else []) @ [EvGetAdminDatabaseDriver (instance_Name (task_Instance task)) (database_Name (task_Database task)), EvCreate (filepath_Join [DataDir profile, backup_Path backup]), EvDump (database_Name (task_Database task)) (filepath_Join [DataDir profile, backup_Path backup]), EvOpen (filepath_Join [DataDir profile, backup_Path backup]),
                                    EvUploadObject (backup_Path backup) written] @ rest"
    if "create_err env (filepath_Join [DataDir profile, backup_Path backup]) = None" "Dump env (database_Name (task_Database task)) = (written, Inr dumped)" "backup_StorageBackend backup = BackupStorageBackendS3" "open_err env (filepath_Join [DataDir profile, backup_Path backup]) = None"
    using c [OF that] unfolding ev by auto
qed

text \<open>Nothing but \<open>getAvailableFSSpace\<close> consults \<open>statfs\<close>.\<close>

lemma os_Remove_Statfs:
  "os_Remove (env\<lparr>Statfs := f\<rparr>) p w = os_Remove env p w"
  by (simp add: os_Remove_def)

lemma dumpBackupFile_Statfs:
  "dumpBackupFile (env\<lparr>Statfs := f\<rparr>) d p w = dumpBackupFile env d p w"
  by (simp add: dumpBackupFile_def Let_def split: option.split prod.split sum.split)

lemma backupDatabase_Statfs:
  "backupDatabase (env\<lparr>Statfs := f\<rparr>) profile inst d backup w = backupDatabase env profile inst d backup w"
  by (simp add: backupDatabase_def Let_def dumpBackupFile_Statfs os_Remove_Statfs
      cong: option.case_cong prod.case_cong if_cong)

lemma removeLocalBackupFile_Statfs:
  "removeLocalBackupFile (env\<lparr>Statfs := f\<rparr>) dataDir backup w = removeLocalBackupFile env dataDir backup w"
  by (simp add: removeLocalBackupFile_def os_Remove_Statfs)

lemma RunOnce_Statfs:
  assumes "unmarshal env (task_Payload task) = Inr payload"
    and "GetBackupByID env (BackupID payload) = Inr (Some backup)"
    and "backup_StorageBackend backup \<noteq> BackupStorageBackendLocal"
  shows "RunOnce (env\<lparr>Statfs := f\<rparr>) profile task w = RunOnce env profile task w"
  using assms
  by (simp add: RunOnce_def Let_def backupDatabase_Statfs removeLocalBackupFile_Statfs
      split: option.split prod.split)

section \<open>Auxiliary facts about the pipeline store\<close>

lemma log_call_simps [simp]:
  "calls (log_call e s) = calls s @ [e]"
  "cache (log_call e s) = cache s"
  "pipeline_table (log_call e s) = pipeline_table s"
  by (simp_all add: log_call_def)

lemma new_calls_append [simp]: "calls s' = calls s @ evs \<Longrightarrow> new_calls s s' = evs"
  by (simp add: new_calls_def)

text \<open>Without a failing scan the loop over the rows returns all of them, in order.\<close>

lemma scan_rows_ok:
  assumes "\<forall>p \<in> set rows. Scan_err env p = None"
  shows "scan_rows env rows list = Inr (list @ rows)"
  using assms by (induction rows arbitrary: list) simp_all

lemma findPipelineList_ok:
  assumes "Query_err env = None"
    and "\<forall>p \<in> set (filter (where_clause fnd) tx). Scan_err env p = None"
    and "Rows_err env = None"
  shows "findPipelineList env tx fnd s = (Inr (filter (where_clause fnd) tx), log_call (EvSelect fnd) s)"
  using assms by (simp add: findPipelineList_def Let_def scan_rows_ok)

text \<open>\<open>findPipelineList\<close> records its query and nothing else, whatever it returns.\<close>

lemma findPipelineList_state:
  "snd (findPipelineList env tx fnd s) = log_call (EvSelect fnd) s"
  by (simp add: findPipelineList_def Let_def split: option.split sum.split)

text \<open>A cache hit: the cached pipeline is returned after the probe of the cache, the
  only call made.\<close>

lemma FindPipeline_hit:
  assumes "find_ID fnd = Some i"
    and "cache s (PipelineCache, i) = Some p"
  shows "FindPipeline env fnd s = (Inr p, s\<lparr>calls := calls s @ [EvFindCache PipelineCache i]\<rparr>)"
  using assms by (simp add: FindPipeline_def FindCache_def log_call_def)

text \<open>Without a hit, \<open>FindPipeline\<close> opens a transaction, and with the transaction open
  it runs the query; it probes the cache before, once, when the filter has an id.\<close>

lemma FindPipeline_miss_calls:
  assumes "case find_ID fnd of None \<Rightarrow> True | Some i \<Rightarrow> cache s (PipelineCache, i) = None"
  shows "\<exists>rest. calls (snd (FindPipeline env fnd s)) =
            calls s @ (case find_ID fnd of None \<Rightarrow> [] | Some i \<Rightarrow> [EvFindCache PipelineCache i])
              @ EvBeginTx # (case BeginTx_err env of None \<Rightarrow> [EvSelect fnd] | Some e \<Rightarrow> []) @ rest
          \<and> (\<forall>ns i. EvFindCache ns i \<notin> set rest)"
proof -
  let ?s1 = "case find_ID fnd of None \<Rightarrow> s | Some i \<Rightarrow> log_call (EvFindCache PipelineCache i) s"
  let ?fl = "findPipelineList env (pipeline_table s) fnd (log_call EvBeginTx ?s1)"
  have early: "(case find_ID fnd of
                  None \<Rightarrow> (None, s)
                | Some i \<Rightarrow>
                    (case FindCache PipelineCache i s of
                       (Inl e, s') \<Rightarrow> (Some (Inl e), s')
                     | (Inr (Some pipeline), s') \<Rightarrow> (Some (Inr pipeline), s')
                     | (Inr None, s') \<Rightarrow> (None, s'))) = (None, ?s1)"
    using assms by (auto simp add: FindCache_def split: option.splits)
  have tbl: "pipeline_table ?s1 = pipeline_table s"
    by (simp split: option.split)
  have c1: "calls ?s1 = calls s @ (case find_ID fnd of None \<Rightarrow> [] | Some i \<Rightarrow> [EvFindCache PipelineCache i])"
    by (simp split: option.split)
  have fl: "?fl = (fst ?fl, log_call (EvSelect fnd) (log_call EvBeginTx ?s1))"
    using findPipelineList_state [of env "pipeline_table s" fnd "log_call EvBeginTx ?s1"]
    by (simp add: prod_eq_iff)
  show ?thesis
  proof (cases "BeginTx_err env")
    case (Some e)
    have "FindPipeline env fnd s = (Inl (FormatError env e), log_call EvBeginTx ?s1)"
      using Some by (simp add: FindPipeline_def early BeginTx_def)
    then show ?thesis
      using Some c1 by simp
  next
    case None
    show ?thesis
    proof (cases "fst ?fl")
      case (Inl e)
      with fl have fl': "?fl = (Inl e, log_call (EvSelect fnd) (log_call EvBeginTx ?s1))"
        by simp
      have "FindPipeline env fnd s =
              (Inl e, log_call EvRollback (log_call (EvSelect fnd) (log_call EvBeginTx ?s1)))"
        using None
        by (simp add: FindPipeline_def early BeginTx_def tbl fl' Rollback_def)
      then show ?thesis
        using None c1 by simp
    next
      case (Inr list)
      with fl have fl': "?fl = (Inr list, log_call (EvSelect fnd) (log_call EvBeginTx ?s1))"
        by simp
      show ?thesis
      proof (cases "length list = 0 \<or> length list > 1")
        case True
        have "snd (FindPipeline env fnd s) =
                log_call EvRollback (log_call (EvSelect fnd) (log_call EvBeginTx ?s1))"
          using None True
          by (auto simp add: FindPipeline_def early BeginTx_def tbl fl' Rollback_def)
        then show ?thesis
          using None c1 by simp
      next
        case False
        have "FindPipeline env fnd s =
              (Inr (list ! 0),
               log_call EvRollback
                 ((log_call (EvUpsertCache PipelineCache (pipeline_ID (list ! 0)) (list ! 0))
                     (log_call (EvSelect fnd) (log_call EvBeginTx ?s1)))
                  \<lparr>cache := (cache (log_call (EvSelect fnd) (log_call EvBeginTx ?s1)))
                              ((PipelineCache, pipeline_ID (list ! 0)) \<mapsto> list ! 0)\<rparr>))"
          using None False
          by (simp add: FindPipeline_def early BeginTx_def tbl fl' UpsertCache_def Rollback_def)
        then show ?thesis
          using None c1 by simp
      qed
    qed
  qed
qed

text \<open>A pipeline that \<open>CreatePipeline\<close> or \<open>PatchPipeline\<close> returns is in the cache under
  its id.\<close>

lemma CreatePipeline_cached:
  assumes "CreatePipeline env create s = (Inr E, s1)"
  shows "cache s1 (PipelineCache, pipeline_ID E) = Some E"
  using assms
  by (auto simp add: CreatePipeline_def createPipeline_def BeginTx_def Commit_def UpsertCache_def
      Rollback_def Let_def split: option.splits)

lemma PatchPipeline_cached:
  assumes "PatchPipeline env patch s = (Inr E, s1)"
  shows "cache s1 (PipelineCache, pipeline_ID E) = Some E"
  using assms
  by (auto simp add: PatchPipeline_def patchPipeline_def BeginTx_def Commit_def UpsertCache_def
      Rollback_def Let_def split: option.splits list.splits)

section \<open>Properties of the backup executor\<close>

text \<open>
  Claim C9. \<open>RunOnce\<close> returns \<open>terminated = true\<close> on every path, and what else it
  returns is fixed by the path taken. A payload that does not decode, a failing lookup, a
  missing backup, a failing \<open>statfs\<close> and too little space each return no result and
  the error of that step, wrapped with the message of the step. Once the space check has
  passed, the outcome follows \<open>backupDatabase\<close>: when it returned no error, \<open>RunOnce\<close>
  returns \<open>err = nil\<close> and the result whose detail names the database; when it returned
  an error, \<open>RunOnce\<close> returns no result and that error; in both cases a failing
  \<open>PatchBackup\<close> takes precedence, wrapped as \<open>failed to patch backup\<close>. The last
  conjunct gives what \<open>backupDatabase\<close> returns on each of its paths: the error of the
  driver factory as it is, and the wrapped error of \<open>os.Create\<close>, of the dump, of
  \<open>os.Open\<close> and of the upload, the error for an unknown storage backend, and
  otherwise the payload of the dump with no error.
\<close>

theorem RunOnce_returns:
  "fst (fst (RunOnce env profile task w)) = True
 \<and> (\<forall>e. unmarshal env (task_Payload task) = Inl e \<longrightarrow>
        fst (RunOnce env profile task w) = (True, None, Some (Wrap e ''invalid database backup payload'')))
 \<and> (\<forall>payload. unmarshal env (task_Payload task) = Inr payload \<longrightarrow>
        (\<forall>e. GetBackupByID env (BackupID payload) = Inl e \<longrightarrow>
           fst (RunOnce env profile task w) =
             (True, None, Some (Wrap e (''failed to find backup with ID '' @ fmt_d (BackupID payload)))))
      \<and> (GetBackupByID env (BackupID payload) = Inr None \<longrightarrow>
           fst (RunOnce env profile task w) =
             (True, None, Some (New (''backup '' @ fmt_d (BackupID payload) @ '' not found''))))
      \<and> (\<forall>backup. GetBackupByID env (BackupID payload) = Inr (Some backup) \<longrightarrow>
           (\<forall>e. backup_StorageBackend backup = BackupStorageBackendLocal \<and> Statfs env (filepath_Dir (filepath_Join [DataDir profile, backup_Path backup])) = Inl e \<longrightarrow>
              fst (RunOnce env profile task w) =
                (True, None,
                 Some (Wrap (Wrap e ''failed to call syscall statfs'')
                         (''failed to get available file system space, backup file dir is '' @ filepath_Dir (filepath_Join [DataDir profile, backup_Path backup])))))
         \<and> (\<forall>bavail bsize.
              backup_StorageBackend backup = BackupStorageBackendLocal \<and> Statfs env (filepath_Dir (filepath_Join [DataDir profile, backup_Path backup])) = Inr (bavail, bsize)
                \<and> bavail * bsize < minAvailableFSBytes \<longrightarrow>
              fst (RunOnce env profile task w) =
                (True, None,
                 Some (New (''the available file system space ''
                         @ fmt_d (uint (bavail * bsize div 1024 div 1024))
                         @ ''MB is less than the minimal threshold ''
                         @ fmt_d (uint (minAvailableFSBytes div 1024 div 1024)) @ ''MB''))))
         \<and> (\<forall>bavail bsize dumped w'.
              (backup_StorageBackend backup \<noteq> BackupStorageBackendLocal \<or>
         (Statfs env (filepath_Dir (filepath_Join [DataDir profile, backup_Path backup])) = Inr (bavail, bsize)
          \<and> minAvailableFSBytes \<le> bavail * bsize))
                \<and> fst (backupDatabase env profile (task_Instance task) (database_Name (task_Database task)) backup w') = (dumped, None) \<longrightarrow>
              fst (RunOnce env profile task w) =
                (True,
                 case PatchBackup env \<lparr>patch_ID = backup_ID backup, patch_Status = Some BackupStatusDone,
                    patch_UpdaterID = SystemBotID env, patch_Comment = Some [],
                    patch_Payload = Some dumped\<rparr> of
                   Some e' \<Rightarrow> (None, Some (Wrap e' ''failed to patch backup''))
                 | None \<Rightarrow> (Some \<lparr>Detail = ''Backup database '' @ quote env (database_Name (task_Database task))\<rparr>, None)))
         \<and> (\<forall>bavail bsize dumped e w'.
              (backup_StorageBackend backup \<noteq> BackupStorageBackendLocal \<or>
         (Statfs env (filepath_Dir (filepath_Join [DataDir profile, backup_Path backup])) = Inr (bavail, bsize)
          \<and> minAvailableFSBytes \<le> bavail * bsize))
                \<and> fst (backupDatabase env profile (task_Instance task) (database_Name (task_Database task)) backup w') = (dumped, Some e) \<longrightarrow>
              fst (RunOnce env profile task w) =
                (True, None,
                 Some (case PatchBackup env
                         \<lparr>patch_ID = backup_ID backup, patch_Status = Some BackupStatusFailed,
                          patch_UpdaterID = SystemBotID env, patch_Comment = Some (Error e),
                          patch_Payload = Some dumped\<rparr> of
                         Some e' \<Rightarrow> Wrap e' ''failed to patch backup''
                       | None \<Rightarrow> e)))))
 \<and> (\<forall>inst d backup w'.
        fst (backupDatabase env profile inst d backup w') =
          (case GetAdminDatabaseDriver env inst d of
             Some e \<Rightarrow> ([], Some e)
           | None \<Rightarrow>
               (case create_err env (filepath_Join [DataDir profile, backup_Path backup]) of
                  Some e \<Rightarrow>
                    ([], Some (Wrap (New (''failed to open backup path '' @ quote env (filepath_Join [DataDir profile, backup_Path backup])))
                                    (''failed to dump backup file '' @ quote env (filepath_Join [DataDir profile, backup_Path backup]))))
                | None \<Rightarrow>
                    (case Dump env d of
                       (written, Inl e) \<Rightarrow>
                         ([], Some (Wrap (Wrap e (''failed to dump database '' @ quote env d
                                             @ '' to local backup file '' @ quote env (filepath_Join [DataDir profile, backup_Path backup])))
                                         (''failed to dump backup file '' @ quote env (filepath_Join [DataDir profile, backup_Path backup]))))
                     | (written, Inr dumped) \<Rightarrow>
                         (if backup_StorageBackend backup = BackupStorageBackendLocal then (dumped, None)
                          else if backup_StorageBackend backup = BackupStorageBackendS3 then
                            (case open_err env (filepath_Join [DataDir profile, backup_Path backup]) of
                               Some e \<Rightarrow>
                                 ([], Some (Wrap e (''failed to open backup file '' @ quote env (filepath_Join [DataDir profile, backup_Path backup])
                                      @ '' for uploading to s3 bucket'')))
                             | None \<Rightarrow>
                                 (case UploadObject env (backup_Path backup) written of
                                    Some e \<Rightarrow> ([], Some (Wrap e ''failed to upload backup to AWS S3''))
                                  | None \<Rightarrow> (dumped, None)))
                          else ([], Some (New (''backup to '' @ backup_StorageBackend backup @ '' not implemented yet''))))))))"
proof (intro conjI allI impI)
  show "fst (fst (RunOnce env profile task w)) = True"
    by (simp add: RunOnce_def Let_def split: sum.split option.split prod.split)
next
  fix e assume "unmarshal env (task_Payload task) = Inl e"
  then show "fst (RunOnce env profile task w) = (True, None, Some (Wrap e ''invalid database backup payload''))"
    by (simp add: RunOnce_def)
next
  fix payload e assume "unmarshal env (task_Payload task) = Inr payload" "GetBackupByID env (BackupID payload) = Inl e"
  then show "fst (RunOnce env profile task w) =
             (True, None, Some (Wrap e (''failed to find backup with ID '' @ fmt_d (BackupID payload))))"
    by (simp add: RunOnce_def Let_def)
next
  fix payload assume "unmarshal env (task_Payload task) = Inr payload" "GetBackupByID env (BackupID payload) = Inr None"
  then show "fst (RunOnce env profile task w) =
             (True, None, Some (New (''backup '' @ fmt_d (BackupID payload) @ '' not found'')))"
    by (simp add: RunOnce_def Let_def)
next
  fix payload backup e
  assume "unmarshal env (task_Payload task) = Inr payload" "GetBackupByID env (BackupID payload) = Inr (Some backup)" "backup_StorageBackend backup = BackupStorageBackendLocal \<and> Statfs env (filepath_Dir (filepath_Join [DataDir profile, backup_Path backup])) = Inl e"
  then show "fst (RunOnce env profile task w) =
                (True, None,
                 Some (Wrap (Wrap e ''failed to call syscall statfs'')
                         (''failed to get available file system space, backup file dir is '' @ filepath_Dir (filepath_Join [DataDir profile, backup_Path backup]))))"
    by (simp add: RunOnce_def getAvailableFSSpace_def Let_def)
next
  fix payload backup bavail bsize
  assume "unmarshal env (task_Payload task) = Inr payload" "GetBackupByID env (BackupID payload) = Inr (Some backup)"
    "backup_StorageBackend backup = BackupStorageBackendLocal \<and> Statfs env (filepath_Dir (filepath_Join [DataDir profile, backup_Path backup])) = Inr (bavail, bsize)
                \<and> bavail * bsize < minAvailableFSBytes"
  then show "fst (RunOnce env profile task w) =
                (True, None,
                 Some (New (''the available file system space ''
                         @ fmt_d (uint (bavail * bsize div 1024 div 1024))
                         @ ''MB is less than the minimal threshold ''
                         @ fmt_d (uint (minAvailableFSBytes div 1024 div 1024)) @ ''MB'')))"
    by (simp add: RunOnce_def getAvailableFSSpace_def Let_def)
next
  fix payload backup bavail bsize dumped w'
  assume um: "unmarshal env (task_Payload task) = Inr payload" and gb: "GetBackupByID env (BackupID payload) = Inr (Some backup)"
    and h: "(backup_StorageBackend backup \<noteq> BackupStorageBackendLocal \<or>
         (Statfs env (filepath_Dir (filepath_Join [DataDir profile, backup_Path backup])) = Inr (bavail, bsize)
          \<and> minAvailableFSBytes \<le> bavail * bsize))
                \<and> fst (backupDatabase env profile (task_Instance task) (database_Name (task_Database task)) backup w') = (dumped, None)"
  let ?bd = "backupDatabase env profile (task_Instance task) (database_Name (task_Database task)) backup (if backup_StorageBackend backup = BackupStorageBackendLocal
            then emit (EvStatfs (filepath_Dir (filepath_Join [DataDir profile, backup_Path backup])))
                   (emit (EvGetBackupByID (BackupID payload)) w)
            else emit (EvGetBackupByID (BackupID payload)) w)"
  have "fst ?bd = fst (backupDatabase env profile (task_Instance task) (database_Name (task_Database task)) backup w')"
    by (simp only: backupDatabase_result)
  then have bd: "?bd = ((dumped, None), snd ?bd)"
    using h by (simp add: prod_eq_iff)
  from RunOnce_backup_ok [OF um gb conjunct1 [OF h] bd]
  show "fst (RunOnce env profile task w) =
                (True,
                 case PatchBackup env \<lparr>patch_ID = backup_ID backup, patch_Status = Some BackupStatusDone,
                    patch_UpdaterID = SystemBotID env, patch_Comment = Some [],
                    patch_Payload = Some dumped\<rparr> of
                   Some e' \<Rightarrow> (None, Some (Wrap e' ''failed to patch backup''))
                 | None \<Rightarrow> (Some \<lparr>Detail = ''Backup database '' @ quote env (database_Name (task_Database task))\<rparr>, None))"
    by simp
next
  fix payload backup bavail bsize dumped e w'
  assume um: "unmarshal env (task_Payload task) = Inr payload" and gb: "GetBackupByID env (BackupID payload) = Inr (Some backup)"
    and h: "(backup_StorageBackend backup \<noteq> BackupStorageBackendLocal \<or>
         (Statfs env (filepath_Dir (filepath_Join [DataDir profile, backup_Path backup])) = Inr (bavail, bsize)
          \<and> minAvailableFSBytes \<le> bavail * bsize))
                \<and> fst (backupDatabase env profile (task_Instance task) (database_Name (task_Database task)) backup w') = (dumped, Some e)"
  let ?bd = "backupDatabase env profile (task_Instance task) (database_Name (task_Database task)) backup (if backup_StorageBackend backup = BackupStorageBackendLocal
            then emit (EvStatfs (filepath_Dir (filepath_Join [DataDir profile, backup_Path backup])))
                   (emit (EvGetBackupByID (BackupID payload)) w)
            else emit (EvGetBackupByID (BackupID payload)) w)"
  have "fst ?bd = fst (backupDatabase env profile (task_Instance task) (database_Name (task_Database task)) backup w')"
    by (simp only: backupDatabase_result)
  then have bd: "?bd = ((dumped, Some e), snd ?bd)"
    using h by (simp add: prod_eq_iff)
  obtain rerr w4 where rl: "removeLocalBackupFile env (DataDir profile) backup (snd ?bd) = (rerr, w4)"
    by (metis prod.exhaust)
  from RunOnce_backup_failed [OF um gb conjunct1 [OF h] bd rl]
  show "fst (RunOnce env profile task w) =
                (True, None,
                 Some (case PatchBackup env
                         \<lparr>patch_ID = backup_ID backup, patch_Status = Some BackupStatusFailed,
                          patch_UpdaterID = SystemBotID env, patch_Comment = Some (Error e),
                          patch_Payload = Some dumped\<rparr> of
                         Some e' \<Rightarrow> Wrap e' ''failed to patch backup''
                       | None \<Rightarrow> e))"
    by simp
next
  fix inst d backup w'
  show "fst (backupDatabase env profile inst d backup w') =
          (case GetAdminDatabaseDriver env inst d of
             Some e \<Rightarrow> ([], Some e)
           | None \<Rightarrow>
               (case create_err env (filepath_Join [DataDir profile, backup_Path backup]) of
                  Some e \<Rightarrow>
                    ([], Some (Wrap (New (''failed to open backup path '' @ quote env (filepath_Join [DataDir profile, backup_Path backup])))
                                    (''failed to dump backup file '' @ quote env (filepath_Join [DataDir profile, backup_Path backup]))))
                | None \<Rightarrow>
                    (case Dump env d of
                       (written, Inl e) \<Rightarrow>
                         ([], Some (Wrap (Wrap e (''failed to dump database '' @ quote env d
                                             @ '' to local backup file '' @ quote env (filepath_Join [DataDir profile, backup_Path backup])))
                                         (''failed to dump backup file '' @ quote env (filepath_Join [DataDir profile, backup_Path backup]))))
                     | (written, Inr dumped) \<Rightarrow>
                         (if backup_StorageBackend backup = BackupStorageBackendLocal then (dumped, None)
                          else if backup_StorageBackend backup = BackupStorageBackendS3 then
                            (case open_err env (filepath_Join [DataDir profile, backup_Path backup]) of
                               Some e \<Rightarrow>
                                 ([], Some (Wrap e (''failed to open backup file '' @ quote env (filepath_Join [DataDir profile, backup_Path backup])
                                      @ '' for uploading to s3 bucket'')))
                             | None \<Rightarrow>
                                 (case UploadObject env (backup_Path backup) written of
                                    Some e \<Rightarrow> ([], Some (Wrap e ''failed to upload backup to AWS S3''))
                                  | None \<Rightarrow> (dumped, None)))
                          else ([], Some (New (''backup to '' @ backup_StorageBackend backup @ '' not implemented yet'')))))))"
    by (rule backupDatabase_result)
qed

theorem RunOnce_returns_witness:
  "fst (RunOnce (env_bad_payload backup_local) example_profile example_task world0)
     = (True, None, Some (Wrap (New ''unexpected end of JSON input'') ''invalid database backup payload''))
 \<and> fst (RunOnce (env_low_space backup_local) example_profile example_task world0)
     = (True, None,
        Some (New ''the available file system space 100MB is less than the minimal threshold 500MB''))
 \<and> fst (RunOnce (env_dump_fails backup_local) example_profile example_task world0)
     = (True, None,
        Some (Wrap (Wrap (New ''connection lost'')
                      (''failed to dump database '' @ quote (env_ok backup_local) ''shop''
                         @ '' to local backup file '' @ quote (env_ok backup_local) ''/data/backup/db/1/n.sql''))
                (''failed to dump backup file '' @ quote (env_ok backup_local) ''/data/backup/db/1/n.sql'')))
 \<and> fst (RunOnce (env_upload_fails backup_s3) example_profile example_task world0)
     = (True, None, Some (Wrap (New ''connection reset'') ''failed to upload backup to AWS S3''))
 \<and> fst (RunOnce (env_ok backup_s3) example_profile example_task world0)
     = (True, Some \<lparr>Detail = ''Backup database '' @ quote (env_ok backup_s3) ''shop''\<rparr>, None)"
proof -
  have d100: "fmt_d (uint ((25600 :: 64 word) * 4096 div 1024 div 1024)) = ''100''"
    by code_simp
  have d500: "fmt_d (uint (minAvailableFSBytes div 1024 div 1024)) = ''500''"
    by code_simp
  have lt: "(25600 :: 64 word) * 4096 < minAvailableFSBytes"
    by (simp add: minAvailableFSBytes_def)
  have ge: "minAvailableFSBytes \<le> (262144 :: 64 word) * 4096"
    by (simp add: minAvailableFSBytes_def)
  have p: "filepath_Join [DataDir example_profile, ''backup/db/1/n.sql''] = ''/data/backup/db/1/n.sql''"
    by code_simp
  have nl: "backup_StorageBackend backup_s3 \<noteq> BackupStorageBackendLocal"
    by (simp add: backup_s3_def BackupStorageBackendLocal_def)
  have a: "fst (RunOnce (env_bad_payload backup_local) example_profile example_task world0)
     = (True, None, Some (Wrap (New ''unexpected end of JSON input'') ''invalid database backup payload''))"
    using RunOnce_returns [of "env_bad_payload backup_local" example_profile example_task world0,
        THEN conjunct2, THEN conjunct1]
    by (simp add: env_bad_payload_def env_ok_def)
  have b: "fst (RunOnce (env_low_space backup_local) example_profile example_task world0)
     = (True, None,
        Some (New ''the available file system space 100MB is less than the minimal threshold 500MB''))"
    using RunOnce_returns [of "env_low_space backup_local" example_profile example_task world0,
        THEN conjunct2, THEN conjunct2, THEN conjunct1, rule_format,
        of "\<lparr>BackupID = 7\<rparr>", THEN conjunct2, THEN conjunct2, rule_format, of backup_local,
        THEN conjunct2, THEN conjunct1, rule_format, of 25600 4096] lt d100 d500
    by (simp add: env_low_space_def env_ok_def backup_local_def BackupStorageBackendLocal_def)
  have c: "fst (RunOnce (env_dump_fails backup_local) example_profile example_task world0)
     = (True, None,
        Some (Wrap (Wrap (New ''connection lost'')
                      (''failed to dump database '' @ quote (env_ok backup_local) ''shop''
                         @ '' to local backup file '' @ quote (env_ok backup_local) ''/data/backup/db/1/n.sql''))
                (''failed to dump backup file '' @ quote (env_ok backup_local) ''/data/backup/db/1/n.sql'')))"
  proof -
    note T = RunOnce_returns [of "env_dump_fails backup_local" example_profile example_task world0]
    have um: "unmarshal (env_dump_fails backup_local) (task_Payload example_task) = Inr \<lparr>BackupID = 7\<rparr>"
      by (simp add: env_dump_fails_def env_ok_def)
    have gb: "GetBackupByID (env_dump_fails backup_local) (BackupID \<lparr>BackupID = 7\<rparr>) = Inr (Some backup_local)"
      by (simp add: env_dump_fails_def env_ok_def)
    have sp: "Statfs (env_dump_fails backup_local)
                (filepath_Dir (filepath_Join [DataDir example_profile, backup_Path backup_local]))
              = Inr (262144, 4096) \<and> minAvailableFSBytes \<le> (262144 :: 64 word) * 4096"
      using ge by (simp add: env_dump_fails_def env_ok_def)
    have bd: "fst (backupDatabase (env_dump_fails backup_local) example_profile (task_Instance example_task)
                (database_Name (task_Database example_task)) backup_local world0) =
              ([], Some (Wrap (Wrap (New ''connection lost'')
                      (''failed to dump database '' @ quote (env_ok backup_local) ''shop''
                         @ '' to local backup file '' @ quote (env_ok backup_local) ''/data/backup/db/1/n.sql''))
                (''failed to dump backup file '' @ quote (env_ok backup_local) ''/data/backup/db/1/n.sql'')))"
      using T [THEN conjunct2, THEN conjunct2, THEN conjunct2, rule_format,
          of "task_Instance example_task" "database_Name (task_Database example_task)" backup_local world0] p
      by (simp add: env_dump_fails_def env_ok_def backup_local_def example_task_def)
    show ?thesis
      using T [THEN conjunct2, THEN conjunct2, THEN conjunct1, rule_format, OF um,
          THEN conjunct2, THEN conjunct2, rule_format, OF gb,
          THEN conjunct2, THEN conjunct2, THEN conjunct2, rule_format, OF conjI [OF disjI2 [OF sp] bd]]
      by (simp add: env_dump_fails_def env_ok_def)
  qed
  have d: "fst (RunOnce (env_upload_fails backup_s3) example_profile example_task world0)
     = (True, None, Some (Wrap (New ''connection reset'') ''failed to upload backup to AWS S3''))"
  proof -
    note T = RunOnce_returns [of "env_upload_fails backup_s3" example_profile example_task world0]
    have um: "unmarshal (env_upload_fails backup_s3) (task_Payload example_task) = Inr \<lparr>BackupID = 7\<rparr>"
      by (simp add: env_upload_fails_def env_ok_def)
    have gb: "GetBackupByID (env_upload_fails backup_s3) (BackupID \<lparr>BackupID = 7\<rparr>) = Inr (Some backup_s3)"
      by (simp add: env_upload_fails_def env_ok_def)
    have bd: "fst (backupDatabase (env_upload_fails backup_s3) example_profile (task_Instance example_task)
                (database_Name (task_Database example_task)) backup_s3 world0) =
              ([], Some (Wrap (New ''connection reset'') ''failed to upload backup to AWS S3''))"
      using T [THEN conjunct2, THEN conjunct2, THEN conjunct2, rule_format,
          of "task_Instance example_task" "database_Name (task_Database example_task)" backup_s3 world0]
      by (simp add: env_upload_fails_def env_ok_def backup_s3_def
          BackupStorageBackendLocal_def BackupStorageBackendS3_def)
    show ?thesis
      using T [THEN conjunct2, THEN conjunct2, THEN conjunct1, rule_format, OF um,
          THEN conjunct2, THEN conjunct2, rule_format, OF gb,
          THEN conjunct2, THEN conjunct2, THEN conjunct2, rule_format, OF conjI [OF disjI1 [OF nl] bd]]
      by (simp add: env_upload_fails_def env_ok_def)
  qed
  have e: "fst (RunOnce (env_ok backup_s3) example_profile example_task world0)
     = (True, Some \<lparr>Detail = ''Backup database '' @ quote (env_ok backup_s3) ''shop''\<rparr>, None)"
  proof -
    note T = RunOnce_returns [of "env_ok backup_s3" example_profile example_task world0]
    have um: "unmarshal (env_ok backup_s3) (task_Payload example_task) = Inr \<lparr>BackupID = 7\<rparr>"
      by (simp add: env_ok_def)
    have gb: "GetBackupByID (env_ok backup_s3) (BackupID \<lparr>BackupID = 7\<rparr>) = Inr (Some backup_s3)"
      by (simp add: env_ok_def)
    have bd: "fst (backupDatabase (env_ok backup_s3) example_profile (task_Instance example_task)
                (database_Name (task_Database example_task)) backup_s3 world0) = (''{}'', None)"
      using T [THEN conjunct2, THEN conjunct2, THEN conjunct2, rule_format,
          of "task_Instance example_task" "database_Name (task_Database example_task)" backup_s3 world0]
      by (simp add: env_ok_def backup_s3_def BackupStorageBackendLocal_def BackupStorageBackendS3_def)
    show ?thesis
      using T [THEN conjunct2, THEN conjunct2, THEN conjunct1, rule_format, OF um,
          THEN conjunct2, THEN conjunct2, rule_format, OF gb,
          THEN conjunct2, THEN conjunct2, THEN conjunct1, rule_format, OF conjI [OF disjI1 [OF nl] bd]]
      by (simp add: env_ok_def example_task_def)
  qed
  show ?thesis
    using a b c d e by simp
qed

text \<open>
  Claim C2. Take a backup with storage backend \<open>LOCAL\<close> for which \<open>statfs\<close> on the
  directory of the backup file reports \<open>bavail\<close> free blocks of \<open>bsize\<close> bytes, together
  fewer than \<open>500 * 1024 * 1024\<close> bytes. Then \<open>RunOnce\<close> returns \<open>terminated = true\<close>, no
  result and the error that names the available space and the threshold; the only calls
  it has made are the lookup of the backup and \<open>statfs\<close>, so no file was created and
  nothing was dumped, and the files are those there were before.
\<close>

theorem RunOnce_local_low_space:
  assumes "unmarshal env (task_Payload task) = Inr payload"
    and "GetBackupByID env (BackupID payload) = Inr (Some backup)"
    and "backup_StorageBackend backup = BackupStorageBackendLocal"
    and "Statfs env (filepath_Dir (filepath_Join [DataDir profile, backup_Path backup])) = Inr (bavail, bsize)"
    and "unat bavail * unat bsize < 500 * 1024 * 1024"
  shows "fst (RunOnce env profile task w) =
           (True, None, Some (New (''the available file system space ''
                 @ fmt_d (uint (bavail * bsize div 1024 div 1024))
                 @ ''MB is less than the minimal threshold ''
                 @ fmt_d (uint (minAvailableFSBytes div 1024 div 1024)) @ ''MB'')))
       \<and> files (snd (RunOnce env profile task w)) = files w
       \<and> events_of w (snd (RunOnce env profile task w)) = [EvGetBackupByID (BackupID payload), EvStatfs (filepath_Dir (filepath_Join [DataDir profile, backup_Path backup]))]"
  using assms word_mul_small [of bavail bsize]
  by (simp add: RunOnce_def getAvailableFSSpace_def Let_def)

theorem RunOnce_local_low_space_witness:
  "unat (25600 :: 64 word) * unat (4096 :: 64 word) = 100 * 1024 * 1024
 \<and> fst (RunOnce (env_low_space backup_local) example_profile example_task world0) =
      (True, None,
       Some (New ''the available file system space 100MB is less than the minimal threshold 500MB''))
 \<and> files (snd (RunOnce (env_low_space backup_local) example_profile example_task world0)) = files world0
 \<and> events_of world0 (snd (RunOnce (env_low_space backup_local) example_profile example_task world0)) =
      [EvGetBackupByID 7, EvStatfs ''/data/backup/db/1'']"
proof -
  have d100: "fmt_d (uint ((25600 :: 64 word) * 4096 div 1024 div 1024)) = ''100''"
    by code_simp
  have d500: "fmt_d (uint (minAvailableFSBytes div 1024 div 1024)) = ''500''"
    by code_simp
  have dir: "filepath_Dir (filepath_Join [DataDir example_profile, backup_Path backup_local]) = ''/data/backup/db/1''"
    by code_simp
  have um: "unmarshal (env_low_space backup_local) (task_Payload example_task) = Inr \<lparr>BackupID = 7\<rparr>"
    by (simp add: env_low_space_def env_ok_def)
  have gb: "GetBackupByID (env_low_space backup_local) (BackupID \<lparr>BackupID = 7\<rparr>) = Inr (Some backup_local)"
    by (simp add: env_low_space_def env_ok_def)
  have be: "backup_StorageBackend backup_local = BackupStorageBackendLocal"
    by (simp add: backup_local_def BackupStorageBackendLocal_def)
  have st: "Statfs (env_low_space backup_local)
              (filepath_Dir (filepath_Join [DataDir example_profile, backup_Path backup_local])) = Inr (25600, 4096)"
    by (simp add: env_low_space_def env_ok_def)
  have small: "unat (25600 :: 64 word) * unat (4096 :: 64 word) < 500 * 1024 * 1024"
    by simp
  from RunOnce_local_low_space [OF um gb be st small, of world0, unfolded dir d100 d500]
  show ?thesis
    by simp
qed

text \<open>
  Claim C1, amended. Take a backup with storage backend \<open>S3\<close> whose dump succeeds (the
  driver is obtained, the local file is created, the driver writes \<open>written\<close> into it,
  and the file opens for the upload).

  When the upload succeeds, \<open>RunOnce\<close> calls \<open>os.Remove\<close> on the local dump file and then
  patches the backup with status \<open>DONE\<close> and an empty comment; with a successful patch
  it returns the result. The file is gone afterwards when \<open>os.Remove\<close> succeeds; when
  \<open>os.Remove\<close> fails, the failure is logged, the file stays with the dump in it, and
  the status is \<open>DONE\<close> all the same.

  When the upload fails with \<open>e\<close>, there is no call of \<open>os.Remove\<close>, the local file
  stays with the dump in it, and the backup is patched with status \<open>FAILED\<close> and the
  comment \<open>failed to upload backup to AWS S3: e\<close>; with a successful patch \<open>RunOnce\<close>
  returns that wrapped error.
\<close>

theorem RunOnce_s3_upload:
  assumes um: "unmarshal env (task_Payload task) = Inr payload"
    and gb: "GetBackupByID env (BackupID payload) = Inr (Some backup)"
    and s3: "backup_StorageBackend backup = BackupStorageBackendS3"
    and drv: "GetAdminDatabaseDriver env (task_Instance task) (database_Name (task_Database task)) = None"
    and cr: "create_err env (filepath_Join [DataDir profile, backup_Path backup]) = None"
    and dump: "Dump env (database_Name (task_Database task)) = (written, Inr dumped)"
    and opn: "open_err env (filepath_Join [DataDir profile, backup_Path backup]) = None"
  shows "(UploadObject env (backup_Path backup) written = None \<longrightarrow>
            events_of w (snd (RunOnce env profile task w)) =
              [EvGetBackupByID (BackupID payload), EvGetAdminDatabaseDriver (instance_Name (task_Instance task)) (database_Name (task_Database task)),
               EvCreate (filepath_Join [DataDir profile, backup_Path backup]), EvDump (database_Name (task_Database task)) (filepath_Join [DataDir profile, backup_Path backup]), EvOpen (filepath_Join [DataDir profile, backup_Path backup]),
               EvUploadObject (backup_Path backup) written, EvRemove (filepath_Join [DataDir profile, backup_Path backup])]
              @ (if remove_err env (filepath_Join [DataDir profile, backup_Path backup]) = None then [] else [EvLogWarn ''Failed to remove the local backup file after uploading to s3 bucket.''])
              @ [EvDriverClose, EvPatchBackup \<lparr>patch_ID = backup_ID backup, patch_Status = Some BackupStatusDone,
                    patch_UpdaterID = SystemBotID env, patch_Comment = Some [],
                    patch_Payload = Some dumped\<rparr>]
          \<and> files (snd (RunOnce env profile task w)) =
              (if remove_err env (filepath_Join [DataDir profile, backup_Path backup]) = None then (files w)(filepath_Join [DataDir profile, backup_Path backup] := None)
               else (files w)(filepath_Join [DataDir profile, backup_Path backup] \<mapsto> written))
          \<and> fst (RunOnce env profile task w) =
              (True,
               case PatchBackup env \<lparr>patch_ID = backup_ID backup, patch_Status = Some BackupStatusDone,
                    patch_UpdaterID = SystemBotID env, patch_Comment = Some [],
                    patch_Payload = Some dumped\<rparr> of
                 Some e' \<Rightarrow> (None, Some (Wrap e' ''failed to patch backup''))
               | None \<Rightarrow> (Some \<lparr>Detail = ''Backup database '' @ quote env (database_Name (task_Database task))\<rparr>, None)))
       \<and> (\<forall>e. UploadObject env (backup_Path backup) written = Some e \<longrightarrow>
            events_of w (snd (RunOnce env profile task w)) =
              [EvGetBackupByID (BackupID payload), EvGetAdminDatabaseDriver (instance_Name (task_Instance task)) (database_Name (task_Database task)),
               EvCreate (filepath_Join [DataDir profile, backup_Path backup]), EvDump (database_Name (task_Database task)) (filepath_Join [DataDir profile, backup_Path backup]), EvOpen (filepath_Join [DataDir profile, backup_Path backup]),
               EvUploadObject (backup_Path backup) written,
               EvDriverClose, EvPatchBackup \<lparr>patch_ID = backup_ID backup, patch_Status = Some BackupStatusFailed,
                   patch_UpdaterID = SystemBotID env,
                   patch_Comment = Some (''failed to upload backup to AWS S3: '' @ Error e),
                   patch_Payload = Some []\<rparr>]
          \<and> files (snd (RunOnce env profile task w)) = (files w)(filepath_Join [DataDir profile, backup_Path backup] \<mapsto> written)
          \<and> fst (RunOnce env profile task w) =
              (True, None,
               Some (case PatchBackup env \<lparr>patch_ID = backup_ID backup, patch_Status = Some BackupStatusFailed,
                   patch_UpdaterID = SystemBotID env,
                   patch_Comment = Some (''failed to upload backup to AWS S3: '' @ Error e),
                   patch_Payload = Some []\<rparr> of
                       Some e' \<Rightarrow> Wrap e' ''failed to patch backup''
                     | None \<Rightarrow> Wrap e ''failed to upload backup to AWS S3'')))"
proof -
  let ?w1 = "emit (EvGetBackupByID (BackupID payload)) w"
  let ?bd = "backupDatabase env profile (task_Instance task) (database_Name (task_Database task)) backup ?w1"
  have nl: "backup_StorageBackend backup \<noteq> BackupStorageBackendLocal"
    using s3 by simp
  have sp: "backup_StorageBackend backup \<noteq> BackupStorageBackendLocal \<or>
         (Statfs env (filepath_Dir (filepath_Join [DataDir profile, backup_Path backup])) = Inr (0, 0) \<and> minAvailableFSBytes \<le> 0 * 0)"
    using nl by simp
  have w2: "(if backup_StorageBackend backup = BackupStorageBackendLocal
            then emit (EvStatfs (filepath_Dir (filepath_Join [DataDir profile, backup_Path backup])))
                   (emit (EvGetBackupByID (BackupID payload)) w)
            else emit (EvGetBackupByID (BackupID payload)) w) = ?w1"
    using nl by simp
  have ok: "UploadObject env (backup_Path backup) written = None \<Longrightarrow>
            events_of w (snd (RunOnce env profile task w)) =
              [EvGetBackupByID (BackupID payload), EvGetAdminDatabaseDriver (instance_Name (task_Instance task)) (database_Name (task_Database task)),
               EvCreate (filepath_Join [DataDir profile, backup_Path backup]), EvDump (database_Name (task_Database task)) (filepath_Join [DataDir profile, backup_Path backup]), EvOpen (filepath_Join [DataDir profile, backup_Path backup]),
               EvUploadObject (backup_Path backup) written, EvRemove (filepath_Join [DataDir profile, backup_Path backup])]
              @ (if remove_err env (filepath_Join [DataDir profile, backup_Path backup]) = None then [] else [EvLogWarn ''Failed to remove the local backup file after uploading to s3 bucket.''])
              @ [EvDriverClose, EvPatchBackup \<lparr>patch_ID = backup_ID backup, patch_Status = Some BackupStatusDone,
                    patch_UpdaterID = SystemBotID env, patch_Comment = Some [],
                    patch_Payload = Some dumped\<rparr>]
          \<and> files (snd (RunOnce env profile task w)) =
              (if remove_err env (filepath_Join [DataDir profile, backup_Path backup]) = None then (files w)(filepath_Join [DataDir profile, backup_Path backup] := None)
               else (files w)(filepath_Join [DataDir profile, backup_Path backup] \<mapsto> written))
          \<and> fst (RunOnce env profile task w) =
              (True,
               case PatchBackup env \<lparr>patch_ID = backup_ID backup, patch_Status = Some BackupStatusDone,
                    patch_UpdaterID = SystemBotID env, patch_Comment = Some [],
                    patch_Payload = Some dumped\<rparr> of
                 Some e' \<Rightarrow> (None, Some (Wrap e' ''failed to patch backup''))
               | None \<Rightarrow> (Some \<lparr>Detail = ''Backup database '' @ quote env (database_Name (task_Database task))\<rparr>, None))"
  proof -
    assume up: "UploadObject env (backup_Path backup) written = None"
    have "fst ?bd = (dumped, None)"
      using drv cr dump s3 opn up by (simp add: backupDatabase_result)
    then have bd: "backupDatabase env profile (task_Instance task) (database_Name (task_Database task)) backup (if backup_StorageBackend backup = BackupStorageBackendLocal
            then emit (EvStatfs (filepath_Dir (filepath_Join [DataDir profile, backup_Path backup])))
                   (emit (EvGetBackupByID (BackupID payload)) w)
            else emit (EvGetBackupByID (BackupID payload)) w) = ((dumped, None), snd ?bd)"
      unfolding w2 by (simp add: prod_eq_iff)
    note run = RunOnce_backup_ok [OF um gb sp bd]
    note fs = backupDatabase_upload_ok(1) [OF drv cr dump s3 opn up, of ?w1]
    note tr = backupDatabase_upload_ok(2) [OF drv cr dump s3 opn up, of ?w1]
    have "trace (snd (RunOnce env profile task w)) = trace w @
              ([EvGetBackupByID (BackupID payload), EvGetAdminDatabaseDriver (instance_Name (task_Instance task)) (database_Name (task_Database task)),
               EvCreate (filepath_Join [DataDir profile, backup_Path backup]), EvDump (database_Name (task_Database task)) (filepath_Join [DataDir profile, backup_Path backup]), EvOpen (filepath_Join [DataDir profile, backup_Path backup]),
               EvUploadObject (backup_Path backup) written, EvRemove (filepath_Join [DataDir profile, backup_Path backup])]
              @ (if remove_err env (filepath_Join [DataDir profile, backup_Path backup]) = None then [] else [EvLogWarn ''Failed to remove the local backup file after uploading to s3 bucket.''])
              @ [EvDriverClose, EvPatchBackup \<lparr>patch_ID = backup_ID backup, patch_Status = Some BackupStatusDone,
                    patch_UpdaterID = SystemBotID env, patch_Comment = Some [],
                    patch_Payload = Some dumped\<rparr>])"
      using run tr by simp
    then have "events_of w (snd (RunOnce env profile task w)) =
              [EvGetBackupByID (BackupID payload), EvGetAdminDatabaseDriver (instance_Name (task_Instance task)) (database_Name (task_Database task)),
               EvCreate (filepath_Join [DataDir profile, backup_Path backup]), EvDump (database_Name (task_Database task)) (filepath_Join [DataDir profile, backup_Path backup]), EvOpen (filepath_Join [DataDir profile, backup_Path backup]),
               EvUploadObject (backup_Path backup) written, EvRemove (filepath_Join [DataDir profile, backup_Path backup])]
              @ (if remove_err env (filepath_Join [DataDir profile, backup_Path backup]) = None then [] else [EvLogWarn ''Failed to remove the local backup file after uploading to s3 bucket.''])
              @ [EvDriverClose, EvPatchBackup \<lparr>patch_ID = backup_ID backup, patch_Status = Some BackupStatusDone,
                    patch_UpdaterID = SystemBotID env, patch_Comment = Some [],
                    patch_Payload = Some dumped\<rparr>]"
      by (rule events_of_append)
    moreover have "files (snd (RunOnce env profile task w)) =
              (if remove_err env (filepath_Join [DataDir profile, backup_Path backup]) = None then (files w)(filepath_Join [DataDir profile, backup_Path backup] := None)
               else (files w)(filepath_Join [DataDir profile, backup_Path backup] \<mapsto> written))"
      using run fs by simp
    moreover have "fst (RunOnce env profile task w) =
              (True,
               case PatchBackup env \<lparr>patch_ID = backup_ID backup, patch_Status = Some BackupStatusDone,
                    patch_UpdaterID = SystemBotID env, patch_Comment = Some [],
                    patch_Payload = Some dumped\<rparr> of
                 Some e' \<Rightarrow> (None, Some (Wrap e' ''failed to patch backup''))
               | None \<Rightarrow> (Some \<lparr>Detail = ''Backup database '' @ quote env (database_Name (task_Database task))\<rparr>, None))"
      using run by simp
    ultimately show ?thesis
      by blast
  qed
  have failed: "\<And>e. UploadObject env (backup_Path backup) written = Some e \<Longrightarrow>
            events_of w (snd (RunOnce env profile task w)) =
              [EvGetBackupByID (BackupID payload), EvGetAdminDatabaseDriver (instance_Name (task_Instance task)) (database_Name (task_Database task)),
               EvCreate (filepath_Join [DataDir profile, backup_Path backup]), EvDump (database_Name (task_Database task)) (filepath_Join [DataDir profile, backup_Path backup]), EvOpen (filepath_Join [DataDir profile, backup_Path backup]),
               EvUploadObject (backup_Path backup) written,
               EvDriverClose, EvPatchBackup \<lparr>patch_ID = backup_ID backup, patch_Status = Some BackupStatusFailed,
                   patch_UpdaterID = SystemBotID env,
                   patch_Comment = Some (''failed to upload backup to AWS S3: '' @ Error e),
                   patch_Payload = Some []\<rparr>]
          \<and> files (snd (RunOnce env profile task w)) = (files w)(filepath_Join [DataDir profile, backup_Path backup] \<mapsto> written)
          \<and> fst (RunOnce env profile task w) =
              (True, None,
               Some (case PatchBackup env \<lparr>patch_ID = backup_ID backup, patch_Status = Some BackupStatusFailed,
                   patch_UpdaterID = SystemBotID env,
                   patch_Comment = Some (''failed to upload backup to AWS S3: '' @ Error e),
                   patch_Payload = Some []\<rparr> of
                       Some e' \<Rightarrow> Wrap e' ''failed to patch backup''
                     | None \<Rightarrow> Wrap e ''failed to upload backup to AWS S3''))"
  proof -
    fix e
    assume up: "UploadObject env (backup_Path backup) written = Some e"
    have "fst ?bd = ([], Some (Wrap e ''failed to upload backup to AWS S3''))"
      using drv cr dump s3 opn up by (simp add: backupDatabase_result)
    then have bd: "backupDatabase env profile (task_Instance task) (database_Name (task_Database task)) backup (if backup_StorageBackend backup = BackupStorageBackendLocal
            then emit (EvStatfs (filepath_Dir (filepath_Join [DataDir profile, backup_Path backup])))
                   (emit (EvGetBackupByID (BackupID payload)) w)
            else emit (EvGetBackupByID (BackupID payload)) w) =
                     (([], Some (Wrap e ''failed to upload backup to AWS S3'')), snd ?bd)"
      unfolding w2 by (simp add: prod_eq_iff)
    note rl = removeLocalBackupFile_not_local [OF nl, of env "DataDir profile" "snd ?bd"]
    note run = RunOnce_backup_failed [OF um gb sp bd rl]
    note fs = backupDatabase_upload_fails(1) [OF drv cr dump s3 opn up, of ?w1]
    note tr = backupDatabase_upload_fails(2) [OF drv cr dump s3 opn up, of ?w1]
    have "trace (snd (RunOnce env profile task w)) = trace w @
              [EvGetBackupByID (BackupID payload), EvGetAdminDatabaseDriver (instance_Name (task_Instance task)) (database_Name (task_Database task)),
               EvCreate (filepath_Join [DataDir profile, backup_Path backup]), EvDump (database_Name (task_Database task)) (filepath_Join [DataDir profile, backup_Path backup]), EvOpen (filepath_Join [DataDir profile, backup_Path backup]),
               EvUploadObject (backup_Path backup) written,
               EvDriverClose, EvPatchBackup \<lparr>patch_ID = backup_ID backup, patch_Status = Some BackupStatusFailed,
                   patch_UpdaterID = SystemBotID env,
                   patch_Comment = Some (''failed to upload backup to AWS S3: '' @ Error e),
                   patch_Payload = Some []\<rparr>]"
      using run tr by simp
    then have "events_of w (snd (RunOnce env profile task w)) =
              [EvGetBackupByID (BackupID payload), EvGetAdminDatabaseDriver (instance_Name (task_Instance task)) (database_Name (task_Database task)),
               EvCreate (filepath_Join [DataDir profile, backup_Path backup]), EvDump (database_Name (task_Database task)) (filepath_Join [DataDir profile, backup_Path backup]), EvOpen (filepath_Join [DataDir profile, backup_Path backup]),
               EvUploadObject (backup_Path backup) written,
               EvDriverClose, EvPatchBackup \<lparr>patch_ID = backup_ID backup, patch_Status = Some BackupStatusFailed,
                   patch_UpdaterID = SystemBotID env,
                   patch_Comment = Some (''failed to upload backup to AWS S3: '' @ Error e),
                   patch_Payload = Some []\<rparr>]"
      by (rule events_of_append)
    moreover have "files (snd (RunOnce env profile task w)) = (files w)(filepath_Join [DataDir profile, backup_Path backup] \<mapsto> written)"
      using run fs by simp
    moreover have "fst (RunOnce env profile task w) =
              (True, None,
               Some (case PatchBackup env \<lparr>patch_ID = backup_ID backup, patch_Status = Some BackupStatusFailed,
                   patch_UpdaterID = SystemBotID env,
                   patch_Comment = Some (''failed to upload backup to AWS S3: '' @ Error e),
                   patch_Payload = Some []\<rparr> of
                       Some e' \<Rightarrow> Wrap e' ''failed to patch backup''
                     | None \<Rightarrow> Wrap e ''failed to upload backup to AWS S3''))"
      using run by simp
    ultimately show "events_of w (snd (RunOnce env profile task w)) =
              [EvGetBackupByID (BackupID payload), EvGetAdminDatabaseDriver (instance_Name (task_Instance task)) (database_Name (task_Database task)),
               EvCreate (filepath_Join [DataDir profile, backup_Path backup]), EvDump (database_Name (task_Database task)) (filepath_Join [DataDir profile, backup_Path backup]), EvOpen (filepath_Join [DataDir profile, backup_Path backup]),
               EvUploadObject (backup_Path backup) written,
               EvDriverClose, EvPatchBackup \<lparr>patch_ID = backup_ID backup, patch_Status = Some BackupStatusFailed,
                   patch_UpdaterID = SystemBotID env,
                   patch_Comment = Some (''failed to upload backup to AWS S3: '' @ Error e),
                   patch_Payload = Some []\<rparr>]
          \<and> files (snd (RunOnce env profile task w)) = (files w)(filepath_Join [DataDir profile, backup_Path backup] \<mapsto> written)
          \<and> fst (RunOnce env profile task w) =
              (True, None,
               Some (case PatchBackup env \<lparr>patch_ID = backup_ID backup, patch_Status = Some BackupStatusFailed,
                   patch_UpdaterID = SystemBotID env,
                   patch_Comment = Some (''failed to upload backup to AWS S3: '' @ Error e),
                   patch_Payload = Some []\<rparr> of
                       Some e' \<Rightarrow> Wrap e' ''failed to patch backup''
                     | None \<Rightarrow> Wrap e ''failed to upload backup to AWS S3''))"
      by blast
  qed
  show ?thesis
    using ok failed by blast
qed

theorem RunOnce_s3_upload_witness:
  "files (snd (RunOnce (env_ok backup_s3) example_profile example_task world0))
      ''/data/backup/db/1/n.sql'' = None
 \<and> events_of world0 (snd (RunOnce (env_ok backup_s3) example_profile example_task world0)) =
      [EvGetBackupByID 7, EvGetAdminDatabaseDriver ''prod'' ''shop'',
       EvCreate ''/data/backup/db/1/n.sql'', EvDump ''shop'' ''/data/backup/db/1/n.sql'',
       EvOpen ''/data/backup/db/1/n.sql'', EvUploadObject ''backup/db/1/n.sql'' ''-- dump'',
       EvRemove ''/data/backup/db/1/n.sql'', EvDriverClose,
       EvPatchBackup \<lparr>patch_ID = 7, patch_Status = Some ''DONE'', patch_UpdaterID = 1,
         patch_Comment = Some [], patch_Payload = Some ''{}''\<rparr>]
 \<and> files (snd (RunOnce (env_upload_fails backup_s3) example_profile example_task world0))
      ''/data/backup/db/1/n.sql'' = Some ''-- dump''
 \<and> events_of world0 (snd (RunOnce (env_upload_fails backup_s3) example_profile example_task world0)) =
      [EvGetBackupByID 7, EvGetAdminDatabaseDriver ''prod'' ''shop'',
       EvCreate ''/data/backup/db/1/n.sql'', EvDump ''shop'' ''/data/backup/db/1/n.sql'',
       EvOpen ''/data/backup/db/1/n.sql'', EvUploadObject ''backup/db/1/n.sql'' ''-- dump'',
       EvDriverClose,
       EvPatchBackup \<lparr>patch_ID = 7, patch_Status = Some ''FAILED'', patch_UpdaterID = 1,
         patch_Comment = Some ''failed to upload backup to AWS S3: connection reset'',
         patch_Payload = Some []\<rparr>]
 \<and> fst (RunOnce (env_upload_fails backup_s3) example_profile example_task world0) =
      (True, None, Some (Wrap (New ''connection reset'') ''failed to upload backup to AWS S3''))"
proof -
  have p: "filepath_Join [DataDir example_profile, backup_Path backup_s3] = ''/data/backup/db/1/n.sql''"
    by code_simp
  have s3: "backup_StorageBackend backup_s3 = BackupStorageBackendS3"
    by (simp add: backup_s3_def BackupStorageBackendS3_def)
  have ok: "files (snd (RunOnce (env_ok backup_s3) example_profile example_task world0))
      ''/data/backup/db/1/n.sql'' = None
   \<and> events_of world0 (snd (RunOnce (env_ok backup_s3) example_profile example_task world0)) =
      [EvGetBackupByID 7, EvGetAdminDatabaseDriver ''prod'' ''shop'',
       EvCreate ''/data/backup/db/1/n.sql'', EvDump ''shop'' ''/data/backup/db/1/n.sql'',
       EvOpen ''/data/backup/db/1/n.sql'', EvUploadObject ''backup/db/1/n.sql'' ''-- dump'',
       EvRemove ''/data/backup/db/1/n.sql'', EvDriverClose,
       EvPatchBackup \<lparr>patch_ID = 7, patch_Status = Some ''DONE'', patch_UpdaterID = 1,
         patch_Comment = Some [], patch_Payload = Some ''{}''\<rparr>]"
  proof -
    have um: "unmarshal (env_ok backup_s3) (task_Payload example_task) = Inr \<lparr>BackupID = 7\<rparr>"
      by (simp add: env_ok_def)
    have gb: "GetBackupByID (env_ok backup_s3) (BackupID \<lparr>BackupID = 7\<rparr>) = Inr (Some backup_s3)"
      by (simp add: env_ok_def)
    have drv: "GetAdminDatabaseDriver (env_ok backup_s3) (task_Instance example_task)
                 (database_Name (task_Database example_task)) = None"
      by (simp add: env_ok_def)
    have cr: "create_err (env_ok backup_s3) (filepath_Join [DataDir example_profile, backup_Path backup_s3]) = None"
      by (simp add: env_ok_def)
    have dump: "Dump (env_ok backup_s3) (database_Name (task_Database example_task)) = (''-- dump'', Inr ''{}'')"
      by (simp add: env_ok_def)
    have opn: "open_err (env_ok backup_s3) (filepath_Join [DataDir example_profile, backup_Path backup_s3]) = None"
      by (simp add: env_ok_def)
    have up: "UploadObject (env_ok backup_s3) (backup_Path backup_s3) ''-- dump'' = None"
      by (simp add: env_ok_def)
    note T = RunOnce_s3_upload [OF um gb s3 drv cr dump opn, of world0, THEN conjunct1, THEN mp, OF up,
        unfolded p]
    then show ?thesis
      by (simp add: env_ok_def backup_s3_def example_task_def BackupStatusDone_def)
  qed
  have failed: "files (snd (RunOnce (env_upload_fails backup_s3) example_profile example_task world0))
      ''/data/backup/db/1/n.sql'' = Some ''-- dump''
   \<and> events_of world0 (snd (RunOnce (env_upload_fails backup_s3) example_profile example_task world0)) =
      [EvGetBackupByID 7, EvGetAdminDatabaseDriver ''prod'' ''shop'',
       EvCreate ''/data/backup/db/1/n.sql'', EvDump ''shop'' ''/data/backup/db/1/n.sql'',
       EvOpen ''/data/backup/db/1/n.sql'', EvUploadObject ''backup/db/1/n.sql'' ''-- dump'',
       EvDriverClose,
       EvPatchBackup \<lparr>patch_ID = 7, patch_Status = Some ''FAILED'', patch_UpdaterID = 1,
         patch_Comment = Some ''failed to upload backup to AWS S3: connection reset'',
         patch_Payload = Some []\<rparr>]
   \<and> fst (RunOnce (env_upload_fails backup_s3) example_profile example_task world0) =
      (True, None, Some (Wrap (New ''connection reset'') ''failed to upload backup to AWS S3''))"
  proof -
    have um: "unmarshal (env_upload_fails backup_s3) (task_Payload example_task) = Inr \<lparr>BackupID = 7\<rparr>"
      by (simp add: env_upload_fails_def env_ok_def)
    have gb: "GetBackupByID (env_upload_fails backup_s3) (BackupID \<lparr>BackupID = 7\<rparr>) = Inr (Some backup_s3)"
      by (simp add: env_upload_fails_def env_ok_def)
    have drv: "GetAdminDatabaseDriver (env_upload_fails backup_s3) (task_Instance example_task)
                 (database_Name (task_Database example_task)) = None"
      by (simp add: env_upload_fails_def env_ok_def)
    have cr: "create_err (env_upload_fails backup_s3) (filepath_Join [DataDir example_profile, backup_Path backup_s3]) = None"
      by (simp add: env_upload_fails_def env_ok_def)
    have dump: "Dump (env_upload_fails backup_s3) (database_Name (task_Database example_task)) = (''-- dump'', Inr ''{}'')"
      by (simp add: env_upload_fails_def env_ok_def)
    have opn: "open_err (env_upload_fails backup_s3) (filepath_Join [DataDir example_profile, backup_Path backup_s3]) = None"
      by (simp add: env_upload_fails_def env_ok_def)
    have up: "UploadObject (env_upload_fails backup_s3) (backup_Path backup_s3) ''-- dump'' = Some (New ''connection reset'')"
      by (simp add: env_upload_fails_def env_ok_def)
    note T = RunOnce_s3_upload [OF um gb s3 drv cr dump opn, of world0, THEN conjunct2, rule_format, OF up,
        unfolded p]
    then show ?thesis
      by (simp add: env_upload_fails_def env_ok_def backup_s3_def example_task_def BackupStatusFailed_def)
  qed
  show ?thesis
    using ok failed by simp
qed

text \<open>
  The claim as it stands fails when \<open>os.Remove\<close> fails: the dump and the upload succeed,
  the backup is patched with status \<open>DONE\<close> and \<open>RunOnce\<close> returns its result, but the
  local dump file is still there.
\<close>

theorem RunOnce_s3_upload_counterexample:
  "fst (RunOnce (env_remove_fails backup_s3) example_profile example_task world0) =
      (True, Some \<lparr>Detail = ''Backup database '' @ quote (env_remove_fails backup_s3) ''shop''\<rparr>, None)
 \<and> trace (snd (RunOnce (env_remove_fails backup_s3) example_profile example_task world0)) =
      [EvGetBackupByID 7, EvGetAdminDatabaseDriver ''prod'' ''shop'',
       EvCreate ''/data/backup/db/1/n.sql'', EvDump ''shop'' ''/data/backup/db/1/n.sql'',
       EvOpen ''/data/backup/db/1/n.sql'', EvUploadObject ''backup/db/1/n.sql'' ''-- dump'',
       EvRemove ''/data/backup/db/1/n.sql'',
       EvLogWarn ''Failed to remove the local backup file after uploading to s3 bucket.'',
       EvDriverClose,
       EvPatchBackup \<lparr>patch_ID = 7, patch_Status = Some ''DONE'', patch_UpdaterID = 1,
         patch_Comment = Some [], patch_Payload = Some ''{}''\<rparr>]
 \<and> files (snd (RunOnce (env_remove_fails backup_s3) example_profile example_task world0))
      ''/data/backup/db/1/n.sql'' = Some ''-- dump''"
  by code_simp




text \<open>
  Claim C8, amended. The file that \<open>RunOnce\<close> dumps into is the data directory joined
  with the path stored in the backup, \<open>filepath.Join(dataDir, backup.Path)\<close>: no file is
  created and nothing is dumped at any other path, the file is created and dumped into
  at that path once the space check has passed and the driver is there, and after a
  successful dump of a \<open>LOCAL\<close> backup that file holds what the driver wrote, all other
  files being as before. That path is the path of the layout,
  \<open>dataDir/backup/db/<databaseID>/<name>.sql\<close>, when the path stored in the backup is
  \<open>backup/db/<databaseID>/<name>.sql\<close> for the database and the name of the backup.
\<close>

theorem RunOnce_dump_path:
  assumes um: "unmarshal env (task_Payload task) = Inr payload"
    and gb: "GetBackupByID env (BackupID payload) = Inr (Some backup)"
  shows "(\<forall>p. EvCreate p \<in> set (events_of w (snd (RunOnce env profile task w))) \<longrightarrow> p = filepath_Join [DataDir profile, backup_Path backup])
       \<and> (\<forall>d p. EvDump d p \<in> set (events_of w (snd (RunOnce env profile task w))) \<longrightarrow> d = database_Name (task_Database task) \<and> p = filepath_Join [DataDir profile, backup_Path backup])
       \<and> (\<forall>bavail bsize. (backup_StorageBackend backup \<noteq> BackupStorageBackendLocal \<or>
         (Statfs env (filepath_Dir (filepath_Join [DataDir profile, backup_Path backup])) = Inr (bavail, bsize)
          \<and> minAvailableFSBytes \<le> bavail * bsize)) \<and> GetAdminDatabaseDriver env (task_Instance task) (database_Name (task_Database task)) = None \<longrightarrow> EvCreate (filepath_Join [DataDir profile, backup_Path backup]) \<in> set (events_of w (snd (RunOnce env profile task w))))
       \<and> (\<forall>bavail bsize. (backup_StorageBackend backup \<noteq> BackupStorageBackendLocal \<or>
         (Statfs env (filepath_Dir (filepath_Join [DataDir profile, backup_Path backup])) = Inr (bavail, bsize)
          \<and> minAvailableFSBytes \<le> bavail * bsize)) \<and> GetAdminDatabaseDriver env (task_Instance task) (database_Name (task_Database task)) = None \<and> create_err env (filepath_Join [DataDir profile, backup_Path backup]) = None \<longrightarrow> EvDump (database_Name (task_Database task)) (filepath_Join [DataDir profile, backup_Path backup]) \<in> set (events_of w (snd (RunOnce env profile task w))))
       \<and> (\<forall>bavail bsize written dumped.
             (backup_StorageBackend backup \<noteq> BackupStorageBackendLocal \<or>
         (Statfs env (filepath_Dir (filepath_Join [DataDir profile, backup_Path backup])) = Inr (bavail, bsize)
          \<and> minAvailableFSBytes \<le> bavail * bsize)) \<and> GetAdminDatabaseDriver env (task_Instance task) (database_Name (task_Database task)) = None \<and> create_err env (filepath_Join [DataDir profile, backup_Path backup]) = None \<and> Dump env (database_Name (task_Database task)) = (written, Inr dumped)
               \<and> backup_StorageBackend backup = BackupStorageBackendLocal \<longrightarrow>
             files (snd (RunOnce env profile task w)) = (files w)(filepath_Join [DataDir profile, backup_Path backup] \<mapsto> written))
       \<and> (backup_Path backup = getBackupRelativeFilePath (backup_DatabaseID backup) (backup_Name backup) \<longrightarrow>
             filepath_Join [DataDir profile, backup_Path backup] = getBackupAbsFilePath (DataDir profile) (backup_DatabaseID backup) (backup_Name backup))"
proof (intro conjI allI impI)
  fix p assume "EvCreate p \<in> set (events_of w (snd (RunOnce env profile task w)))"
  then show "p = filepath_Join [DataDir profile, backup_Path backup]"
    using RunOnce_events [OF um gb, where profile = profile and w = w] by blast
next
  fix d p assume "EvDump d p \<in> set (events_of w (snd (RunOnce env profile task w)))"
  then show "d = database_Name (task_Database task)" and "p = filepath_Join [DataDir profile, backup_Path backup]"
    using RunOnce_events [OF um gb, where profile = profile and w = w] by blast+
next
  fix bavail bsize :: "64 word"
  assume h: "(backup_StorageBackend backup \<noteq> BackupStorageBackendLocal \<or>
         (Statfs env (filepath_Dir (filepath_Join [DataDir profile, backup_Path backup])) = Inr (bavail, bsize)
          \<and> minAvailableFSBytes \<le> bavail * bsize)) \<and> GetAdminDatabaseDriver env (task_Instance task) (database_Name (task_Database task)) = None"
  from RunOnce_events_prefix(1) [OF um gb conjunct1 [OF h] conjunct2 [OF h], where w = w]
  show "EvCreate (filepath_Join [DataDir profile, backup_Path backup]) \<in> set (events_of w (snd (RunOnce env profile task w)))"
    by auto
next
  fix bavail bsize :: "64 word"
  assume h: "(backup_StorageBackend backup \<noteq> BackupStorageBackendLocal \<or>
         (Statfs env (filepath_Dir (filepath_Join [DataDir profile, backup_Path backup])) = Inr (bavail, bsize)
          \<and> minAvailableFSBytes \<le> bavail * bsize)) \<and> GetAdminDatabaseDriver env (task_Instance task) (database_Name (task_Database task)) = None \<and> create_err env (filepath_Join [DataDir profile, backup_Path backup]) = None"
  then have sp: "backup_StorageBackend backup \<noteq> BackupStorageBackendLocal \<or>
         (Statfs env (filepath_Dir (filepath_Join [DataDir profile, backup_Path backup])) = Inr (bavail, bsize)
          \<and> minAvailableFSBytes \<le> bavail * bsize)" and drv: "GetAdminDatabaseDriver env (task_Instance task) (database_Name (task_Database task)) = None" and cr: "create_err env (filepath_Join [DataDir profile, backup_Path backup]) = None"
    by blast+
  from RunOnce_events_prefix(2) [OF um gb sp drv cr, where w = w]
  show "EvDump (database_Name (task_Database task)) (filepath_Join [DataDir profile, backup_Path backup]) \<in> set (events_of w (snd (RunOnce env profile task w)))"
    by auto
next
  fix bavail bsize :: "64 word" and written dumped
  assume h: "(backup_StorageBackend backup \<noteq> BackupStorageBackendLocal \<or>
         (Statfs env (filepath_Dir (filepath_Join [DataDir profile, backup_Path backup])) = Inr (bavail, bsize)
          \<and> minAvailableFSBytes \<le> bavail * bsize)) \<and> GetAdminDatabaseDriver env (task_Instance task) (database_Name (task_Database task)) = None \<and> create_err env (filepath_Join [DataDir profile, backup_Path backup]) = None \<and> Dump env (database_Name (task_Database task)) = (written, Inr dumped)
               \<and> backup_StorageBackend backup = BackupStorageBackendLocal"
  then have sp: "backup_StorageBackend backup \<noteq> BackupStorageBackendLocal \<or>
         (Statfs env (filepath_Dir (filepath_Join [DataDir profile, backup_Path backup])) = Inr (bavail, bsize)
          \<and> minAvailableFSBytes \<le> bavail * bsize)" and drv: "GetAdminDatabaseDriver env (task_Instance task) (database_Name (task_Database task)) = None" and cr: "create_err env (filepath_Join [DataDir profile, backup_Path backup]) = None"
    and dump: "Dump env (database_Name (task_Database task)) = (written, Inr dumped)" and lo: "backup_StorageBackend backup = BackupStorageBackendLocal"
    by blast+
  let ?bd = "backupDatabase env profile (task_Instance task) (database_Name (task_Database task)) backup (if backup_StorageBackend backup = BackupStorageBackendLocal
            then emit (EvStatfs (filepath_Dir (filepath_Join [DataDir profile, backup_Path backup])))
                   (emit (EvGetBackupByID (BackupID payload)) w)
            else emit (EvGetBackupByID (BackupID payload)) w)"
  have "fst ?bd = (dumped, None)"
    using drv cr dump lo by (simp add: backupDatabase_result)
  then have bd: "?bd = ((dumped, None), snd ?bd)"
    by (simp add: prod_eq_iff)
  from RunOnce_backup_ok [OF um gb sp bd] backupDatabase_local_ok(1) [OF drv cr dump lo, of "(if backup_StorageBackend backup = BackupStorageBackendLocal
            then emit (EvStatfs (filepath_Dir (filepath_Join [DataDir profile, backup_Path backup])))
                   (emit (EvGetBackupByID (BackupID payload)) w)
            else emit (EvGetBackupByID (BackupID payload)) w)"]
  show "files (snd (RunOnce env profile task w)) = (files w)(filepath_Join [DataDir profile, backup_Path backup] \<mapsto> written)"
    using lo by simp
next
  assume "backup_Path backup = getBackupRelativeFilePath (backup_DatabaseID backup) (backup_Name backup)"
  then show "filepath_Join [DataDir profile, backup_Path backup] = getBackupAbsFilePath (DataDir profile) (backup_DatabaseID backup) (backup_Name backup)"
    by (simp add: getBackupAbsFilePath_def)
qed

theorem RunOnce_dump_path_witness:
  "EvCreate ''/data/backup/db/1/n.sql''
     \<in> set (events_of world0 (snd (RunOnce (env_ok backup_local) example_profile example_task world0)))
 \<and> EvDump ''shop'' ''/data/backup/db/1/n.sql''
     \<in> set (events_of world0 (snd (RunOnce (env_ok backup_local) example_profile example_task world0)))
 \<and> files (snd (RunOnce (env_ok backup_local) example_profile example_task world0)) =
     (files world0)(''/data/backup/db/1/n.sql'' \<mapsto> ''-- dump'')
 \<and> ''/data/backup/db/1/n.sql'' =
     getBackupAbsFilePath (DataDir example_profile) (backup_DatabaseID backup_local) (backup_Name backup_local)"
proof -
  have p: "filepath_Join [DataDir example_profile, backup_Path backup_local] = ''/data/backup/db/1/n.sql''"
    by code_simp
  have rel: "backup_Path backup_local =
               getBackupRelativeFilePath (backup_DatabaseID backup_local) (backup_Name backup_local)"
    by code_simp
  have be: "backup_StorageBackend backup_local = BackupStorageBackendLocal"
    by (simp add: backup_local_def BackupStorageBackendLocal_def)
  have um: "unmarshal (env_ok backup_local) (task_Payload example_task) = Inr \<lparr>BackupID = 7\<rparr>"
    by (simp add: env_ok_def)
  have gb: "GetBackupByID (env_ok backup_local) (BackupID \<lparr>BackupID = 7\<rparr>) = Inr (Some backup_local)"
    by (simp add: env_ok_def)
  have sp: "Statfs (env_ok backup_local)
              (filepath_Dir (filepath_Join [DataDir example_profile, backup_Path backup_local]))
            = Inr (262144, 4096) \<and> minAvailableFSBytes \<le> (262144 :: 64 word) * 4096"
    by (simp add: env_ok_def minAvailableFSBytes_def)
  have drv: "GetAdminDatabaseDriver (env_ok backup_local) (task_Instance example_task)
               (database_Name (task_Database example_task)) = None"
    by (simp add: env_ok_def)
  have cr: "create_err (env_ok backup_local)
              (filepath_Join [DataDir example_profile, backup_Path backup_local]) = None"
    by (simp add: env_ok_def)
  have dump: "Dump (env_ok backup_local) (database_Name (task_Database example_task)) = (''-- dump'', Inr ''{}'')"
    by (simp add: env_ok_def)
  note T = RunOnce_dump_path [OF um gb, where profile = example_profile and w = world0]
  have a: "EvCreate ''/data/backup/db/1/n.sql''
     \<in> set (events_of world0 (snd (RunOnce (env_ok backup_local) example_profile example_task world0)))"
    using T [THEN conjunct2, THEN conjunct2, THEN conjunct1, rule_format,
        OF conjI [OF disjI2 [OF sp] drv], unfolded p] .
  have b: "EvDump ''shop'' ''/data/backup/db/1/n.sql''
     \<in> set (events_of world0 (snd (RunOnce (env_ok backup_local) example_profile example_task world0)))"
    using T [THEN conjunct2, THEN conjunct2, THEN conjunct2, THEN conjunct1, rule_format,
        OF conjI [OF disjI2 [OF sp] conjI [OF drv cr]], unfolded p]
    by (simp add: example_task_def)
  have c: "files (snd (RunOnce (env_ok backup_local) example_profile example_task world0)) =
     (files world0)(''/data/backup/db/1/n.sql'' \<mapsto> ''-- dump'')"
    using T [THEN conjunct2, THEN conjunct2, THEN conjunct2, THEN conjunct2, THEN conjunct1, rule_format,
        OF conjI [OF disjI2 [OF sp] conjI [OF drv conjI [OF cr conjI [OF dump be]]]], unfolded p] .
  have d: "''/data/backup/db/1/n.sql'' =
     getBackupAbsFilePath (DataDir example_profile) (backup_DatabaseID backup_local) (backup_Name backup_local)"
    using T [THEN conjunct2, THEN conjunct2, THEN conjunct2, THEN conjunct2, THEN conjunct2, THEN mp,
        OF rel, unfolded p] .
  show ?thesis
    using a b c d by simp
qed

text \<open>
  The claim as it stands fails for a backup whose stored path is not the path of the
  layout: the dump of backup \<open>n\<close> of database 1 with the path \<open>other.sql\<close> goes to
  \<open>/data/other.sql\<close>, and there is no file at \<open>/data/backup/db/1/n.sql\<close>.
\<close>

theorem RunOnce_dump_path_counterexample:
  "getBackupAbsFilePath (DataDir example_profile) (backup_DatabaseID backup_other) (backup_Name backup_other)
     = ''/data/backup/db/1/n.sql''
 \<and> trace (snd (RunOnce (env_ok backup_other) example_profile example_task world0)) =
     [EvGetBackupByID 7, EvStatfs ''/data'', EvGetAdminDatabaseDriver ''prod'' ''shop'',
      EvCreate ''/data/other.sql'', EvDump ''shop'' ''/data/other.sql'', EvDriverClose,
      EvPatchBackup \<lparr>patch_ID = 7, patch_Status = Some ''DONE'', patch_UpdaterID = 1,
        patch_Comment = Some [], patch_Payload = Some ''{}''\<rparr>]
 \<and> files (snd (RunOnce (env_ok backup_other) example_profile example_task world0)) ''/data/other.sql''
     = Some ''-- dump''
 \<and> files (snd (RunOnce (env_ok backup_other) example_profile example_task world0)) ''/data/backup/db/1/n.sql''
     = None"
  by code_simp

text \<open>
  Claim C10. For a backup whose storage backend is not \<open>LOCAL\<close>, \<open>RunOnce\<close> never calls
  \<open>statfs\<close>, and what it returns and does is the same whatever \<open>statfs\<close> would have
  answered; for a \<open>LOCAL\<close> backup the call of \<open>statfs\<close> is the second call of the run.
  Without the check, the run of such a backup goes on to the driver and, once it has the
  driver, creates the local file and dumps into it; for the backend \<open>S3\<close> the object
  that is uploaded is the content that the dump has written to that local file.
\<close>

theorem RunOnce_space_check_only_local:
  assumes um: "unmarshal env (task_Payload task) = Inr payload"
    and gb: "GetBackupByID env (BackupID payload) = Inr (Some backup)"
  shows "(backup_StorageBackend backup = BackupStorageBackendLocal \<longrightarrow>
            take 2 (events_of w (snd (RunOnce env profile task w))) = [EvGetBackupByID (BackupID payload), EvStatfs (filepath_Dir (filepath_Join [DataDir profile, backup_Path backup]))])
       \<and> (backup_StorageBackend backup \<noteq> BackupStorageBackendLocal \<longrightarrow>
            (\<forall>q. EvStatfs q \<notin> set (events_of w (snd (RunOnce env profile task w))))
          \<and> (\<forall>f. RunOnce (env\<lparr>Statfs := f\<rparr>) profile task w = RunOnce env profile task w)
          \<and> (GetAdminDatabaseDriver env (task_Instance task) (database_Name (task_Database task)) = None \<longrightarrow>
                take 3 (events_of w (snd (RunOnce env profile task w))) = [EvGetBackupByID (BackupID payload), EvGetAdminDatabaseDriver (instance_Name (task_Instance task)) (database_Name (task_Database task)), EvCreate (filepath_Join [DataDir profile, backup_Path backup])])
          \<and> (GetAdminDatabaseDriver env (task_Instance task) (database_Name (task_Database task)) = None \<and> create_err env (filepath_Join [DataDir profile, backup_Path backup]) = None \<longrightarrow>
                take 4 (events_of w (snd (RunOnce env profile task w))) =
                  [EvGetBackupByID (BackupID payload), EvGetAdminDatabaseDriver (instance_Name (task_Instance task)) (database_Name (task_Database task)), EvCreate (filepath_Join [DataDir profile, backup_Path backup]), EvDump (database_Name (task_Database task)) (filepath_Join [DataDir profile, backup_Path backup])]))
       \<and> (\<forall>written dumped.
            backup_StorageBackend backup = BackupStorageBackendS3 \<and> GetAdminDatabaseDriver env (task_Instance task) (database_Name (task_Database task)) = None \<and> create_err env (filepath_Join [DataDir profile, backup_Path backup]) = None \<and> Dump env (database_Name (task_Database task)) = (written, Inr dumped) \<and> open_err env (filepath_Join [DataDir profile, backup_Path backup]) = None \<longrightarrow>
              take 6 (events_of w (snd (RunOnce env profile task w))) =
                [EvGetBackupByID (BackupID payload), EvGetAdminDatabaseDriver (instance_Name (task_Instance task)) (database_Name (task_Database task)), EvCreate (filepath_Join [DataDir profile, backup_Path backup]), EvDump (database_Name (task_Database task)) (filepath_Join [DataDir profile, backup_Path backup]),
                 EvOpen (filepath_Join [DataDir profile, backup_Path backup]), EvUploadObject (backup_Path backup) written])"
proof (intro conjI allI impI)
  assume "backup_StorageBackend backup = BackupStorageBackendLocal"
  then show "take 2 (events_of w (snd (RunOnce env profile task w))) = [EvGetBackupByID (BackupID payload), EvStatfs (filepath_Dir (filepath_Join [DataDir profile, backup_Path backup]))]"
    using RunOnce_events [OF um gb, where profile = profile and w = w] by blast
next
  fix q assume "backup_StorageBackend backup \<noteq> BackupStorageBackendLocal"
  then show "EvStatfs q \<notin> set (events_of w (snd (RunOnce env profile task w)))"
    using RunOnce_events [OF um gb, where profile = profile and w = w] by blast
next
  fix f assume "backup_StorageBackend backup \<noteq> BackupStorageBackendLocal"
  then show "RunOnce (env\<lparr>Statfs := f\<rparr>) profile task w = RunOnce env profile task w"
    by (rule RunOnce_Statfs [OF um gb])
next
  assume nl: "backup_StorageBackend backup \<noteq> BackupStorageBackendLocal" and drv: "GetAdminDatabaseDriver env (task_Instance task) (database_Name (task_Database task)) = None"
  from nl have sp: "backup_StorageBackend backup \<noteq> BackupStorageBackendLocal \<or>
         (Statfs env (filepath_Dir (filepath_Join [DataDir profile, backup_Path backup])) = Inr (0, 0) \<and> minAvailableFSBytes \<le> 0 * 0)"
    by simp
  from RunOnce_events_prefix(1) [OF um gb sp drv, where w = w] nl
  show "take 3 (events_of w (snd (RunOnce env profile task w))) = [EvGetBackupByID (BackupID payload), EvGetAdminDatabaseDriver (instance_Name (task_Instance task)) (database_Name (task_Database task)), EvCreate (filepath_Join [DataDir profile, backup_Path backup])]"
    by auto
next
  assume nl: "backup_StorageBackend backup \<noteq> BackupStorageBackendLocal" and h: "GetAdminDatabaseDriver env (task_Instance task) (database_Name (task_Database task)) = None \<and> create_err env (filepath_Join [DataDir profile, backup_Path backup]) = None"
  from nl have sp: "backup_StorageBackend backup \<noteq> BackupStorageBackendLocal \<or>
         (Statfs env (filepath_Dir (filepath_Join [DataDir profile, backup_Path backup])) = Inr (0, 0) \<and> minAvailableFSBytes \<le> 0 * 0)"
    by simp
  from RunOnce_events_prefix(2) [OF um gb sp conjunct1 [OF h] conjunct2 [OF h], where w = w] nl
  show "take 4 (events_of w (snd (RunOnce env profile task w))) =
          [EvGetBackupByID (BackupID payload), EvGetAdminDatabaseDriver (instance_Name (task_Instance task)) (database_Name (task_Database task)), EvCreate (filepath_Join [DataDir profile, backup_Path backup]), EvDump (database_Name (task_Database task)) (filepath_Join [DataDir profile, backup_Path backup])]"
    by auto
next
  fix written dumped
  assume h: "backup_StorageBackend backup = BackupStorageBackendS3 \<and> GetAdminDatabaseDriver env (task_Instance task) (database_Name (task_Database task)) = None \<and> create_err env (filepath_Join [DataDir profile, backup_Path backup]) = None \<and> Dump env (database_Name (task_Database task)) = (written, Inr dumped) \<and> open_err env (filepath_Join [DataDir profile, backup_Path backup]) = None"
  then have s3: "backup_StorageBackend backup = BackupStorageBackendS3" and drv: "GetAdminDatabaseDriver env (task_Instance task) (database_Name (task_Database task)) = None" and cr: "create_err env (filepath_Join [DataDir profile, backup_Path backup]) = None"
    and dump: "Dump env (database_Name (task_Database task)) = (written, Inr dumped)" and opn: "open_err env (filepath_Join [DataDir profile, backup_Path backup]) = None"
    by blast+
  from s3 have nl: "backup_StorageBackend backup \<noteq> BackupStorageBackendLocal"
    by simp
  from nl have sp: "backup_StorageBackend backup \<noteq> BackupStorageBackendLocal \<or>
         (Statfs env (filepath_Dir (filepath_Join [DataDir profile, backup_Path backup])) = Inr (0, 0) \<and> minAvailableFSBytes \<le> 0 * 0)"
    by simp
  from RunOnce_events_prefix(3) [OF um gb sp drv cr dump s3 opn, where w = w] nl
  show "take 6 (events_of w (snd (RunOnce env profile task w))) =
          [EvGetBackupByID (BackupID payload), EvGetAdminDatabaseDriver (instance_Name (task_Instance task)) (database_Name (task_Database task)), EvCreate (filepath_Join [DataDir profile, backup_Path backup]), EvDump (database_Name (task_Database task)) (filepath_Join [DataDir profile, backup_Path backup]),
           EvOpen (filepath_Join [DataDir profile, backup_Path backup]), EvUploadObject (backup_Path backup) written]"
    by auto
qed

theorem RunOnce_space_check_only_local_witness:
  "take 6 (events_of world0 (snd (RunOnce (env_low_space backup_s3) example_profile example_task world0))) =
     [EvGetBackupByID 7, EvGetAdminDatabaseDriver ''prod'' ''shop'',
      EvCreate ''/data/backup/db/1/n.sql'', EvDump ''shop'' ''/data/backup/db/1/n.sql'',
      EvOpen ''/data/backup/db/1/n.sql'', EvUploadObject ''backup/db/1/n.sql'' ''-- dump'']
 \<and> EvStatfs ''/data/backup/db/1''
     \<notin> set (events_of world0 (snd (RunOnce (env_low_space backup_s3) example_profile example_task world0)))
 \<and> RunOnce (env_low_space backup_s3) example_profile example_task world0 =
     RunOnce (env_ok backup_s3) example_profile example_task world0
 \<and> take 2 (events_of world0 (snd (RunOnce (env_low_space backup_local) example_profile example_task world0))) =
     [EvGetBackupByID 7, EvStatfs ''/data/backup/db/1'']"
proof -
  have p: "filepath_Join [DataDir example_profile, backup_Path backup_s3] = ''/data/backup/db/1/n.sql''"
    by code_simp
  have dir: "filepath_Dir (filepath_Join [DataDir example_profile, backup_Path backup_local]) = ''/data/backup/db/1''"
    by code_simp
  have s3: "backup_StorageBackend backup_s3 = BackupStorageBackendS3"
    by (simp add: backup_s3_def BackupStorageBackendS3_def)
  have nl: "backup_StorageBackend backup_s3 \<noteq> BackupStorageBackendLocal"
    by (simp add: backup_s3_def BackupStorageBackendLocal_def)
  have be: "backup_StorageBackend backup_local = BackupStorageBackendLocal"
    by (simp add: backup_local_def BackupStorageBackendLocal_def)
  have um: "unmarshal (env_ok backup_s3) (task_Payload example_task) = Inr \<lparr>BackupID = 7\<rparr>"
    by (simp add: env_ok_def)
  have gb: "GetBackupByID (env_ok backup_s3) (BackupID \<lparr>BackupID = 7\<rparr>) = Inr (Some backup_s3)"
    by (simp add: env_ok_def)
  have drv: "GetAdminDatabaseDriver (env_ok backup_s3) (task_Instance example_task)
               (database_Name (task_Database example_task)) = None"
    by (simp add: env_ok_def)
  have cr: "create_err (env_ok backup_s3)
              (filepath_Join [DataDir example_profile, backup_Path backup_s3]) = None"
    by (simp add: env_ok_def)
  have dump: "Dump (env_ok backup_s3) (database_Name (task_Database example_task)) = (''-- dump'', Inr ''{}'')"
    by (simp add: env_ok_def)
  have opn: "open_err (env_ok backup_s3)
              (filepath_Join [DataDir example_profile, backup_Path backup_s3]) = None"
    by (simp add: env_ok_def)
  note T = RunOnce_space_check_only_local [OF um gb, where profile = example_profile and w = world0]
  have same: "RunOnce (env_low_space backup_s3) example_profile example_task world0 =
     RunOnce (env_ok backup_s3) example_profile example_task world0"
    using T [THEN conjunct2, THEN conjunct1, THEN mp, OF nl, THEN conjunct2, THEN conjunct1,
        THEN spec, of "\<lambda>p. Inr (25600, 4096)"]
    by (simp add: env_low_space_def)
  have a: "take 6 (events_of world0 (snd (RunOnce (env_ok backup_s3) example_profile example_task world0))) =
     [EvGetBackupByID 7, EvGetAdminDatabaseDriver ''prod'' ''shop'',
      EvCreate ''/data/backup/db/1/n.sql'', EvDump ''shop'' ''/data/backup/db/1/n.sql'',
      EvOpen ''/data/backup/db/1/n.sql'', EvUploadObject ''backup/db/1/n.sql'' ''-- dump'']"
    using T [THEN conjunct2, THEN conjunct2, rule_format,
        OF conjI [OF s3 conjI [OF drv conjI [OF cr conjI [OF dump opn]]]], unfolded p]
    by (simp add: example_task_def backup_s3_def)
  have b: "EvStatfs ''/data/backup/db/1''
     \<notin> set (events_of world0 (snd (RunOnce (env_ok backup_s3) example_profile example_task world0)))"
    using T [THEN conjunct2, THEN conjunct1, THEN mp, OF nl, THEN conjunct1, THEN spec,
        of "''/data/backup/db/1''"] .
  have c: "take 2 (events_of world0 (snd (RunOnce (env_low_space backup_local) example_profile example_task world0))) =
     [EvGetBackupByID 7, EvStatfs ''/data/backup/db/1'']"
  proof -
    have um': "unmarshal (env_low_space backup_local) (task_Payload example_task) = Inr \<lparr>BackupID = 7\<rparr>"
      by (simp add: env_low_space_def env_ok_def)
    have gb': "GetBackupByID (env_low_space backup_local) (BackupID \<lparr>BackupID = 7\<rparr>) = Inr (Some backup_local)"
      by (simp add: env_low_space_def env_ok_def)
    from RunOnce_space_check_only_local [OF um' gb', where profile = example_profile and w = world0,
        THEN conjunct1, THEN mp, OF be, unfolded dir]
    show ?thesis
      by simp
  qed
  show ?thesis
    using same a b c by simp
qed

section \<open>Properties of the pipeline store\<close>

text \<open>
  Claim C3. Take a filter without an id, or with an id for which the cache has no entry,
  and a database that answers without error. Then \<open>FindPipeline\<close> opens a transaction and
  runs the query with that filter, and with the rows that match the filter in the table:
  no row gives the error with code \<open>ENOTFOUND\<close>, two rows or more give the error with
  code \<open>ECONFLICT\<close>, and exactly one row gives that row, which is also written to the
  cache under its id. The table is not changed.
\<close>

theorem FindPipeline_queries_store:
  assumes miss: "case find_ID fnd of None \<Rightarrow> True | Some i \<Rightarrow> cache s (PipelineCache, i) = None"
    and bt: "BeginTx_err env = None"
    and qe: "Query_err env = None"
    and se: "\<forall>p \<in> set (filter (where_clause fnd) (pipeline_table s)). Scan_err env p = None"
    and re: "Rows_err env = None"
  shows "fst (FindPipeline env fnd s) =
           (case filter (where_clause fnd) (pipeline_table s) of
              [] \<Rightarrow> Inl (BBError ENOTFOUND (''pipeline not found: '' @ fmt_find env fnd))
            | [p] \<Rightarrow> Inr p
            | p # q # rows \<Rightarrow>
                Inl (BBError ECONFLICT
                       (''found '' @ fmt_d (int (length (p # q # rows)))
                          @ '' pipelines with filter '' @ fmt_find env fnd @ '', expect 1'')))
       \<and> new_calls s (snd (FindPipeline env fnd s)) =
           (case find_ID fnd of None \<Rightarrow> [] | Some i \<Rightarrow> [EvFindCache PipelineCache i])
           @ [EvBeginTx, EvSelect fnd]
           @ (case filter (where_clause fnd) (pipeline_table s) of
                [p] \<Rightarrow> [EvUpsertCache PipelineCache (pipeline_ID p) p]
              | _ \<Rightarrow> [])
           @ [EvRollback]
       \<and> cache (snd (FindPipeline env fnd s)) =
           (case filter (where_clause fnd) (pipeline_table s) of
              [p] \<Rightarrow> (cache s)((PipelineCache, pipeline_ID p) \<mapsto> p)
            | _ \<Rightarrow> cache s)
       \<and> pipeline_table (snd (FindPipeline env fnd s)) = pipeline_table s"
proof -
  let ?s1 = "case find_ID fnd of None \<Rightarrow> s | Some i \<Rightarrow> log_call (EvFindCache PipelineCache i) s"
  let ?rows = "filter (where_clause fnd) (pipeline_table s)"
  have tbl: "pipeline_table ?s1 = pipeline_table s"
    by (simp split: option.split)
  have fl: "findPipelineList env (pipeline_table s) fnd (log_call EvBeginTx ?s1) =
              (Inr ?rows, log_call (EvSelect fnd) (log_call EvBeginTx ?s1))"
    using qe se re by (rule findPipelineList_ok)
  have run: "FindPipeline env fnd s =
      (case ?rows of
         [] \<Rightarrow> (Inl (BBError ENOTFOUND (''pipeline not found: '' @ fmt_find env fnd)),
                 log_call EvRollback (log_call (EvSelect fnd) (log_call EvBeginTx ?s1)))
       | [p] \<Rightarrow> (Inr p,
                 log_call EvRollback
                   ((log_call (EvUpsertCache PipelineCache (pipeline_ID p) p)
                      (log_call (EvSelect fnd) (log_call EvBeginTx ?s1)))
                    \<lparr>cache := (cache s)((PipelineCache, pipeline_ID p) \<mapsto> p)\<rparr>))
       | p # q # rows \<Rightarrow>
           (Inl (BBError ECONFLICT
                       (''found '' @ fmt_d (int (length (p # q # rows)))
                          @ '' pipelines with filter '' @ fmt_find env fnd @ '', expect 1'')),
            log_call EvRollback (log_call (EvSelect fnd) (log_call EvBeginTx ?s1))))"
  proof (cases "find_ID fnd")
    case None
    then show ?thesis
      using bt fl
      by (simp add: FindPipeline_def BeginTx_def UpsertCache_def Rollback_def Let_def
          split: list.split)
  next
    case (Some i)
    then show ?thesis
      using bt fl miss
      by (simp add: FindPipeline_def FindCache_def BeginTx_def UpsertCache_def Rollback_def Let_def
          split: list.split)
  qed
  have "calls (snd (FindPipeline env fnd s)) = calls s @
           ((case find_ID fnd of None \<Rightarrow> [] | Some i \<Rightarrow> [EvFindCache PipelineCache i])
           @ [EvBeginTx, EvSelect fnd]
           @ (case ?rows of
                [p] \<Rightarrow> [EvUpsertCache PipelineCache (pipeline_ID p) p]
              | _ \<Rightarrow> [])
           @ [EvRollback])"
    unfolding run by (simp add: log_call_def split: list.split option.split)
  then have "new_calls s (snd (FindPipeline env fnd s)) =
           (case find_ID fnd of None \<Rightarrow> [] | Some i \<Rightarrow> [EvFindCache PipelineCache i])
           @ [EvBeginTx, EvSelect fnd]
           @ (case ?rows of
                [p] \<Rightarrow> [EvUpsertCache PipelineCache (pipeline_ID p) p]
              | _ \<Rightarrow> [])
           @ [EvRollback]"
    by (rule new_calls_append)
  moreover have "fst (FindPipeline env fnd s) =
           (case ?rows of
              [] \<Rightarrow> Inl (BBError ENOTFOUND (''pipeline not found: '' @ fmt_find env fnd))
            | [p] \<Rightarrow> Inr p
            | p # q # rows \<Rightarrow>
                Inl (BBError ECONFLICT
                       (''found '' @ fmt_d (int (length (p # q # rows)))
                          @ '' pipelines with filter '' @ fmt_find env fnd @ '', expect 1'')))"
    unfolding run by (simp split: list.split)
  moreover have "cache (snd (FindPipeline env fnd s)) =
           (case ?rows of
              [p] \<Rightarrow> (cache s)((PipelineCache, pipeline_ID p) \<mapsto> p)
            | _ \<Rightarrow> cache s)"
    unfolding run by (simp add: log_call_def split: list.split option.split)
  moreover have "pipeline_table (snd (FindPipeline env fnd s)) = pipeline_table s"
    unfolding run by (simp add: log_call_def split: list.split option.split)
  ultimately show ?thesis
    by blast
qed

theorem FindPipeline_queries_store_witness:
  "fst (FindPipeline denv_ok \<lparr>find_ID = None, find_Status = Some ''OPEN''\<rparr> store0) = Inr pipeline1
 \<and> new_calls store0 (snd (FindPipeline denv_ok \<lparr>find_ID = None, find_Status = Some ''OPEN''\<rparr> store0)) =
     [EvBeginTx, EvSelect \<lparr>find_ID = None, find_Status = Some ''OPEN''\<rparr>,
      EvUpsertCache PipelineCache (pipeline_ID pipeline1) pipeline1, EvRollback]
 \<and> fst (FindPipeline denv_ok \<lparr>find_ID = Some 5, find_Status = None\<rparr> store0) =
     Inl (BBError ENOTFOUND ''pipeline not found: filter'')
 \<and> new_calls store0 (snd (FindPipeline denv_ok \<lparr>find_ID = Some 5, find_Status = None\<rparr> store0)) =
     [EvFindCache PipelineCache 5, EvBeginTx, EvSelect \<lparr>find_ID = Some 5, find_Status = None\<rparr>, EvRollback]
 \<and> fst (FindPipeline denv_ok \<lparr>find_ID = None, find_Status = None\<rparr> store0) =
     Inl (BBError ECONFLICT ''found 2 pipelines with filter filter, expect 1'')"
proof -
  have bt: "BeginTx_err denv_ok = None" and qe: "Query_err denv_ok = None"
    and re: "Rows_err denv_ok = None"
    by (simp_all add: denv_ok_def)
  have se: "\<forall>p \<in> set (filter (where_clause fnd) (pipeline_table store0)). Scan_err denv_ok p = None" for fnd
    by (simp add: denv_ok_def)
  have d2: "fmt_d (int (length [pipeline1, pipeline2])) = ''2''"
    by code_simp
  have one: "filter (where_clause \<lparr>find_ID = None, find_Status = Some ''OPEN''\<rparr>) (pipeline_table store0)
               = [pipeline1]"
    by code_simp
  have none: "filter (where_clause \<lparr>find_ID = Some 5, find_Status = None\<rparr>) (pipeline_table store0) = []"
    by code_simp
  have two: "filter (where_clause \<lparr>find_ID = None, find_Status = None\<rparr>) (pipeline_table store0)
               = [pipeline1, pipeline2]"
    by code_simp
  have m1: "case find_ID \<lparr>find_ID = None, find_Status = Some ''OPEN''\<rparr> of
              None \<Rightarrow> True | Some i \<Rightarrow> cache store0 (PipelineCache, i) = None"
    by simp
  have m2: "case find_ID \<lparr>find_ID = Some 5, find_Status = None\<rparr> of
              None \<Rightarrow> True | Some i \<Rightarrow> cache store0 (PipelineCache, i) = None"
    by (simp add: store0_def)
  have m3: "case find_ID \<lparr>find_ID = None, find_Status = None\<rparr> of
              None \<Rightarrow> True | Some i \<Rightarrow> cache store0 (PipelineCache, i) = None"
    by simp
  have a: "fst (FindPipeline denv_ok \<lparr>find_ID = None, find_Status = Some ''OPEN''\<rparr> store0) = Inr pipeline1
   \<and> new_calls store0 (snd (FindPipeline denv_ok \<lparr>find_ID = None, find_Status = Some ''OPEN''\<rparr> store0)) =
     [EvBeginTx, EvSelect \<lparr>find_ID = None, find_Status = Some ''OPEN''\<rparr>,
      EvUpsertCache PipelineCache (pipeline_ID pipeline1) pipeline1, EvRollback]"
    using FindPipeline_queries_store [OF m1 bt qe se re, unfolded one]
    by simp
  have b: "fst (FindPipeline denv_ok \<lparr>find_ID = Some 5, find_Status = None\<rparr> store0) =
     Inl (BBError ENOTFOUND ''pipeline not found: filter'')
   \<and> new_calls store0 (snd (FindPipeline denv_ok \<lparr>find_ID = Some 5, find_Status = None\<rparr> store0)) =
     [EvFindCache PipelineCache 5, EvBeginTx, EvSelect \<lparr>find_ID = Some 5, find_Status = None\<rparr>, EvRollback]"
    using FindPipeline_queries_store [OF m2 bt qe se re, unfolded none]
    by (simp add: denv_ok_def)
  have c: "fst (FindPipeline denv_ok \<lparr>find_ID = None, find_Status = None\<rparr> store0) =
     Inl (BBError ECONFLICT ''found 2 pipelines with filter filter, expect 1'')"
    using FindPipeline_queries_store [OF m3 bt qe se re, unfolded two] d2
    by (simp add: denv_ok_def)
  show ?thesis
    using a b c by simp
qed

text \<open>
  Claim C4. \<open>CreatePipeline\<close> and \<open>PatchPipeline\<close> open a transaction, run the statement
  with its \<open>RETURNING\<close> clause, commit, and then upsert the returned pipeline into the
  cache under its id; the deferred rollback comes last. The first two conjuncts give the
  result and the final state for every answer of the database. When \<open>BeginTx\<close>, the
  statement, the scan of the returned row or \<open>Commit\<close> fails, or when \<open>PatchPipeline\<close>
  finds no row, the error is returned, the state differs from the initial one in the
  recorded calls only, and \<open>UpsertCache\<close> is not among them: the cache and the committed
  table are unchanged. The last two conjuncts say the same from the result: an error
  means an unchanged cache and no call of \<open>UpsertCache\<close>.
\<close>

theorem mutation_commits_then_caches:
  "CreatePipeline env create s =
     (case BeginTx_err env of
        Some e \<Rightarrow> (Inl (FormatError env e), s\<lparr>calls := calls s @ [EvBeginTx]\<rparr>)
      | None \<Rightarrow>
          (case Query_err env of
             Some e \<Rightarrow>
               (Inl (FormatError env e),
                s\<lparr>calls := calls s @ [EvBeginTx, EvInsert create, EvRollback]\<rparr>)
           | None \<Rightarrow>
               (let row = \<lparr>pipeline_ID = fresh_id (pipeline_table s),
                           pipeline_CreatorId = create_CreatorId create,
                           pipeline_CreatedTs = now env,
                           pipeline_UpdaterId = create_CreatorId create,
                           pipeline_UpdatedTs = now env,
                           pipeline_Name = create_Name create,
                           pipeline_Status = ''OPEN''\<rparr>
                in case Scan_err env row of
                     Some e \<Rightarrow>
                       (Inl (FormatError env e),
                        s\<lparr>calls := calls s @ [EvBeginTx, EvInsert create, EvRollback]\<rparr>)
                   | None \<Rightarrow>
                       (case Commit_err env of
                          Some e \<Rightarrow>
                            (Inl (FormatError env e),
                             s\<lparr>calls := calls s @ [EvBeginTx, EvInsert create, EvCommit, EvRollback]\<rparr>)
                        | None \<Rightarrow>
                            (Inr row,
                             s\<lparr>pipeline_table := pipeline_table s @ [row],
                               cache := (cache s)((PipelineCache, pipeline_ID row) \<mapsto> row),
                               calls := calls s @ [EvBeginTx, EvInsert create, EvCommit,
                                          EvUpsertCache PipelineCache (pipeline_ID row) row,
                                          EvRollback]\<rparr>)))))
 \<and> PatchPipeline env patch s =
     (case BeginTx_err env of
        Some e \<Rightarrow> (Inl (FormatError env e), s\<lparr>calls := calls s @ [EvBeginTx]\<rparr>)
      | None \<Rightarrow>
          (case Query_err env of
             Some e \<Rightarrow>
               (Inl (FormatError env (FormatError env e)),
                s\<lparr>calls := calls s @ [EvBeginTx, EvUpdate patch, EvRollback]\<rparr>)
           | None \<Rightarrow>
               (let updated = map (\<lambda>p. if pipeline_ID p = ppatch_ID patch
                                        then p\<lparr>pipeline_UpdaterId := ppatch_UpdaterId patch,
                                               pipeline_Status := (case ppatch_Status patch of
                                                                     None \<Rightarrow> pipeline_Status p
                                                                   | Some v \<Rightarrow> v)\<rparr>
                                        else p) (pipeline_table s)
                in case filter (\<lambda>p. pipeline_ID p = ppatch_ID patch) updated of
                     [] \<Rightarrow>
                       (Inl (FormatError env (BBError ENOTFOUND
                               (''pipeline ID not found: '' @ fmt_d (ppatch_ID patch)))),
                        s\<lparr>calls := calls s @ [EvBeginTx, EvUpdate patch, EvRollback]\<rparr>)
                   | row # rows \<Rightarrow>
                       (case Scan_err env row of
                          Some e \<Rightarrow>
                            (Inl (FormatError env (FormatError env e)),
                             s\<lparr>calls := calls s @ [EvBeginTx, EvUpdate patch, EvRollback]\<rparr>)
                        | None \<Rightarrow>
                            (case Commit_err env of
                               Some e \<Rightarrow>
                                 (Inl (FormatError env e),
                                  s\<lparr>calls := calls s @ [EvBeginTx, EvUpdate patch, EvCommit, EvRollback]\<rparr>)
                             | None \<Rightarrow>
                                 (Inr row,
                                  s\<lparr>pipeline_table := updated,
                                    cache := (cache s)((PipelineCache, pipeline_ID row) \<mapsto> row),
                                    calls := calls s @ [EvBeginTx, EvUpdate patch, EvCommit,
                                               EvUpsertCache PipelineCache (pipeline_ID row) row,
                                               EvRollback]\<rparr>))))))
 \<and> (\<forall>e. fst (CreatePipeline env create s) = Inl e \<longrightarrow>
        cache (snd (CreatePipeline env create s)) = cache s
      \<and> pipeline_table (snd (CreatePipeline env create s)) = pipeline_table s
      \<and> (\<forall>ns i p. EvUpsertCache ns i p \<notin> set (new_calls s (snd (CreatePipeline env create s)))))
 \<and> (\<forall>e. fst (PatchPipeline env patch s) = Inl e \<longrightarrow>
        cache (snd (PatchPipeline env patch s)) = cache s
      \<and> pipeline_table (snd (PatchPipeline env patch s)) = pipeline_table s
      \<and> (\<forall>ns i p. EvUpsertCache ns i p \<notin> set (new_calls s (snd (PatchPipeline env patch s)))))"
proof -
  have c: "CreatePipeline env create s =
     (case BeginTx_err env of
        Some e \<Rightarrow> (Inl (FormatError env e), s\<lparr>calls := calls s @ [EvBeginTx]\<rparr>)
      | None \<Rightarrow>
          (case Query_err env of
             Some e \<Rightarrow>
               (Inl (FormatError env e),
                s\<lparr>calls := calls s @ [EvBeginTx, EvInsert create, EvRollback]\<rparr>)
           | None \<Rightarrow>
               (let row = \<lparr>pipeline_ID = fresh_id (pipeline_table s),
                           pipeline_CreatorId = create_CreatorId create,
                           pipeline_CreatedTs = now env,
                           pipeline_UpdaterId = create_CreatorId create,
                           pipeline_UpdatedTs = now env,
                           pipeline_Name = create_Name create,
                           pipeline_Status = ''OPEN''\<rparr>
                in case Scan_err env row of
                     Some e \<Rightarrow>
                       (Inl (FormatError env e),
                        s\<lparr>calls := calls s @ [EvBeginTx, EvInsert create, EvRollback]\<rparr>)
                   | None \<Rightarrow>
                       (case Commit_err env of
                          Some e \<Rightarrow>
                            (Inl (FormatError env e),
                             s\<lparr>calls := calls s @ [EvBeginTx, EvInsert create, EvCommit, EvRollback]\<rparr>)
                        | None \<Rightarrow>
                            (Inr row,
                             s\<lparr>pipeline_table := pipeline_table s @ [row],
                               cache := (cache s)((PipelineCache, pipeline_ID row) \<mapsto> row),
                               calls := calls s @ [EvBeginTx, EvInsert create, EvCommit,
                                          EvUpsertCache PipelineCache (pipeline_ID row) row,
                                          EvRollback]\<rparr>)))))"
    by (simp add: CreatePipeline_def createPipeline_def BeginTx_def Commit_def UpsertCache_def
        Rollback_def log_call_def Let_def split: option.split)
  have p: "PatchPipeline env patch s =
     (case BeginTx_err env of
        Some e \<Rightarrow> (Inl (FormatError env e), s\<lparr>calls := calls s @ [EvBeginTx]\<rparr>)
      | None \<Rightarrow>
          (case Query_err env of
             Some e \<Rightarrow>
               (Inl (FormatError env (FormatError env e)),
                s\<lparr>calls := calls s @ [EvBeginTx, EvUpdate patch, EvRollback]\<rparr>)
           | None \<Rightarrow>
               (let updated = map (\<lambda>p. if pipeline_ID p = ppatch_ID patch
                                        then p\<lparr>pipeline_UpdaterId := ppatch_UpdaterId patch,
                                               pipeline_Status := (case ppatch_Status patch of
                                                                     None \<Rightarrow> pipeline_Status p
                                                                   | Some v \<Rightarrow> v)\<rparr>
                                        else p) (pipeline_table s)
                in case filter (\<lambda>p. pipeline_ID p = ppatch_ID patch) updated of
                     [] \<Rightarrow>
                       (Inl (FormatError env (BBError ENOTFOUND
                               (''pipeline ID not found: '' @ fmt_d (ppatch_ID patch)))),
                        s\<lparr>calls := calls s @ [EvBeginTx, EvUpdate patch, EvRollback]\<rparr>)
                   | row # rows \<Rightarrow>
                       (case Scan_err env row of
                          Some e \<Rightarrow>
                            (Inl (FormatError env (FormatError env e)),
                             s\<lparr>calls := calls s @ [EvBeginTx, EvUpdate patch, EvRollback]\<rparr>)
                        | None \<Rightarrow>
                            (case Commit_err env of
                               Some e \<Rightarrow>
                                 (Inl (FormatError env e),
                                  s\<lparr>calls := calls s @ [EvBeginTx, EvUpdate patch, EvCommit, EvRollback]\<rparr>)
                             | None \<Rightarrow>
                                 (Inr row,
                                  s\<lparr>pipeline_table := updated,
                                    cache := (cache s)((PipelineCache, pipeline_ID row) \<mapsto> row),
                                    calls := calls s @ [EvBeginTx, EvUpdate patch, EvCommit,
                                               EvUpsertCache PipelineCache (pipeline_ID row) row,
                                               EvRollback]\<rparr>))))))"
    by (simp add: PatchPipeline_def patchPipeline_def BeginTx_def Commit_def UpsertCache_def
        Rollback_def log_call_def Let_def split: option.split list.split)
  have ce: "\<forall>e. fst (CreatePipeline env create s) = Inl e \<longrightarrow>
        cache (snd (CreatePipeline env create s)) = cache s
      \<and> pipeline_table (snd (CreatePipeline env create s)) = pipeline_table s
      \<and> (\<forall>ns i p. EvUpsertCache ns i p \<notin> set (new_calls s (snd (CreatePipeline env create s))))"
    unfolding c by (simp add: Let_def new_calls_def split: option.split)
  have pe: "\<forall>e. fst (PatchPipeline env patch s) = Inl e \<longrightarrow>
        cache (snd (PatchPipeline env patch s)) = cache s
      \<and> pipeline_table (snd (PatchPipeline env patch s)) = pipeline_table s
      \<and> (\<forall>ns i p. EvUpsertCache ns i p \<notin> set (new_calls s (snd (PatchPipeline env patch s))))"
    unfolding p by (simp add: Let_def new_calls_def split: option.split list.split)
  from c p ce pe show ?thesis
    by blast
qed

theorem mutation_commits_then_caches_witness:
  "fst (CreatePipeline denv_ok example_create store0) =
     Inr \<lparr>pipeline_ID = 3, pipeline_CreatorId = 12, pipeline_CreatedTs = 300,
          pipeline_UpdaterId = 12, pipeline_UpdatedTs = 300,
          pipeline_Name = ''rollout'', pipeline_Status = ''OPEN''\<rparr>
 \<and> calls (snd (CreatePipeline denv_ok example_create store0)) =
     [EvBeginTx, EvInsert example_create, EvCommit,
      EvUpsertCache PipelineCache 3
        \<lparr>pipeline_ID = 3, pipeline_CreatorId = 12, pipeline_CreatedTs = 300,
         pipeline_UpdaterId = 12, pipeline_UpdatedTs = 300,
         pipeline_Name = ''rollout'', pipeline_Status = ''OPEN''\<rparr>,
      EvRollback]
 \<and> fst (PatchPipeline denv_ok example_patch store0) =
     Inr \<lparr>pipeline_ID = 1, pipeline_CreatorId = 10, pipeline_CreatedTs = 100,
          pipeline_UpdaterId = 12, pipeline_UpdatedTs = 100,
          pipeline_Name = ''release'', pipeline_Status = ''DONE''\<rparr>
 \<and> fst (CreatePipeline denv_commit_fails example_create store0) = Inl (New ''database is locked'')
 \<and> calls (snd (CreatePipeline denv_commit_fails example_create store0)) =
     [EvBeginTx, EvInsert example_create, EvCommit, EvRollback]
 \<and> cache (snd (CreatePipeline denv_commit_fails example_create store0)) = cache store0
 \<and> pipeline_table (snd (CreatePipeline denv_commit_fails example_create store0)) = pipeline_table store0"
proof -
  have fid: "fresh_id (pipeline_table store0) = 3"
    by code_simp
  note T = mutation_commits_then_caches
    [where env = denv_ok and create = example_create and s = store0 and patch = example_patch]
  note F = mutation_commits_then_caches
    [where env = denv_commit_fails and create = example_create and s = store0 and patch = example_patch]
  have a: "fst (CreatePipeline denv_ok example_create store0) =
     Inr \<lparr>pipeline_ID = 3, pipeline_CreatorId = 12, pipeline_CreatedTs = 300,
          pipeline_UpdaterId = 12, pipeline_UpdatedTs = 300,
          pipeline_Name = ''rollout'', pipeline_Status = ''OPEN''\<rparr>
   \<and> calls (snd (CreatePipeline denv_ok example_create store0)) =
     [EvBeginTx, EvInsert example_create, EvCommit,
      EvUpsertCache PipelineCache 3
        \<lparr>pipeline_ID = 3, pipeline_CreatorId = 12, pipeline_CreatedTs = 300,
         pipeline_UpdaterId = 12, pipeline_UpdatedTs = 300,
         pipeline_Name = ''rollout'', pipeline_Status = ''OPEN''\<rparr>,
      EvRollback]"
    using T [THEN conjunct1] fid
    by (simp add: denv_ok_def store0_def example_create_def Let_def)
  have b: "fst (PatchPipeline denv_ok example_patch store0) =
     Inr \<lparr>pipeline_ID = 1, pipeline_CreatorId = 10, pipeline_CreatedTs = 100,
          pipeline_UpdaterId = 12, pipeline_UpdatedTs = 100,
          pipeline_Name = ''release'', pipeline_Status = ''DONE''\<rparr>"
    using T [THEN conjunct2, THEN conjunct1]
    by (simp add: denv_ok_def store0_def example_patch_def pipeline1_def pipeline2_def Let_def)
  have c: "fst (CreatePipeline denv_commit_fails example_create store0) = Inl (New ''database is locked'')
   \<and> calls (snd (CreatePipeline denv_commit_fails example_create store0)) =
     [EvBeginTx, EvInsert example_create, EvCommit, EvRollback]"
    using F [THEN conjunct1]
    by (simp add: denv_commit_fails_def denv_ok_def store0_def Let_def)
  have d: "cache (snd (CreatePipeline denv_commit_fails example_create store0)) = cache store0
   \<and> pipeline_table (snd (CreatePipeline denv_commit_fails example_create store0)) = pipeline_table store0"
    using F [THEN conjunct2, THEN conjunct2, THEN conjunct1, THEN spec, THEN mp, OF conjunct1 [OF c]]
    by simp
  show ?thesis
    using a b c d by simp
qed

text \<open>
  Claim C5. Let \<open>CreatePipeline\<close> or \<open>PatchPipeline\<close> return the pipeline \<open>E\<close> and leave
  the state \<open>s1\<close>. Then \<open>FindPipeline\<close>, called in \<open>s1\<close> with a filter whose id is the id
  of \<open>E\<close>, returns \<open>E\<close> itself, whatever the database answers and whatever status the
  filter asks for besides: the pipeline comes from the cache, and the probe of the cache
  is the only call made.
\<close>

theorem written_then_found:
  "(\<forall>E s1 env' st.
      CreatePipeline env create s = (Inr E, s1) \<longrightarrow>
      FindPipeline env' \<lparr>find_ID = Some (pipeline_ID E), find_Status = st\<rparr> s1 =
        (Inr E, s1\<lparr>calls := calls s1 @ [EvFindCache PipelineCache (pipeline_ID E)]\<rparr>))
 \<and> (\<forall>E s1 env' st.
      PatchPipeline env patch s = (Inr E, s1) \<longrightarrow>
      FindPipeline env' \<lparr>find_ID = Some (pipeline_ID E), find_Status = st\<rparr> s1 =
        (Inr E, s1\<lparr>calls := calls s1 @ [EvFindCache PipelineCache (pipeline_ID E)]\<rparr>))"
proof (intro conjI allI impI)
  fix E s1 env' st
  assume "CreatePipeline env create s = (Inr E, s1)"
  then have "cache s1 (PipelineCache, pipeline_ID E) = Some E"
    by (rule CreatePipeline_cached)
  then show "FindPipeline env' \<lparr>find_ID = Some (pipeline_ID E), find_Status = st\<rparr> s1 =
        (Inr E, s1\<lparr>calls := calls s1 @ [EvFindCache PipelineCache (pipeline_ID E)]\<rparr>)"
    by (intro FindPipeline_hit) simp_all
next
  fix E s1 env' st
  assume "PatchPipeline env patch s = (Inr E, s1)"
  then have "cache s1 (PipelineCache, pipeline_ID E) = Some E"
    by (rule PatchPipeline_cached)
  then show "FindPipeline env' \<lparr>find_ID = Some (pipeline_ID E), find_Status = st\<rparr> s1 =
        (Inr E, s1\<lparr>calls := calls s1 @ [EvFindCache PipelineCache (pipeline_ID E)]\<rparr>)"
    by (intro FindPipeline_hit) simp_all
qed

theorem written_then_found_witness:
  "fst (CreatePipeline denv_ok example_create store0) =
     Inr \<lparr>pipeline_ID = 3, pipeline_CreatorId = 12, pipeline_CreatedTs = 300,
          pipeline_UpdaterId = 12, pipeline_UpdatedTs = 300,
          pipeline_Name = ''rollout'', pipeline_Status = ''OPEN''\<rparr>
 \<and> fst (FindPipeline denv_commit_fails \<lparr>find_ID = Some 3, find_Status = None\<rparr>
          (snd (CreatePipeline denv_ok example_create store0))) =
     Inr \<lparr>pipeline_ID = 3, pipeline_CreatorId = 12, pipeline_CreatedTs = 300,
          pipeline_UpdaterId = 12, pipeline_UpdatedTs = 300,
          pipeline_Name = ''rollout'', pipeline_Status = ''OPEN''\<rparr>
 \<and> fst (PatchPipeline denv_ok example_patch store0) =
     Inr \<lparr>pipeline_ID = 1, pipeline_CreatorId = 10, pipeline_CreatedTs = 100,
          pipeline_UpdaterId = 12, pipeline_UpdatedTs = 100,
          pipeline_Name = ''release'', pipeline_Status = ''DONE''\<rparr>
 \<and> fst (FindPipeline denv_ok \<lparr>find_ID = Some 1, find_Status = None\<rparr>
          (snd (PatchPipeline denv_ok example_patch store0))) =
     Inr \<lparr>pipeline_ID = 1, pipeline_CreatorId = 10, pipeline_CreatedTs = 100,
          pipeline_UpdaterId = 12, pipeline_UpdatedTs = 100,
          pipeline_Name = ''release'', pipeline_Status = ''DONE''\<rparr>"
proof -
  have c: "fst (CreatePipeline denv_ok example_create store0) =
     Inr \<lparr>pipeline_ID = 3, pipeline_CreatorId = 12, pipeline_CreatedTs = 300,
          pipeline_UpdaterId = 12, pipeline_UpdatedTs = 300,
          pipeline_Name = ''rollout'', pipeline_Status = ''OPEN''\<rparr>"
    by code_simp
  have p: "fst (PatchPipeline denv_ok example_patch store0) =
     Inr \<lparr>pipeline_ID = 1, pipeline_CreatorId = 10, pipeline_CreatedTs = 100,
          pipeline_UpdaterId = 12, pipeline_UpdatedTs = 100,
          pipeline_Name = ''release'', pipeline_Status = ''DONE''\<rparr>"
    by code_simp
  from c have c': "CreatePipeline denv_ok example_create store0 =
     (Inr \<lparr>pipeline_ID = 3, pipeline_CreatorId = 12, pipeline_CreatedTs = 300,
          pipeline_UpdaterId = 12, pipeline_UpdatedTs = 300,
          pipeline_Name = ''rollout'', pipeline_Status = ''OPEN''\<rparr>,
      snd (CreatePipeline denv_ok example_create store0))"
    by (simp add: prod_eq_iff)
  from p have p': "PatchPipeline denv_ok example_patch store0 =
     (Inr \<lparr>pipeline_ID = 1, pipeline_CreatorId = 10, pipeline_CreatedTs = 100,
          pipeline_UpdaterId = 12, pipeline_UpdatedTs = 100,
          pipeline_Name = ''release'', pipeline_Status = ''DONE''\<rparr>,
      snd (PatchPipeline denv_ok example_patch store0))"
    by (simp add: prod_eq_iff)
  note T = written_then_found
    [where env = denv_ok and create = example_create and s = store0 and patch = example_patch]
  have a: "fst (FindPipeline denv_commit_fails \<lparr>find_ID = Some 3, find_Status = None\<rparr>
          (snd (CreatePipeline denv_ok example_create store0))) =
     Inr \<lparr>pipeline_ID = 3, pipeline_CreatorId = 12, pipeline_CreatedTs = 300,
          pipeline_UpdaterId = 12, pipeline_UpdatedTs = 300,
          pipeline_Name = ''rollout'', pipeline_Status = ''OPEN''\<rparr>"
    using T [THEN conjunct1, rule_format, OF c', of denv_commit_fails None]
    by simp
  have b: "fst (FindPipeline denv_ok \<lparr>find_ID = Some 1, find_Status = None\<rparr>
          (snd (PatchPipeline denv_ok example_patch store0))) =
     Inr \<lparr>pipeline_ID = 1, pipeline_CreatorId = 10, pipeline_CreatedTs = 100,
          pipeline_UpdaterId = 12, pipeline_UpdatedTs = 100,
          pipeline_Name = ''release'', pipeline_Status = ''DONE''\<rparr>"
    using T [THEN conjunct2, rule_format, OF p', of denv_ok None]
    by simp
  show ?thesis
    using c p a b by simp
qed

text \<open>
  Claim C7. \<open>FindPipeline\<close> probes the cache exactly when the filter has an id, as its
  first call and only once. On a hit it returns the cached pipeline and the probe is the
  only call it makes: no transaction is opened and the store is not touched. Without an
  id in the filter the cache is not probed at all, and the first call opens the
  transaction. Whenever there is no hit, the transaction is opened, and once it is open
  the query with the filter is run.
\<close>

theorem FindPipeline_cache_probe:
  "(\<forall>i p. find_ID fnd = Some i \<and> cache s (PipelineCache, i) = Some p \<longrightarrow>
      FindPipeline env fnd s = (Inr p, s\<lparr>calls := calls s @ [EvFindCache PipelineCache i]\<rparr>))
 \<and> (\<forall>i. find_ID fnd = Some i \<and> cache s (PipelineCache, i) = None \<longrightarrow>
      take 2 (new_calls s (snd (FindPipeline env fnd s))) = [EvFindCache PipelineCache i, EvBeginTx]
    \<and> (BeginTx_err env = None \<longrightarrow>
         take 3 (new_calls s (snd (FindPipeline env fnd s))) =
           [EvFindCache PipelineCache i, EvBeginTx, EvSelect fnd])
    \<and> (\<forall>ns j. EvFindCache ns j \<notin> set (drop 1 (new_calls s (snd (FindPipeline env fnd s))))))
 \<and> (find_ID fnd = None \<longrightarrow>
      (\<forall>ns i. EvFindCache ns i \<notin> set (new_calls s (snd (FindPipeline env fnd s))))
    \<and> take 1 (new_calls s (snd (FindPipeline env fnd s))) = [EvBeginTx]
    \<and> (BeginTx_err env = None \<longrightarrow>
         take 2 (new_calls s (snd (FindPipeline env fnd s))) = [EvBeginTx, EvSelect fnd]))"
proof (intro conjI allI impI)
  fix i p assume "find_ID fnd = Some i \<and> cache s (PipelineCache, i) = Some p"
  then show "FindPipeline env fnd s = (Inr p, s\<lparr>calls := calls s @ [EvFindCache PipelineCache i]\<rparr>)"
    using FindPipeline_hit [of fnd i s p env] by simp
next
  fix i assume h: "find_ID fnd = Some i \<and> cache s (PipelineCache, i) = None"
  then have miss: "case find_ID fnd of None \<Rightarrow> True | Some i \<Rightarrow> cache s (PipelineCache, i) = None"
    by simp
  from FindPipeline_miss_calls [OF miss, of env] h obtain rest where
    c: "calls (snd (FindPipeline env fnd s)) =
          calls s @ (EvFindCache PipelineCache i # EvBeginTx
             # (case BeginTx_err env of None \<Rightarrow> [EvSelect fnd] | Some e \<Rightarrow> []) @ rest)"
    and r: "\<forall>ns i. EvFindCache ns i \<notin> set rest"
    by auto
  from c have n: "new_calls s (snd (FindPipeline env fnd s)) =
          EvFindCache PipelineCache i # EvBeginTx
             # (case BeginTx_err env of None \<Rightarrow> [EvSelect fnd] | Some e \<Rightarrow> []) @ rest"
    by (rule new_calls_append)
  show "take 2 (new_calls s (snd (FindPipeline env fnd s))) = [EvFindCache PipelineCache i, EvBeginTx]"
    unfolding n by simp
  show "take 3 (new_calls s (snd (FindPipeline env fnd s))) =
           [EvFindCache PipelineCache i, EvBeginTx, EvSelect fnd]"
    if "BeginTx_err env = None"
    unfolding n using that by simp
  show "EvFindCache ns j \<notin> set (drop 1 (new_calls s (snd (FindPipeline env fnd s))))" for ns j
    unfolding n using r by (simp split: option.split)
next
  assume h: "find_ID fnd = None"
  then have miss: "case find_ID fnd of None \<Rightarrow> True | Some i \<Rightarrow> cache s (PipelineCache, i) = None"
    by simp
  from FindPipeline_miss_calls [OF miss, of env] h obtain rest where
    c: "calls (snd (FindPipeline env fnd s)) =
          calls s @ (EvBeginTx
             # (case BeginTx_err env of None \<Rightarrow> [EvSelect fnd] | Some e \<Rightarrow> []) @ rest)"
    and r: "\<forall>ns i. EvFindCache ns i \<notin> set rest"
    by auto
  from c have n: "new_calls s (snd (FindPipeline env fnd s)) =
          EvBeginTx # (case BeginTx_err env of None \<Rightarrow> [EvSelect fnd] | Some e \<Rightarrow> []) @ rest"
    by (rule new_calls_append)
  show "EvFindCache ns i \<notin> set (new_calls s (snd (FindPipeline env fnd s)))" for ns i
    unfolding n using r by (simp split: option.split)
  show "take 1 (new_calls s (snd (FindPipeline env fnd s))) = [EvBeginTx]"
    unfolding n by simp
  show "take 2 (new_calls s (snd (FindPipeline env fnd s))) = [EvBeginTx, EvSelect fnd]"
    if "BeginTx_err env = None"
    unfolding n using that by simp
qed

theorem FindPipeline_cache_probe_witness:
  "FindPipeline denv_ok \<lparr>find_ID = Some 1, find_Status = None\<rparr>
      (store0\<lparr>cache := [(PipelineCache, 1) \<mapsto> pipeline1]\<rparr>) =
     (Inr pipeline1,
      store0\<lparr>cache := [(PipelineCache, 1) \<mapsto> pipeline1], calls := [EvFindCache PipelineCache 1]\<rparr>)
 \<and> take 3 (new_calls store0 (snd (FindPipeline denv_ok \<lparr>find_ID = Some 1, find_Status = None\<rparr> store0))) =
     [EvFindCache PipelineCache 1, EvBeginTx, EvSelect \<lparr>find_ID = Some 1, find_Status = None\<rparr>]
 \<and> take 2 (new_calls store0 (snd (FindPipeline denv_ok \<lparr>find_ID = None, find_Status = Some ''OPEN''\<rparr> store0))) =
     [EvBeginTx, EvSelect \<lparr>find_ID = None, find_Status = Some ''OPEN''\<rparr>]"
proof -
  have bt: "BeginTx_err denv_ok = None"
    by (simp add: denv_ok_def)
  have a: "FindPipeline denv_ok \<lparr>find_ID = Some 1, find_Status = None\<rparr>
      (store0\<lparr>cache := [(PipelineCache, 1) \<mapsto> pipeline1]\<rparr>) =
     (Inr pipeline1,
      store0\<lparr>cache := [(PipelineCache, 1) \<mapsto> pipeline1], calls := [EvFindCache PipelineCache 1]\<rparr>)"
    using FindPipeline_cache_probe
      [where fnd = "\<lparr>find_ID = Some 1, find_Status = None\<rparr>"
         and s = "store0\<lparr>cache := [(PipelineCache, 1) \<mapsto> pipeline1]\<rparr>" and env = denv_ok,
       THEN conjunct1, rule_format, of 1 pipeline1]
    by (simp add: store0_def)
  have b: "take 3 (new_calls store0 (snd (FindPipeline denv_ok \<lparr>find_ID = Some 1, find_Status = None\<rparr> store0))) =
     [EvFindCache PipelineCache 1, EvBeginTx, EvSelect \<lparr>find_ID = Some 1, find_Status = None\<rparr>]"
    using FindPipeline_cache_probe
      [where fnd = "\<lparr>find_ID = Some 1, find_Status = None\<rparr>" and s = store0 and env = denv_ok,
       THEN conjunct2, THEN conjunct1, rule_format, of 1, THEN conjunct2, THEN conjunct1] bt
    by (simp add: store0_def)
  have c: "take 2 (new_calls store0 (snd (FindPipeline denv_ok \<lparr>find_ID = None, find_Status = Some ''OPEN''\<rparr> store0))) =
     [EvBeginTx, EvSelect \<lparr>find_ID = None, find_Status = Some ''OPEN''\<rparr>]"
    using FindPipeline_cache_probe
      [where fnd = "\<lparr>find_ID = None, find_Status = Some ''OPEN''\<rparr>" and s = store0 and env = denv_ok,
       THEN conjunct2, THEN conjunct2] bt
    by simp
  show ?thesis
    using a b c by simp
qed

end
